theory Spec2Isabelle
  imports Complex_Main "HOL-Library.Char_ord" "HOL-Library.List_Lexorder"
    "HOL-Library.Product_Lexorder" "HOL-Library.Option_ord" "HOL-Library.Multiset"
begin

section \<open>JSON text\<close>

text \<open>
  The list-valued fields are stored as JSON text. This section models the two platform
  functions the module calls: \<open>JSON.stringify\<close> on an array of strings (the only
  argument the module passes) and \<open>JSON.parse\<close> on any text. A string is a list of
  bytes (its UTF-8 encoding). Numbers inside JSON text are read as reals.
  An object is kept as the list of its members in source order.
\<close>

datatype jsv = JNull | JBool bool | JNum real | JStr string
  | JArr "jsv list" | JObj "(string \<times> jsv) list"

subsection \<open>\<open>JSON.stringify\<close> of a string array\<close>

text \<open>
  A string is quoted; the quote, the backslash and the control characters below 0x20
  are escaped (\<open>\b \t \n \f \r\<close>, the others as \<open>\u00XX\<close> in lower case);
  every other byte is copied. The elements are joined by commas, with no white space.
\<close>

definition hex_digit :: "nat \<Rightarrow> char" where
  "hex_digit n = (if n < 10 then char_of (48 + n) else char_of (87 + n))"

definition escape_char :: "char \<Rightarrow> string" where
  "escape_char c =
    (if c = CHR 0x22 then [CHR 0x5C, CHR 0x22]
     else if c = CHR 0x5C then [CHR 0x5C, CHR 0x5C]
     else if (of_char c :: nat) < 0x20 then
       (if c = CHR 0x08 then [CHR 0x5C, CHR ''b'']
        else if c = CHR 0x09 then [CHR 0x5C, CHR ''t'']
        else if c = CHR 0x0A then [CHR 0x5C, CHR ''n'']
        else if c = CHR 0x0C then [CHR 0x5C, CHR ''f'']
        else if c = CHR 0x0D then [CHR 0x5C, CHR ''r'']
        else [CHR 0x5C, CHR ''u'', CHR ''0'', CHR ''0'',
              hex_digit (of_char c div 16), hex_digit (of_char c mod 16)])
     else [c])"

definition quote :: "string \<Rightarrow> string" where
  "quote s = CHR 0x22 # concat (map escape_char s) @ [CHR 0x22]"

fun join_comma :: "string list \<Rightarrow> string" where
  "join_comma [] = []"
| "join_comma (x # xs) = x @ concat (map ((#) CHR '','') xs)"

definition JSON_stringify :: "string list \<Rightarrow> string" where
  "JSON_stringify xs = CHR ''['' # join_comma (map quote xs) @ [CHR '']'']"

subsection \<open>Tokens\<close>

text \<open>
  The lexer of \<open>JSON.parse\<close>. \<open>None\<close> is a lexical error. In a string, a
  \<open>\uXXXX\<close> escape yields the UTF-8 bytes of that code unit (a surrogate pair is
  read unit by unit); a raw control character is an error.
\<close>

datatype token = LBracket | RBracket | LBrace | RBrace | Comma | Colon
  | TString string | TNumber real | TTrue | TFalse | TNull

definition hex_val :: "char \<Rightarrow> nat option" where
  "hex_val c =
    (let n = of_char c :: nat in
     if 48 \<le> n \<and> n \<le> 57 then Some (n - 48)
     else if 97 \<le> n \<and> n \<le> 102 then Some (n - 87)
     else if 65 \<le> n \<and> n \<le> 70 then Some (n - 55)
     else None)"

definition hex4 :: "char \<Rightarrow> char \<Rightarrow> char \<Rightarrow> char \<Rightarrow> nat option" where
  "hex4 a b c d =
    (case (hex_val a, hex_val b, hex_val c, hex_val d) of
       (Some w, Some x, Some y, Some z) \<Rightarrow> Some (4096 * w + 256 * x + 16 * y + z)
     | _ \<Rightarrow> None)"

definition utf8_encode :: "nat \<Rightarrow> string" where
  "utf8_encode n =
    (if n < 0x80 then [char_of n]
     else if n < 0x800 then [char_of (0xC0 + n div 64), char_of (0x80 + n mod 64)]
     else [char_of (0xE0 + n div 4096), char_of (0x80 + n div 64 mod 64), char_of (0x80 + n mod 64)])"

definition unescape :: "char \<Rightarrow> char option" where
  "unescape e =
    (if e = CHR 0x22 \<or> e = CHR 0x5C \<or> e = CHR ''/'' then Some e
     else if e = CHR ''b'' then Some (CHR 0x08)
     else if e = CHR ''f'' then Some (CHR 0x0C)
     else if e = CHR ''n'' then Some (CHR 0x0A)
     else if e = CHR ''r'' then Some (CHR 0x0D)
     else if e = CHR ''t'' then Some (CHR 0x09)
     else None)"

definition prepend :: "string \<Rightarrow> (string \<times> string) option \<Rightarrow> (string \<times> string) option" where
  "prepend p r = map_option (\<lambda>(s, rest). (p @ s, rest)) r"

fun lex_string :: "string \<Rightarrow> (string \<times> string) option" where
  "lex_string [] = None"
| "lex_string (c # cs) =
    (if c = CHR 0x22 then Some ([], cs)
     else if c = CHR 0x5C then
       (case cs of
          [] \<Rightarrow> None
        | e # es \<Rightarrow>
            if e = CHR ''u'' then
              (case es of
                 h1 # h2 # h3 # h4 # r \<Rightarrow>
                   (case hex4 h1 h2 h3 h4 of
                      None \<Rightarrow> None
                    | Some n \<Rightarrow> prepend (utf8_encode n) (lex_string r))
               | _ \<Rightarrow> None)
            else
              (case unescape e of
                 None \<Rightarrow> None
               | Some d \<Rightarrow> prepend [d] (lex_string es)))
     else if (of_char c :: nat) < 0x20 then None
     else prepend [c] (lex_string cs))"

text \<open>The rest returned by \<open>lex_string\<close> is shorter than its input: the lexer terminates.\<close>

lemma lex_string_shorter_aux: "lex_string s = Some p \<Longrightarrow> length (snd p) < length s"
proof (induction s arbitrary: p rule: lex_string.induct)
  case 1
  then show ?case by simp
next
  case (2 c cs)
  show ?case
  proof (cases "c = CHR 0x22")
    case True
    with "2.prems" show ?thesis by auto
  next
    case nq: False
    show ?thesis
    proof (cases "c = CHR 0x5C")
      case False
      with nq "2.prems" "2.IH"(3) show ?thesis
        by (fastforce simp: prepend_def split: if_splits)
    next
      case bs: True
      then obtain e es where cs: "cs = e # es"
        using "2.prems" nq by (cases cs) auto
      show ?thesis
      proof (cases "e = CHR ''u''")
        case False
        with nq bs cs "2.prems" "2.IH"(2) show ?thesis
          by (fastforce simp: prepend_def split: option.splits)
      next
        case True
        with nq bs cs "2.prems" "2.IH"(1) show ?thesis
          by (fastforce simp: prepend_def split: option.splits list.splits)
      qed
    qed
  qed
qed

lemma lex_string_shorter: "lex_string s = Some (r, rest) \<Longrightarrow> length rest < length s"
  using lex_string_shorter_aux by fastforce


text \<open>
  A number is \<open>-? (0 | [1-9][0-9]*) (.[0-9]+)? ([eE][+-]?[0-9]+)?\<close>; the lexeme is the
  longest run of characters that can occur in a number, and it must match as a whole.
\<close>

definition is_digit :: "char \<Rightarrow> bool" where
  "is_digit c = (48 \<le> (of_char c :: nat) \<and> (of_char c :: nat) \<le> 57)"

definition number_char :: "char \<Rightarrow> bool" where
  "number_char c = (is_digit c \<or> c \<in> set ''+-.eE'')"

definition digits_value :: "string \<Rightarrow> nat" where
  "digits_value ds = foldl (\<lambda>a d. 10 * a + (of_char d - 48)) 0 ds"

definition split_sign :: "string \<Rightarrow> bool \<times> string" where
  "split_sign s = (case s of c # r \<Rightarrow> if c = CHR ''-'' then (True, r) else (False, s) | [] \<Rightarrow> (False, s))"

definition split_fraction :: "string \<Rightarrow> string option \<times> string" where
  "split_fraction s =
    (case s of
       c # r \<Rightarrow> if c = CHR ''.'' then (Some (takeWhile is_digit r), dropWhile is_digit r) else (None, s)
     | [] \<Rightarrow> (None, s))"

definition split_exponent :: "string \<Rightarrow> (bool \<times> string) option \<times> string" where
  "split_exponent s =
    (case s of
       c # r \<Rightarrow>
         if c = CHR ''e'' \<or> c = CHR ''E'' then
           (case r of
              g # r' \<Rightarrow>
                if g = CHR ''-'' then (Some (True, takeWhile is_digit r'), dropWhile is_digit r')
                else if g = CHR ''+'' then (Some (False, takeWhile is_digit r'), dropWhile is_digit r')
                else (Some (False, takeWhile is_digit r), dropWhile is_digit r)
            | [] \<Rightarrow> (Some (False, []), []))
         else (None, s)
     | [] \<Rightarrow> (None, s))"

definition number_value :: "string \<Rightarrow> real option" where
  "number_value s =
    (let (neg, s1) = split_sign s;
         ip = takeWhile is_digit s1;
         (fp, s2) = split_fraction (dropWhile is_digit s1);
         (ex, s3) = split_exponent s2;
         frac = (case fp of None \<Rightarrow> [] | Some ds \<Rightarrow> ds);
         mant = real (digits_value (ip @ frac)) / 10 ^ length frac;
         scaled = (case ex of
                     None \<Rightarrow> mant
                   | Some (eneg, ds) \<Rightarrow>
                       if eneg then mant / 10 ^ digits_value ds else mant * 10 ^ digits_value ds)
     in if ip = [] \<or> (1 < length ip \<and> hd ip = CHR ''0'') \<or> fp = Some []
           \<or> (case ex of None \<Rightarrow> False | Some (_, ds) \<Rightarrow> ds = []) \<or> s3 \<noteq> []
        then None
        else Some (if neg then - scaled else scaled))"

definition whitespace :: "char \<Rightarrow> bool" where
  "whitespace c = (c = CHR 0x20 \<or> c = CHR 0x09 \<or> c = CHR 0x0A \<or> c = CHR 0x0D)"

definition emit :: "token \<Rightarrow> token list option \<Rightarrow> token list option" where
  "emit t r = map_option (Cons t) r"

function lex :: "string \<Rightarrow> token list option" where
  "lex [] = Some []"
| "lex (c # cs) =
    (if whitespace c then lex cs
     else if c = CHR ''['' then emit LBracket (lex cs)
     else if c = CHR '']'' then emit RBracket (lex cs)
     else if c = CHR ''{'' then emit LBrace (lex cs)
     else if c = CHR ''}'' then emit RBrace (lex cs)
     else if c = CHR '','' then emit Comma (lex cs)
     else if c = CHR '':'' then emit Colon (lex cs)
     else if c = CHR 0x22 then
       (case lex_string cs of
          None \<Rightarrow> None
        | Some (s, rest) \<Rightarrow> emit (TString s) (lex rest))
     else if c = CHR ''-'' \<or> is_digit c then
       (case number_value (c # takeWhile number_char cs) of
          None \<Rightarrow> None
        | Some x \<Rightarrow> emit (TNumber x) (lex (dropWhile number_char cs)))
     else if take 4 (c # cs) = ''true'' then emit TTrue (lex (drop 3 cs))
     else if take 5 (c # cs) = ''false'' then emit TFalse (lex (drop 4 cs))
     else if take 4 (c # cs) = ''null'' then emit TNull (lex (drop 3 cs))
     else None)"
  by pat_completeness auto
termination
  by (relation "measure length")
     (auto dest: lex_string_shorter simp: less_Suc_eq_le length_dropWhile_le)

subsection \<open>Values\<close>

text \<open>
  The parser keeps a stack of the arrays and objects that are open. \<open>parse_value\<close>
  expects a value, \<open>parse_after\<close> has just read one. A closing bracket is a value
  position only directly after the opening one. Every error of \<open>JSON.parse\<close> is a
  SyntaxError; the other errors of the module are a TypeError and the constraint
  violations SQLite reports.
\<close>

datatype frame = InArr "jsv list" | InObj "(string \<times> jsv) list" string

datatype constraint = NOTNULL | CHECK | PRIMARYKEY | UNIQUE | FOREIGNKEY

datatype error = SyntaxError | TypeError | SqliteError constraint

fun parse_value :: "frame list \<Rightarrow> token list \<Rightarrow> error + jsv"
  and parse_after :: "jsv \<Rightarrow> frame list \<Rightarrow> token list \<Rightarrow> error + jsv" where
  "parse_value ks [] = Inl SyntaxError"
| "parse_value ks (t # ts) =
    (case t of
       TString s \<Rightarrow> parse_after (JStr s) ks ts
     | TNumber x \<Rightarrow> parse_after (JNum x) ks ts
     | TTrue \<Rightarrow> parse_after (JBool True) ks ts
     | TFalse \<Rightarrow> parse_after (JBool False) ks ts
     | TNull \<Rightarrow> parse_after JNull ks ts
     | LBracket \<Rightarrow> parse_value (InArr [] # ks) ts
     | RBracket \<Rightarrow>
         (case ks of
            InArr [] # ks' \<Rightarrow> parse_after (JArr []) ks' ts
          | _ \<Rightarrow> Inl SyntaxError)
     | LBrace \<Rightarrow>
         (case ts of
            RBrace # ts' \<Rightarrow> parse_after (JObj []) ks ts'
          | TString k # Colon # ts' \<Rightarrow> parse_value (InObj [] k # ks) ts'
          | _ \<Rightarrow> Inl SyntaxError)
     | _ \<Rightarrow> Inl SyntaxError)"
| "parse_after v ks [] = (case ks of [] \<Rightarrow> Inr v | _ \<Rightarrow> Inl SyntaxError)"
| "parse_after v ks (t # ts) =
    (case ks of
       [] \<Rightarrow> Inl SyntaxError
     | InArr acc # ks' \<Rightarrow>
         (case t of
            Comma \<Rightarrow> parse_value (InArr (v # acc) # ks') ts
          | RBracket \<Rightarrow> parse_after (JArr (rev (v # acc))) ks' ts
          | _ \<Rightarrow> Inl SyntaxError)
     | InObj ms k # ks' \<Rightarrow>
         (case t of
            Comma \<Rightarrow>
              (case ts of
                 TString k' # Colon # ts' \<Rightarrow> parse_value (InObj ((k, v) # ms) k' # ks') ts'
               | _ \<Rightarrow> Inl SyntaxError)
          | RBrace \<Rightarrow> parse_after (JObj (rev ((k, v) # ms))) ks' ts
          | _ \<Rightarrow> Inl SyntaxError))"

definition JSON_parse :: "string \<Rightarrow> error + jsv" where
  "JSON_parse s = (case lex s of None \<Rightarrow> Inl SyntaxError | Some ts \<Rightarrow> parse_value [] ts)"

text \<open>The tokens of the text \<open>JSON.stringify\<close> produces for a string array.\<close>

fun tokens_of :: "string list \<Rightarrow> token list" where
  "tokens_of [] = []"
| "tokens_of (x # xs) = TString x # concat (map (\<lambda>y. [Comma, TString y]) xs)"

section \<open>JavaScript values at the repository boundary\<close>

text \<open>
  A field of a domain object is absent (\<open>undefined\<close>), \<open>null\<close> or a value.
  The driver binds both \<open>undefined\<close> and \<open>null\<close> as SQL NULL and reads
  NULL back as \<open>null\<close>. Numbers are only stored, read and tested for truthiness,
  so they are modelled as reals (no NaN, no infinities).
\<close>

datatype 'a js = Undefined | Null | Val 'a

fun bind :: "'a js \<Rightarrow> 'a option" where
  "bind (Val x) = Some x"
| "bind Null = None"
| "bind Undefined = None"

fun column :: "'a option \<Rightarrow> 'a js" where
  "column (Some x) = Val x"
| "column None = Null"

fun truthy_str :: "string js \<Rightarrow> bool" where
  "truthy_str (Val s) = (s \<noteq> [])"
| "truthy_str Null = False"
| "truthy_str Undefined = False"

fun truthy_num :: "real js \<Rightarrow> bool" where
  "truthy_num (Val x) = (x \<noteq> 0)"
| "truthy_num Null = False"
| "truthy_num Undefined = False"

fun truthy_bool :: "bool js \<Rightarrow> bool" where
  "truthy_bool (Val b) = b"
| "truthy_bool Null = False"
| "truthy_bool Undefined = False"

text \<open>Arrays and objects are truthy whenever they are present.\<close>

fun truthy_obj :: "'a js \<Rightarrow> bool" where
  "truthy_obj (Val x) = True"
| "truthy_obj Null = False"
| "truthy_obj Undefined = False"

text \<open>\<open>a || d\<close> for a string field and a string default, and for a number.\<close>

definition or_str :: "string js \<Rightarrow> string \<Rightarrow> string js" where
  "or_str a d = (if truthy_str a then a else Val d)"

definition or_num :: "real js \<Rightarrow> real \<Rightarrow> real js" where
  "or_num a d = (if truthy_num a then a else Val d)"

text \<open>\<open>row.col || d\<close> on a TEXT column: NULL and the empty string are falsy.\<close>

definition text_or :: "string option \<Rightarrow> string \<Rightarrow> string" where
  "text_or v d = (case v of None \<Rightarrow> d | Some s \<Rightarrow> if s = [] then d else s)"

text \<open>\<open>Boolean(row.col)\<close> on a numeric column.\<close>

definition Boolean :: "real option \<Rightarrow> bool" where
  "Boolean v = (case v of None \<Rightarrow> False | Some x \<Rightarrow> x \<noteq> 0)"

text \<open>
  \<open>JSON.stringify\<close> of an optional string array: \<open>undefined\<close> gives
  \<open>undefined\<close> (bound as NULL), \<open>null\<close> gives the text \<open>null\<close>.
\<close>

fun stringify :: "string list js \<Rightarrow> string option" where
  "stringify (Val xs) = Some (JSON_stringify xs)"
| "stringify Null = Some ''null''"
| "stringify Undefined = None"

text \<open>
  \<open>JSON.parse(row.col)\<close> on a TEXT column: the argument is converted to a string
  first, so NULL (read as \<open>null\<close>) is parsed as the text \<open>null\<close>.
\<close>

definition JSON_parse_column :: "string option \<Rightarrow> error + jsv" where
  "JSON_parse_column v = (case v of None \<Rightarrow> Inr JNull | Some s \<Rightarrow> JSON_parse s)"

text \<open>The decimal rendering of a number inside a template literal.\<close>

function string_of_nat :: "nat \<Rightarrow> string" where
  "string_of_nat n =
    (if n < 10 then [''0123456789'' ! n]
     else string_of_nat (n div 10) @ [''0123456789'' ! (n mod 10)])"
  by pat_completeness auto
termination
  by (relation "measure id") auto

declare string_of_nat.simps [simp del]

text \<open>
  The clock readings of one call: \<open>Date.now()\<close>, \<open>new Date().toISOString()\<close>
  and SQLite's \<open>CURRENT_TIMESTAMP\<close> (the default of \<open>created_at\<close> and
  \<open>updated_at\<close>).
\<close>

record clock =
  Date_now :: nat
  toISOString :: string
  CURRENT_TIMESTAMP :: string

section \<open>The schema\<close>

text \<open>
  One record per table of \<open>createTables\<close>; every column is nullable in the row type
  (\<open>None\<close> is NULL) and the declared constraints are checked by the statements.
  INTEGER, REAL and BOOLEAN columns hold numbers, the others text.
\<close>

record customers_row =
  c_id :: "string option"
  c_name :: "string option"
  c_phone :: "string option"
  c_email :: "string option"
  c_gender :: "string option"
  c_visit_count :: "real option"
  c_total_spent :: "real option"
  c_last_visit :: "string option"
  c_preferred_services :: "string option"
  c_notes :: "string option"
  c_photo :: "string option"
  c_created_at :: "string option"
  c_updated_at :: "string option"

record employees_row =
  e_id :: "string option"
  e_name :: "string option"
  e_role :: "string option"
  e_email :: "string option"
  e_phone :: "string option"
  e_photo :: "string option"
  e_available :: "real option"
  e_specialties :: "string option"
  e_rating :: "real option"
  e_next_available :: "string option"
  e_working_hours_start :: "string option"
  e_working_hours_end :: "string option"
  e_created_at :: "string option"
  e_updated_at :: "string option"

record services_row =
  s_id :: "string option"
  s_name :: "string option"
  s_duration :: "real option"
  s_price :: "real option"
  s_category :: "string option"
  s_description :: "string option"
  s_created_at :: "string option"
  s_updated_at :: "string option"

record appointments_row =
  a_id :: "string option"
  a_customer_id :: "string option"
  a_employee_id :: "string option"
  a_service_ids :: "string option"
  a_date :: "string option"
  a_time :: "string option"
  a_status :: "string option"
  a_total :: "real option"
  a_notes :: "string option"
  a_created_at :: "string option"
  a_updated_at :: "string option"

record tally_items_row =
  t_id :: "string option"
  t_date :: "string option"
  t_time :: "string option"
  t_customer_name :: "string option"
  t_customer_phone :: "string option"
  t_staff_name :: "string option"
  t_services :: "string option"
  t_total_cost :: "real option"
  t_payment_method :: "string option"
  t_payment_status :: "string option"
  t_payment_date :: "string option"
  t_upi_transaction_id :: "string option"
  t_created_at :: "string option"
  t_updated_at :: "string option"

record products_row =
  p_id :: "string option"
  p_name :: "string option"
  p_price :: "real option"
  p_image :: "string option"
  p_category :: "string option"
  p_stock :: "real option"
  p_description :: "string option"
  p_brand :: "string option"
  p_created_at :: "string option"
  p_updated_at :: "string option"

text \<open>The database: six tables, each in rowid order.\<close>

record db =
  customers :: "customers_row list"
  employees :: "employees_row list"
  services :: "services_row list"
  appointments :: "appointments_row list"
  tally_items :: "tally_items_row list"
  products :: "products_row list"

definition empty_db :: db where
  "empty_db = \<lparr>customers = [], employees = [], services = [], appointments = [],
     tally_items = [], products = []\<rparr>"

text \<open>
  \<open>createTables\<close>: every statement is \<open>CREATE TABLE IF NOT EXISTS\<close>. A fresh
  file (\<open>None\<close>) gets six empty tables, an existing database is left as it is.
\<close>

definition createTables :: "db option \<Rightarrow> db" where
  "createTables file = (case file of None \<Rightarrow> empty_db | Some d \<Rightarrow> d)"

subsection \<open>Constraints\<close>

text \<open>
  A PRIMARY KEY or UNIQUE column rejects a value that is not NULL and already stored.
  SQLite tests NOT NULL first, then CHECK, then the unique indexes, the one declared
  last first (\<open>customers.phone\<close> before \<open>customers.id\<close>); a CHECK on NULL
  passes.
\<close>

definition taken :: "'a option \<Rightarrow> 'a option list \<Rightarrow> bool" where
  "taken v vs = (v \<noteq> None \<and> v \<in> set vs)"

definition check_in :: "string option \<Rightarrow> string list \<Rightarrow> bool" where
  "check_in v allowed = (case v of None \<Rightarrow> True | Some s \<Rightarrow> s \<in> set allowed)"

definition customers_violation :: "customers_row \<Rightarrow> customers_row list \<Rightarrow> constraint option" where
  "customers_violation r others =
    (if c_name r = None \<or> c_phone r = None \<or> c_gender r = None then Some NOTNULL
     else if \<not> check_in (c_gender r) [''male'', ''female''] then Some CHECK
     else if taken (c_phone r) (map c_phone others) then Some UNIQUE
     else if taken (c_id r) (map c_id others) then Some PRIMARYKEY
     else None)"

definition employees_violation :: "employees_row \<Rightarrow> employees_row list \<Rightarrow> constraint option" where
  "employees_violation r others =
    (if e_name r = None \<or> e_role r = None then Some NOTNULL
     else if taken (e_id r) (map e_id others) then Some PRIMARYKEY
     else None)"

definition services_violation :: "services_row \<Rightarrow> services_row list \<Rightarrow> constraint option" where
  "services_violation r others =
    (if s_name r = None \<or> s_duration r = None \<or> s_price r = None \<or> s_category r = None
       then Some NOTNULL
     else if taken (s_id r) (map s_id others) then Some PRIMARYKEY
     else None)"

definition appointments_violation ::
  "appointments_row \<Rightarrow> appointments_row list \<Rightarrow> constraint option" where
  "appointments_violation r others =
    (if a_customer_id r = None \<or> a_employee_id r = None \<or> a_service_ids r = None
        \<or> a_date r = None \<or> a_time r = None \<or> a_total r = None then Some NOTNULL
     else if \<not> check_in (a_status r) [''scheduled'', ''completed'', ''cancelled''] then Some CHECK
     else if taken (a_id r) (map a_id others) then Some PRIMARYKEY
     else None)"

definition tally_items_violation ::
  "tally_items_row \<Rightarrow> tally_items_row list \<Rightarrow> constraint option" where
  "tally_items_violation r others =
    (if t_date r = None \<or> t_time r = None \<or> t_customer_name r = None
        \<or> t_customer_phone r = None \<or> t_staff_name r = None \<or> t_services r = None
        \<or> t_total_cost r = None \<or> t_payment_method r = None then Some NOTNULL
     else if \<not> check_in (t_payment_method r) [''cash'', ''card'', ''upi'']
        \<or> \<not> check_in (t_payment_status r) [''pending'', ''completed'', ''failed'', ''cancelled'']
       then Some CHECK
     else if taken (t_id r) (map t_id others) then Some PRIMARYKEY
     else None)"

definition products_violation :: "products_row \<Rightarrow> products_row list \<Rightarrow> constraint option" where
  "products_violation r others =
    (if p_name r = None \<or> p_price r = None \<or> p_category r = None then Some NOTNULL
     else if taken (p_id r) (map p_id others) then Some PRIMARYKEY
     else None)"

text \<open>
  An UPDATE tests again only the constraints that mention a column of its SET list: NOT
  NULL of an assigned column, a CHECK over an assigned column, a unique index over an
  assigned column. The argument \<open>cols\<close> is the SET list.
\<close>

definition customers_update_violation ::
  "string list \<Rightarrow> customers_row \<Rightarrow> customers_row list \<Rightarrow> constraint option" where
  "customers_update_violation cols r others =
    (if (''name'' \<in> set cols \<and> c_name r = None) \<or> (''phone'' \<in> set cols \<and> c_phone r = None)
        \<or> (''gender'' \<in> set cols \<and> c_gender r = None) then Some NOTNULL
     else if ''gender'' \<in> set cols \<and> \<not> check_in (c_gender r) [''male'', ''female'']
       then Some CHECK
     else if ''phone'' \<in> set cols \<and> taken (c_phone r) (map c_phone others) then Some UNIQUE
     else if ''id'' \<in> set cols \<and> taken (c_id r) (map c_id others) then Some PRIMARYKEY
     else None)"

definition employees_update_violation ::
  "string list \<Rightarrow> employees_row \<Rightarrow> employees_row list \<Rightarrow> constraint option" where
  "employees_update_violation cols r others =
    (if (''name'' \<in> set cols \<and> e_name r = None) \<or> (''role'' \<in> set cols \<and> e_role r = None)
       then Some NOTNULL
     else if ''id'' \<in> set cols \<and> taken (e_id r) (map e_id others) then Some PRIMARYKEY
     else None)"

definition services_update_violation ::
  "string list \<Rightarrow> services_row \<Rightarrow> services_row list \<Rightarrow> constraint option" where
  "services_update_violation cols r others =
    (if (''name'' \<in> set cols \<and> s_name r = None) \<or> (''duration'' \<in> set cols \<and> s_duration r = None)
        \<or> (''price'' \<in> set cols \<and> s_price r = None)
        \<or> (''category'' \<in> set cols \<and> s_category r = None) then Some NOTNULL
     else if ''id'' \<in> set cols \<and> taken (s_id r) (map s_id others) then Some PRIMARYKEY
     else None)"

definition appointments_update_violation ::
  "string list \<Rightarrow> appointments_row \<Rightarrow> appointments_row list \<Rightarrow> constraint option" where
  "appointments_update_violation cols r others =
    (if (''customer_id'' \<in> set cols \<and> a_customer_id r = None)
        \<or> (''employee_id'' \<in> set cols \<and> a_employee_id r = None)
        \<or> (''service_ids'' \<in> set cols \<and> a_service_ids r = None)
        \<or> (''date'' \<in> set cols \<and> a_date r = None) \<or> (''time'' \<in> set cols \<and> a_time r = None)
        \<or> (''total'' \<in> set cols \<and> a_total r = None) then Some NOTNULL
     else if ''status'' \<in> set cols
        \<and> \<not> check_in (a_status r) [''scheduled'', ''completed'', ''cancelled''] then Some CHECK
     else if ''id'' \<in> set cols \<and> taken (a_id r) (map a_id others) then Some PRIMARYKEY
     else None)"

definition tally_items_update_violation ::
  "string list \<Rightarrow> tally_items_row \<Rightarrow> tally_items_row list \<Rightarrow> constraint option" where
  "tally_items_update_violation cols r others =
    (if (''date'' \<in> set cols \<and> t_date r = None) \<or> (''time'' \<in> set cols \<and> t_time r = None)
        \<or> (''customer_name'' \<in> set cols \<and> t_customer_name r = None)
        \<or> (''customer_phone'' \<in> set cols \<and> t_customer_phone r = None)
        \<or> (''staff_name'' \<in> set cols \<and> t_staff_name r = None)
        \<or> (''services'' \<in> set cols \<and> t_services r = None)
        \<or> (''total_cost'' \<in> set cols \<and> t_total_cost r = None)
        \<or> (''payment_method'' \<in> set cols \<and> t_payment_method r = None) then Some NOTNULL
     else if (''payment_method'' \<in> set cols
                \<and> \<not> check_in (t_payment_method r) [''cash'', ''card'', ''upi''])
        \<or> (''payment_status'' \<in> set cols
                \<and> \<not> check_in (t_payment_status r) [''pending'', ''completed'', ''failed'', ''cancelled''])
       then Some CHECK
     else if ''id'' \<in> set cols \<and> taken (t_id r) (map t_id others) then Some PRIMARYKEY
     else None)"

definition products_update_violation ::
  "string list \<Rightarrow> products_row \<Rightarrow> products_row list \<Rightarrow> constraint option" where
  "products_update_violation cols r others =
    (if (''name'' \<in> set cols \<and> p_name r = None) \<or> (''price'' \<in> set cols \<and> p_price r = None)
        \<or> (''category'' \<in> set cols \<and> p_category r = None) then Some NOTNULL
     else if ''id'' \<in> set cols \<and> taken (p_id r) (map p_id others) then Some PRIMARYKEY
     else None)"

subsection \<open>Statements\<close>

text \<open>
  A statement either fails with the first violated constraint and changes nothing, or
  returns the new table. \<open>sql_update\<close> and \<open>sql_delete\<close> are
  \<open>... WHERE id = ?\<close>; an updated row is tested against the rows it does not
  replace. \<open>sql_get\<close> is \<open>stmt.get(id)\<close>, the first matching row or none.
\<close>

definition guard :: "constraint option \<Rightarrow> 'a \<Rightarrow> error + 'a" where
  "guard v x = (case v of None \<Rightarrow> Inr x | Some k \<Rightarrow> Inl (SqliteError k))"

fun first_violation :: "constraint option list \<Rightarrow> constraint option" where
  "first_violation [] = None"
| "first_violation (None # vs) = first_violation vs"
| "first_violation (Some k # vs) = Some k"

definition sql_insert ::
  "('r \<Rightarrow> 'r list \<Rightarrow> constraint option) \<Rightarrow> 'r \<Rightarrow> 'r list \<Rightarrow> error + 'r list" where
  "sql_insert violation r rows = guard (violation r rows) (rows @ [r])"

definition sql_update ::
  "('r \<Rightarrow> 'r list \<Rightarrow> constraint option) \<Rightarrow> ('r \<Rightarrow> string option) \<Rightarrow> string \<Rightarrow> ('r \<Rightarrow> 'r)
     \<Rightarrow> 'r list \<Rightarrow> error + 'r list" where
  "sql_update violation key i f rows =
    guard
      (first_violation
        (map (\<lambda>r. violation (f r) (filter (\<lambda>x. key x \<noteq> Some i) rows))
          (filter (\<lambda>r. key r = Some i) rows)))
      (map (\<lambda>r. if key r = Some i then f r else r) rows)"

definition sql_delete :: "('r \<Rightarrow> string option) \<Rightarrow> string \<Rightarrow> 'r list \<Rightarrow> 'r list" where
  "sql_delete key i rows = filter (\<lambda>r. key r \<noteq> Some i) rows"

definition sql_get :: "('r \<Rightarrow> string option) \<Rightarrow> string \<Rightarrow> 'r list \<Rightarrow> 'r option" where
  "sql_get key i rows = find (\<lambda>r. key r = Some i) rows"

text \<open>
  The SET list of an UPDATE built by \<open>fields.push('col = ?'); values.push(v)\<close>: an
  entry is the column with the assignment of the bound value. \<open>push_if\<close> is the
  guarded push, \<open>set_list\<close> gives the columns named, \<open>assign\<close> runs the
  assignments on a row.
\<close>

definition push_if :: "bool \<Rightarrow> 'a \<Rightarrow> 'a list" where
  "push_if b x = (if b then [x] else [])"

definition set_list :: "(string \<times> ('r \<Rightarrow> 'r)) list \<Rightarrow> string list" where
  "set_list fs = map fst fs"

definition assign :: "(string \<times> ('r \<Rightarrow> 'r)) list \<Rightarrow> 'r \<Rightarrow> 'r" where
  "assign fs r = fold snd fs r"

text \<open>\<open>rows.map(row => ...)\<close> where the callback may throw.\<close>

fun map_result :: "('a \<Rightarrow> error + 'b) \<Rightarrow> 'a list \<Rightarrow> error + 'b list" where
  "map_result f [] = Inr []"
| "map_result f (x # xs) =
    (case f x of
       Inl e \<Rightarrow> Inl e
     | Inr y \<Rightarrow> (case map_result f xs of Inl e \<Rightarrow> Inl e | Inr ys \<Rightarrow> Inr (y # ys)))"

section \<open>Domain objects\<close>

text \<open>
  The application's object shapes. The list-valued field is a type parameter: a caller
  passes a string array (\<open>string list js\<close>), a read returns whatever
  \<open>JSON.parse\<close> produced (\<open>jsv\<close>).
\<close>

record 'l Customer =
  C_id :: "string js"
  C_name :: "string js"
  C_phone :: "string js"
  C_email :: "string js"
  C_gender :: "string js"
  C_visitCount :: "real js"
  C_totalSpent :: "real js"
  C_lastVisit :: "string js"
  C_preferredServices :: 'l
  C_notes :: "string js"
  C_photo :: "string js"

record WorkingHours =
  wh_start :: "string js"
  wh_end :: "string js"

record 'l Employee =
  E_id :: "string js"
  E_name :: "string js"
  E_role :: "string js"
  E_email :: "string js"
  E_phone :: "string js"
  E_photo :: "string js"
  E_available :: "bool js"
  E_specialties :: 'l
  E_rating :: "real js"
  E_nextAvailable :: "string js"
  E_workingHours :: "WorkingHours js"

record Service =
  S_id :: "string js"
  S_name :: "string js"
  S_duration :: "real js"
  S_price :: "real js"
  S_category :: "string js"
  S_description :: "string js"

record 'l Appointment =
  A_id :: "string js"
  A_customerId :: "string js"
  A_employeeId :: "string js"
  A_serviceIds :: 'l
  A_date :: "string js"
  A_time :: "string js"
  A_status :: "string js"
  A_total :: "real js"
  A_notes :: "string js"

record 'l TallyItem =
  T_id :: "string js"
  T_date :: "string js"
  T_time :: "string js"
  T_customerName :: "string js"
  T_customerPhone :: "string js"
  T_staffName :: "string js"
  T_services :: 'l
  T_totalCost :: "real js"
  T_paymentMethod :: "string js"
  T_paymentStatus :: "string js"
  T_paymentDate :: "string js"
  T_upiTransactionId :: "string js"

record Product =
  P_id :: "string js"
  P_name :: "string js"
  P_price :: "real js"
  P_image :: "string js"
  P_category :: "string js"
  P_stock :: "real js"
  P_description :: "string js"
  P_brand :: "string js"

section \<open>Customer operations\<close>

definition Customer_of_row :: "customers_row \<Rightarrow> error + jsv Customer" where
  "Customer_of_row row =
    (case JSON_parse (text_or (c_preferred_services row) ''[]'') of
       Inl e \<Rightarrow> Inl e
     | Inr v \<Rightarrow>
         Inr \<lparr>C_id = column (c_id row), C_name = column (c_name row),
              C_phone = column (c_phone row), C_email = column (c_email row),
              C_gender = column (c_gender row), C_visitCount = column (c_visit_count row),
              C_totalSpent = column (c_total_spent row), C_lastVisit = column (c_last_visit row),
              C_preferredServices = v, C_notes = column (c_notes row),
              C_photo = column (c_photo row)\<rparr>)"

definition customerDb_getAll :: "db \<Rightarrow> error + jsv Customer list" where
  "customerDb_getAll d = map_result Customer_of_row (sort_key c_name (customers d))"

text \<open>The result \<open>None\<close> is \<open>null\<close>.\<close>

definition customerDb_getById :: "string \<Rightarrow> db \<Rightarrow> error + jsv Customer option" where
  "customerDb_getById i d =
    (case sql_get c_id i (customers d) of
       None \<Rightarrow> Inr None
     | Some row \<Rightarrow> (case Customer_of_row row of Inl e \<Rightarrow> Inl e | Inr c \<Rightarrow> Inr (Some c)))"

definition customerDb_create ::
  "clock \<Rightarrow> string list js Customer \<Rightarrow> db \<Rightarrow> error + (string list js Customer \<times> db)" where
  "customerDb_create clk customer d =
    (let id = ''cust-'' @ string_of_nat (Date_now clk);
         now = toISOString clk;
         row = \<lparr>c_id = Some id, c_name = bind (C_name customer),
                c_phone = bind (C_phone customer), c_email = bind (C_email customer),
                c_gender = bind (C_gender customer), c_visit_count = Some 0,
                c_total_spent = Some 0, c_last_visit = Some now,
                c_preferred_services = stringify (C_preferredServices customer),
                c_notes = bind (or_str (C_notes customer) ''''),
                c_photo = bind (C_photo customer),
                c_created_at = Some (CURRENT_TIMESTAMP clk),
                c_updated_at = Some (CURRENT_TIMESTAMP clk)\<rparr>
     in case sql_insert customers_violation row (customers d) of
          Inl e \<Rightarrow> Inl e
        | Inr rows \<Rightarrow>
            Inr (customer\<lparr>C_id := Val id, C_visitCount := Val 0, C_totalSpent := Val 0,
                   C_lastVisit := Val now\<rparr>,
                 d\<lparr>customers := rows\<rparr>))"

definition customerDb_update_fields ::
  "clock \<Rightarrow> string list js Customer \<Rightarrow> (string \<times> (customers_row \<Rightarrow> customers_row)) list" where
  "customerDb_update_fields clk updates =
    push_if (truthy_str (C_name updates)) (''name'', \<lambda>r. r\<lparr>c_name := bind (C_name updates)\<rparr>) @
    push_if (truthy_str (C_phone updates)) (''phone'', \<lambda>r. r\<lparr>c_phone := bind (C_phone updates)\<rparr>) @
    push_if (C_email updates \<noteq> Undefined) (''email'', \<lambda>r. r\<lparr>c_email := bind (C_email updates)\<rparr>) @
    push_if (truthy_str (C_gender updates)) (''gender'', \<lambda>r. r\<lparr>c_gender := bind (C_gender updates)\<rparr>) @
    push_if (C_visitCount updates \<noteq> Undefined)
      (''visit_count'', \<lambda>r. r\<lparr>c_visit_count := bind (C_visitCount updates)\<rparr>) @
    push_if (C_totalSpent updates \<noteq> Undefined)
      (''total_spent'', \<lambda>r. r\<lparr>c_total_spent := bind (C_totalSpent updates)\<rparr>) @
    push_if (truthy_str (C_lastVisit updates))
      (''last_visit'', \<lambda>r. r\<lparr>c_last_visit := bind (C_lastVisit updates)\<rparr>) @
    push_if (truthy_obj (C_preferredServices updates))
      (''preferred_services'', \<lambda>r. r\<lparr>c_preferred_services := stringify (C_preferredServices updates)\<rparr>) @
    push_if (C_notes updates \<noteq> Undefined) (''notes'', \<lambda>r. r\<lparr>c_notes := bind (C_notes updates)\<rparr>) @
    push_if (C_photo updates \<noteq> Undefined) (''photo'', \<lambda>r. r\<lparr>c_photo := bind (C_photo updates)\<rparr>) @
    [(''updated_at'', \<lambda>r. r\<lparr>c_updated_at := Some (toISOString clk)\<rparr>)]"

definition customerDb_update ::
  "clock \<Rightarrow> string \<Rightarrow> string list js Customer \<Rightarrow> db \<Rightarrow> error + db" where
  "customerDb_update clk i updates d =
    (let fs = customerDb_update_fields clk updates
     in case sql_update (customers_update_violation (set_list fs)) c_id i (assign fs)
               (customers d) of
          Inl e \<Rightarrow> Inl e
        | Inr rows \<Rightarrow> Inr (d\<lparr>customers := rows\<rparr>))"

text \<open>
  With \<open>foreign_keys = ON\<close> a DELETE that removes a customer still referenced by an
  appointment fails.
\<close>

definition customerDb_delete :: "string \<Rightarrow> db \<Rightarrow> error + db" where
  "customerDb_delete i d =
    (if sql_get c_id i (customers d) \<noteq> None \<and> Some i \<in> set (map a_customer_id (appointments d))
     then Inl (SqliteError FOREIGNKEY)
     else Inr (d\<lparr>customers := sql_delete c_id i (customers d)\<rparr>))"

section \<open>Employee operations\<close>

definition Employee_of_row :: "employees_row \<Rightarrow> error + jsv Employee" where
  "Employee_of_row row =
    (case JSON_parse (text_or (e_specialties row) ''[]'') of
       Inl e \<Rightarrow> Inl e
     | Inr v \<Rightarrow>
         Inr \<lparr>E_id = column (e_id row), E_name = column (e_name row),
              E_role = column (e_role row), E_email = column (e_email row),
              E_phone = column (e_phone row), E_photo = column (e_photo row),
              E_available = Val (Boolean (e_available row)), E_specialties = v,
              E_rating = column (e_rating row), E_nextAvailable = column (e_next_available row),
              E_workingHours = Val \<lparr>wh_start = column (e_working_hours_start row),
                                     wh_end = column (e_working_hours_end row)\<rparr>\<rparr>)"

definition employeeDb_getAll :: "db \<Rightarrow> error + jsv Employee list" where
  "employeeDb_getAll d = map_result Employee_of_row (sort_key e_name (employees d))"

text \<open>\<open>employee.workingHours?.start\<close> and \<open>?.end\<close>.\<close>

definition opt_start :: "WorkingHours js \<Rightarrow> string js" where
  "opt_start w = (case w of Val h \<Rightarrow> wh_start h | _ \<Rightarrow> Undefined)"

definition opt_end :: "WorkingHours js \<Rightarrow> string js" where
  "opt_end w = (case w of Val h \<Rightarrow> wh_end h | _ \<Rightarrow> Undefined)"

definition employeeDb_create ::
  "clock \<Rightarrow> string list js Employee \<Rightarrow> db \<Rightarrow> error + (string list js Employee \<times> db)" where
  "employeeDb_create clk employee d =
    (let id = ''emp-'' @ string_of_nat (Date_now clk);
         row = \<lparr>e_id = Some id, e_name = bind (E_name employee), e_role = bind (E_role employee),
                e_email = bind (or_str (E_email employee) ''''),
                e_phone = bind (or_str (E_phone employee) ''''),
                e_photo = bind (E_photo employee),
                e_available = Some (if truthy_bool (E_available employee) then 1 else 0),
                e_specialties =
                  stringify (if truthy_obj (E_specialties employee) then E_specialties employee
                             else Val []),
                e_rating = bind (or_num (E_rating employee) 5),
                e_next_available = bind (or_str (E_nextAvailable employee) ''Now''),
                e_working_hours_start = bind (or_str (opt_start (E_workingHours employee)) ''09:00''),
                e_working_hours_end = bind (or_str (opt_end (E_workingHours employee)) ''18:00''),
                e_created_at = Some (CURRENT_TIMESTAMP clk),
                e_updated_at = Some (CURRENT_TIMESTAMP clk)\<rparr>
     in case sql_insert employees_violation row (employees d) of
          Inl e \<Rightarrow> Inl e
        | Inr rows \<Rightarrow> Inr (employee\<lparr>E_id := Val id\<rparr>, d\<lparr>employees := rows\<rparr>))"

definition employeeDb_update_fields ::
  "clock \<Rightarrow> string list js Employee \<Rightarrow> (string \<times> (employees_row \<Rightarrow> employees_row)) list" where
  "employeeDb_update_fields clk updates =
    push_if (truthy_str (E_name updates)) (''name'', \<lambda>r. r\<lparr>e_name := bind (E_name updates)\<rparr>) @
    push_if (truthy_str (E_role updates)) (''role'', \<lambda>r. r\<lparr>e_role := bind (E_role updates)\<rparr>) @
    push_if (E_email updates \<noteq> Undefined) (''email'', \<lambda>r. r\<lparr>e_email := bind (E_email updates)\<rparr>) @
    push_if (E_phone updates \<noteq> Undefined) (''phone'', \<lambda>r. r\<lparr>e_phone := bind (E_phone updates)\<rparr>) @
    push_if (E_photo updates \<noteq> Undefined) (''photo'', \<lambda>r. r\<lparr>e_photo := bind (E_photo updates)\<rparr>) @
    push_if (E_available updates \<noteq> Undefined)
      (''available'', \<lambda>r. r\<lparr>e_available := Some (if truthy_bool (E_available updates) then 1 else 0)\<rparr>) @
    push_if (truthy_obj (E_specialties updates))
      (''specialties'', \<lambda>r. r\<lparr>e_specialties := stringify (E_specialties updates)\<rparr>) @
    push_if (E_rating updates \<noteq> Undefined) (''rating'', \<lambda>r. r\<lparr>e_rating := bind (E_rating updates)\<rparr>) @
    push_if (E_nextAvailable updates \<noteq> Undefined)
      (''next_available'', \<lambda>r. r\<lparr>e_next_available := bind (E_nextAvailable updates)\<rparr>) @
    push_if (truthy_obj (E_workingHours updates))
      (''working_hours_start'',
       \<lambda>r. r\<lparr>e_working_hours_start := bind (opt_start (E_workingHours updates))\<rparr>) @
    push_if (truthy_obj (E_workingHours updates))
      (''working_hours_end'',
       \<lambda>r. r\<lparr>e_working_hours_end := bind (opt_end (E_workingHours updates))\<rparr>) @
    [(''updated_at'', \<lambda>r. r\<lparr>e_updated_at := Some (toISOString clk)\<rparr>)]"

definition employeeDb_update ::
  "clock \<Rightarrow> string \<Rightarrow> string list js Employee \<Rightarrow> db \<Rightarrow> error + db" where
  "employeeDb_update clk i updates d =
    (let fs = employeeDb_update_fields clk updates
     in case sql_update (employees_update_violation (set_list fs)) e_id i (assign fs)
               (employees d) of
          Inl e \<Rightarrow> Inl e
        | Inr rows \<Rightarrow> Inr (d\<lparr>employees := rows\<rparr>))"

definition employeeDb_delete :: "string \<Rightarrow> db \<Rightarrow> error + db" where
  "employeeDb_delete i d =
    (if sql_get e_id i (employees d) \<noteq> None \<and> Some i \<in> set (map a_employee_id (appointments d))
     then Inl (SqliteError FOREIGNKEY)
     else Inr (d\<lparr>employees := sql_delete e_id i (employees d)\<rparr>))"

section \<open>Appointment operations\<close>

definition Appointment_of_row :: "appointments_row \<Rightarrow> error + jsv Appointment" where
  "Appointment_of_row row =
    (case JSON_parse_column (a_service_ids row) of
       Inl e \<Rightarrow> Inl e
     | Inr v \<Rightarrow>
         Inr \<lparr>A_id = column (a_id row), A_customerId = column (a_customer_id row),
              A_employeeId = column (a_employee_id row), A_serviceIds = v,
              A_date = column (a_date row), A_time = column (a_time row),
              A_status = column (a_status row), A_total = column (a_total row),
              A_notes = column (a_notes row)\<rparr>)"

definition appointmentDb_getAll :: "db \<Rightarrow> error + jsv Appointment list" where
  "appointmentDb_getAll d =
    map_result Appointment_of_row (sort_key (\<lambda>r. (a_date r, a_time r)) (appointments d))"

text \<open>
  The insert checks the table's own constraints and then the two foreign keys. The
  function returns nothing.
\<close>

definition appointmentDb_create :: "clock \<Rightarrow> string list js Appointment \<Rightarrow> db \<Rightarrow> error + db" where
  "appointmentDb_create clk appointment d =
    (let row = \<lparr>a_id = bind (A_id appointment), a_customer_id = bind (A_customerId appointment),
                a_employee_id = bind (A_employeeId appointment),
                a_service_ids = stringify (A_serviceIds appointment),
                a_date = bind (A_date appointment), a_time = bind (A_time appointment),
                a_status = bind (A_status appointment), a_total = bind (A_total appointment),
                a_notes = bind (or_str (A_notes appointment) ''''),
                a_created_at = Some (CURRENT_TIMESTAMP clk),
                a_updated_at = Some (CURRENT_TIMESTAMP clk)\<rparr>
     in case sql_insert appointments_violation row (appointments d) of
          Inl e \<Rightarrow> Inl e
        | Inr rows \<Rightarrow>
            if a_customer_id row \<in> set (map c_id (customers d))
               \<and> a_employee_id row \<in> set (map e_id (employees d))
            then Inr (d\<lparr>appointments := rows\<rparr>)
            else Inl (SqliteError FOREIGNKEY))"

definition appointmentDb_update_fields ::
  "clock \<Rightarrow> string list js Appointment \<Rightarrow> (string \<times> (appointments_row \<Rightarrow> appointments_row)) list" where
  "appointmentDb_update_fields clk updates =
    push_if (truthy_str (A_status updates)) (''status'', \<lambda>r. r\<lparr>a_status := bind (A_status updates)\<rparr>) @
    push_if (A_notes updates \<noteq> Undefined) (''notes'', \<lambda>r. r\<lparr>a_notes := bind (A_notes updates)\<rparr>) @
    push_if (A_total updates \<noteq> Undefined) (''total'', \<lambda>r. r\<lparr>a_total := bind (A_total updates)\<rparr>) @
    [(''updated_at'', \<lambda>r. r\<lparr>a_updated_at := Some (toISOString clk)\<rparr>)]"

definition appointmentDb_update ::
  "clock \<Rightarrow> string \<Rightarrow> string list js Appointment \<Rightarrow> db \<Rightarrow> error + db" where
  "appointmentDb_update clk i updates d =
    (let fs = appointmentDb_update_fields clk updates
     in case sql_update (appointments_update_violation (set_list fs)) a_id i (assign fs)
               (appointments d) of
          Inl e \<Rightarrow> Inl e
        | Inr rows \<Rightarrow> Inr (d\<lparr>appointments := rows\<rparr>))"

section \<open>Tally operations\<close>

definition TallyItem_of_row :: "tally_items_row \<Rightarrow> error + jsv TallyItem" where
  "TallyItem_of_row row =
    (case JSON_parse_column (t_services row) of
       Inl e \<Rightarrow> Inl e
     | Inr v \<Rightarrow>
         Inr \<lparr>T_id = column (t_id row), T_date = column (t_date row),
              T_time = column (t_time row), T_customerName = column (t_customer_name row),
              T_customerPhone = column (t_customer_phone row),
              T_staffName = column (t_staff_name row), T_services = v,
              T_totalCost = column (t_total_cost row),
              T_paymentMethod = column (t_payment_method row),
              T_paymentStatus = column (t_payment_status row),
              T_paymentDate = column (t_payment_date row),
              T_upiTransactionId = column (t_upi_transaction_id row)\<rparr>)"

text \<open>
  \<open>ORDER BY date DESC, time DESC\<close>: descending, rows with equal keys in rowid order
  (as in the ascending sorts, where \<open>sort_key\<close> is stable).
\<close>

definition tallyDb_getAll :: "db \<Rightarrow> error + jsv TallyItem list" where
  "tallyDb_getAll d =
    map_result TallyItem_of_row
      (rev (sort_key (\<lambda>r. (t_date r, t_time r)) (rev (tally_items d))))"

text \<open>The INSERT names no \<open>upi_transaction_id\<close>, so the column takes its default, NULL.\<close>

definition tallyDb_create ::
  "clock \<Rightarrow> string list js TallyItem \<Rightarrow> db \<Rightarrow> error + (string list js TallyItem \<times> db)" where
  "tallyDb_create clk item d =
    (let id = ''tally-'' @ string_of_nat (Date_now clk);
         paymentDate = toISOString clk;
         row = \<lparr>t_id = Some id, t_date = bind (T_date item), t_time = bind (T_time item),
                t_customer_name = bind (T_customerName item),
                t_customer_phone = bind (T_customerPhone item),
                t_staff_name = bind (T_staffName item),
                t_services = stringify (T_services item),
                t_total_cost = bind (T_totalCost item),
                t_payment_method = bind (T_paymentMethod item),
                t_payment_status = bind (T_paymentStatus item),
                t_payment_date = Some paymentDate, t_upi_transaction_id = None,
                t_created_at = Some (CURRENT_TIMESTAMP clk),
                t_updated_at = Some (CURRENT_TIMESTAMP clk)\<rparr>
     in case sql_insert tally_items_violation row (tally_items d) of
          Inl e \<Rightarrow> Inl e
        | Inr rows \<Rightarrow>
            Inr (item\<lparr>T_id := Val id, T_paymentDate := Val paymentDate,
                   T_upiTransactionId := Undefined\<rparr>,
                 d\<lparr>tally_items := rows\<rparr>))"

text \<open>\<open>upiTransactionId || null\<close> is bound to the second placeholder.\<close>

definition tallyDb_updatePaymentStatus ::
  "clock \<Rightarrow> string \<Rightarrow> string \<Rightarrow> string js \<Rightarrow> db \<Rightarrow> error + db" where
  "tallyDb_updatePaymentStatus clk i status upiTransactionId d =
    (case sql_update
            (tally_items_update_violation [''payment_status'', ''upi_transaction_id'', ''updated_at''])
            t_id i
            (\<lambda>r. r\<lparr>t_payment_status := Some status,
                    t_upi_transaction_id :=
                      bind (if truthy_str upiTransactionId then upiTransactionId else Null),
                    t_updated_at := Some (toISOString clk)\<rparr>)
            (tally_items d) of
       Inl e \<Rightarrow> Inl e
     | Inr rows \<Rightarrow> Inr (d\<lparr>tally_items := rows\<rparr>))"

section \<open>Service operations\<close>

text \<open>\<open>getAll\<close> returns the rows as the driver delivers them.\<close>

definition serviceDb_getAll :: "db \<Rightarrow> services_row list" where
  "serviceDb_getAll d = sort_key s_name (services d)"

definition serviceDb_create :: "clock \<Rightarrow> Service \<Rightarrow> db \<Rightarrow> error + db" where
  "serviceDb_create clk service d =
    (let row = \<lparr>s_id = bind (S_id service), s_name = bind (S_name service),
                s_duration = bind (S_duration service), s_price = bind (S_price service),
                s_category = bind (S_category service),
                s_description = bind (S_description service),
                s_created_at = Some (CURRENT_TIMESTAMP clk),
                s_updated_at = Some (CURRENT_TIMESTAMP clk)\<rparr>
     in case sql_insert services_violation row (services d) of
          Inl e \<Rightarrow> Inl e
        | Inr rows \<Rightarrow> Inr (d\<lparr>services := rows\<rparr>))"

definition serviceDb_update_fields :: "clock \<Rightarrow> Service \<Rightarrow> (string \<times> (services_row \<Rightarrow> services_row)) list" where
  "serviceDb_update_fields clk updates =
    push_if (truthy_str (S_name updates)) (''name'', \<lambda>r. r\<lparr>s_name := bind (S_name updates)\<rparr>) @
    push_if (S_duration updates \<noteq> Undefined) (''duration'', \<lambda>r. r\<lparr>s_duration := bind (S_duration updates)\<rparr>) @
    push_if (S_price updates \<noteq> Undefined) (''price'', \<lambda>r. r\<lparr>s_price := bind (S_price updates)\<rparr>) @
    push_if (truthy_str (S_category updates)) (''category'', \<lambda>r. r\<lparr>s_category := bind (S_category updates)\<rparr>) @
    push_if (S_description updates \<noteq> Undefined)
      (''description'', \<lambda>r. r\<lparr>s_description := bind (S_description updates)\<rparr>) @
    [(''updated_at'', \<lambda>r. r\<lparr>s_updated_at := Some (toISOString clk)\<rparr>)]"

definition serviceDb_update :: "clock \<Rightarrow> string \<Rightarrow> Service \<Rightarrow> db \<Rightarrow> error + db" where
  "serviceDb_update clk i updates d =
    (let fs = serviceDb_update_fields clk updates
     in case sql_update (services_update_violation (set_list fs)) s_id i (assign fs)
               (services d) of
          Inl e \<Rightarrow> Inl e
        | Inr rows \<Rightarrow> Inr (d\<lparr>services := rows\<rparr>))"

definition serviceDb_delete :: "string \<Rightarrow> db \<Rightarrow> error + db" where
  "serviceDb_delete i d = Inr (d\<lparr>services := sql_delete s_id i (services d)\<rparr>)"

section \<open>Product operations\<close>

definition productDb_getAll :: "db \<Rightarrow> products_row list" where
  "productDb_getAll d = sort_key p_name (products d)"

definition productDb_create :: "clock \<Rightarrow> Product \<Rightarrow> db \<Rightarrow> error + db" where
  "productDb_create clk product d =
    (let row = \<lparr>p_id = bind (P_id product), p_name = bind (P_name product),
                p_price = bind (P_price product), p_image = bind (P_image product),
                p_category = bind (P_category product), p_stock = bind (P_stock product),
                p_description = bind (P_description product), p_brand = bind (P_brand product),
                p_created_at = Some (CURRENT_TIMESTAMP clk),
                p_updated_at = Some (CURRENT_TIMESTAMP clk)\<rparr>
     in case sql_insert products_violation row (products d) of
          Inl e \<Rightarrow> Inl e
        | Inr rows \<Rightarrow> Inr (d\<lparr>products := rows\<rparr>))"

definition productDb_update_fields :: "clock \<Rightarrow> Product \<Rightarrow> (string \<times> (products_row \<Rightarrow> products_row)) list" where
  "productDb_update_fields clk updates =
    push_if (truthy_str (P_name updates)) (''name'', \<lambda>r. r\<lparr>p_name := bind (P_name updates)\<rparr>) @
    push_if (P_price updates \<noteq> Undefined) (''price'', \<lambda>r. r\<lparr>p_price := bind (P_price updates)\<rparr>) @
    push_if (P_image updates \<noteq> Undefined) (''image'', \<lambda>r. r\<lparr>p_image := bind (P_image updates)\<rparr>) @
    push_if (truthy_str (P_category updates)) (''category'', \<lambda>r. r\<lparr>p_category := bind (P_category updates)\<rparr>) @
    push_if (P_stock updates \<noteq> Undefined) (''stock'', \<lambda>r. r\<lparr>p_stock := bind (P_stock updates)\<rparr>) @
    push_if (P_description updates \<noteq> Undefined)
      (''description'', \<lambda>r. r\<lparr>p_description := bind (P_description updates)\<rparr>) @
    push_if (truthy_str (P_brand updates)) (''brand'', \<lambda>r. r\<lparr>p_brand := bind (P_brand updates)\<rparr>) @
    [(''updated_at'', \<lambda>r. r\<lparr>p_updated_at := Some (toISOString clk)\<rparr>)]"

definition productDb_update :: "clock \<Rightarrow> string \<Rightarrow> Product \<Rightarrow> db \<Rightarrow> error + db" where
  "productDb_update clk i updates d =
    (let fs = productDb_update_fields clk updates
     in case sql_update (products_update_violation (set_list fs)) p_id i (assign fs)
               (products d) of
          Inl e \<Rightarrow> Inl e
        | Inr rows \<Rightarrow> Inr (d\<lparr>products := rows\<rparr>))"

definition productDb_delete :: "string \<Rightarrow> db \<Rightarrow> error + db" where
  "productDb_delete i d = Inr (d\<lparr>products := sql_delete p_id i (products d)\<rparr>)"

section \<open>The exported objects\<close>

text \<open>
  The property names of each exported object literal, in source order. Calling a name
  that is not a property of the object raises a TypeError in JavaScript.
\<close>

datatype operation = getAll | getById | create | update | delete | updatePaymentStatus

definition customerDb :: "operation list" where
  "customerDb = [getAll, getById, create, update, delete]"

definition employeeDb :: "operation list" where
  "employeeDb = [getAll, create, update, delete]"

definition appointmentDb :: "operation list" where
  "appointmentDb = [getAll, create, update]"

definition tallyDb :: "operation list" where
  "tallyDb = [getAll, create, updatePaymentStatus]"

definition serviceDb :: "operation list" where
  "serviceDb = [getAll, create, update, delete]"

definition productDb :: "operation list" where
  "productDb = [getAll, create, update, delete]"

section \<open>Initial data\<close>

text \<open>
  The mock data module is outside this file; its four lists are a parameter. The seed
  statements are the ones written in \<open>insertInitialData\<close>.
\<close>

record mockData =
  mockCustomers :: "string list js Customer list"
  mockEmployees :: "string list js Employee list"
  mockServices :: "Service list"
  mockProducts :: "Product list"

definition insertCustomer :: "clock \<Rightarrow> string list js Customer \<Rightarrow> db \<Rightarrow> error + db" where
  "insertCustomer clk customer d =
    (let row = \<lparr>c_id = bind (C_id customer), c_name = bind (C_name customer),
                c_phone = bind (C_phone customer), c_email = bind (C_email customer),
                c_gender = bind (C_gender customer),
                c_visit_count = bind (C_visitCount customer),
                c_total_spent = bind (C_totalSpent customer),
                c_last_visit = bind (C_lastVisit customer),
                c_preferred_services = stringify (C_preferredServices customer),
                c_notes = bind (C_notes customer), c_photo = bind (C_photo customer),
                c_created_at = Some (CURRENT_TIMESTAMP clk),
                c_updated_at = Some (CURRENT_TIMESTAMP clk)\<rparr>
     in case sql_insert customers_violation row (customers d) of
          Inl e \<Rightarrow> Inl e
        | Inr rows \<Rightarrow> Inr (d\<lparr>customers := rows\<rparr>))"

text \<open>
  \<open>employee.workingHours.start\<close> without \<open>?.\<close>: a missing \<open>workingHours\<close>
  raises a TypeError before the statement runs.
\<close>

definition insertEmployee :: "clock \<Rightarrow> string list js Employee \<Rightarrow> db \<Rightarrow> error + db" where
  "insertEmployee clk employee d =
    (case E_workingHours employee of
       Val h \<Rightarrow>
         (let row = \<lparr>e_id = bind (E_id employee), e_name = bind (E_name employee),
                     e_role = bind (E_role employee), e_email = Some '''', e_phone = Some '''',
                     e_photo = bind (E_photo employee),
                     e_available = Some (if truthy_bool (E_available employee) then 1 else 0),
                     e_specialties = stringify (E_specialties employee),
                     e_rating = bind (E_rating employee),
                     e_next_available = bind (E_nextAvailable employee),
                     e_working_hours_start = bind (wh_start h),
                     e_working_hours_end = bind (wh_end h),
                     e_created_at = Some (CURRENT_TIMESTAMP clk),
                     e_updated_at = Some (CURRENT_TIMESTAMP clk)\<rparr>
          in case sql_insert employees_violation row (employees d) of
               Inl e \<Rightarrow> Inl e
             | Inr rows \<Rightarrow> Inr (d\<lparr>employees := rows\<rparr>))
     | _ \<Rightarrow> Inl TypeError)"

definition insertService :: "clock \<Rightarrow> Service \<Rightarrow> db \<Rightarrow> error + db" where
  "insertService clk service d =
    (let row = \<lparr>s_id = bind (S_id service), s_name = bind (S_name service),
                s_duration = bind (S_duration service), s_price = bind (S_price service),
                s_category = bind (S_category service),
                s_description = bind (S_description service),
                s_created_at = Some (CURRENT_TIMESTAMP clk),
                s_updated_at = Some (CURRENT_TIMESTAMP clk)\<rparr>
     in case sql_insert services_violation row (services d) of
          Inl e \<Rightarrow> Inl e
        | Inr rows \<Rightarrow> Inr (d\<lparr>services := rows\<rparr>))"

definition insertProduct :: "clock \<Rightarrow> Product \<Rightarrow> db \<Rightarrow> error + db" where
  "insertProduct clk product d =
    (let row = \<lparr>p_id = bind (P_id product), p_name = bind (P_name product),
                p_price = bind (P_price product), p_image = bind (P_image product),
                p_category = bind (P_category product), p_stock = bind (P_stock product),
                p_description = bind (P_description product), p_brand = bind (P_brand product),
                p_created_at = Some (CURRENT_TIMESTAMP clk),
                p_updated_at = Some (CURRENT_TIMESTAMP clk)\<rparr>
     in case sql_insert products_violation row (products d) of
          Inl e \<Rightarrow> Inl e
        | Inr rows \<Rightarrow> Inr (d\<lparr>products := rows\<rparr>))"

text \<open>
  \<open>xs.forEach(x => stmt.run(...))\<close>: the first statement that throws ends the loop;
  the rows inserted before it stay (no transaction is open).
\<close>

fun forEach :: "('a \<Rightarrow> db \<Rightarrow> error + db) \<Rightarrow> 'a list \<Rightarrow> db \<Rightarrow> db \<times> error option" where
  "forEach f [] d = (d, None)"
| "forEach f (x # xs) d = (case f x d of Inl e \<Rightarrow> (d, Some e) | Inr d' \<Rightarrow> forEach f xs d')"

text \<open>
  The callback passed to \<open>import(...).then\<close>: four loops in sequence; an exception
  in one skips the rest. The result pairs the database with the exception, if any.
\<close>

definition seed :: "clock \<Rightarrow> mockData \<Rightarrow> db \<Rightarrow> db \<times> error option" where
  "seed clk m d =
    (case forEach (insertCustomer clk) (mockCustomers m) d of
       (d1, Some e) \<Rightarrow> (d1, Some e)
     | (d1, None) \<Rightarrow>
         (case forEach (insertEmployee clk) (mockEmployees m) d1 of
            (d2, Some e) \<Rightarrow> (d2, Some e)
          | (d2, None) \<Rightarrow>
              (case forEach (insertService clk) (mockServices m) d2 of
                 (d3, Some e) \<Rightarrow> (d3, Some e)
               | (d3, None) \<Rightarrow> forEach (insertProduct clk) (mockProducts m) d3)))"

text \<open>
  \<open>insertInitialData\<close> counts the customers and, when there are none, schedules the
  callback; it returns before the callback runs. The result says whether the callback
  was scheduled.
\<close>

definition insertInitialData :: "db \<Rightarrow> bool" where
  "insertInitialData d = (length (customers d) = 0)"

definition initDatabase :: "db option \<Rightarrow> db \<times> bool" where
  "initDatabase file = (let d = createTables file in (d, insertInitialData d))"

text \<open>The database once a scheduled callback has run.\<close>

definition bootstrap :: "clock \<Rightarrow> mockData \<Rightarrow> db option \<Rightarrow> db \<times> error option" where
  "bootstrap clk m file =
    (case initDatabase file of
       (d, True) \<Rightarrow> seed clk m d
     | (d, False) \<Rightarrow> (d, None))"

section \<open>Comparing a returned record with a record read back\<close>

text \<open>
  The equality the round-trip property speaks of: field by field, a string array being
  equal to the JSON array of the same strings in the same order.
\<close>

fun same_list :: "string list js \<Rightarrow> jsv \<Rightarrow> bool" where
  "same_list (Val xs) v = (v = JArr (map JStr xs))"
| "same_list Null v = (v = JNull)"
| "same_list Undefined v = False"

definition same_Customer :: "string list js Customer \<Rightarrow> jsv Customer \<Rightarrow> bool" where
  "same_Customer a b =
    (C_id a = C_id b \<and> C_name a = C_name b \<and> C_phone a = C_phone b \<and> C_email a = C_email b
     \<and> C_gender a = C_gender b \<and> C_visitCount a = C_visitCount b
     \<and> C_totalSpent a = C_totalSpent b \<and> C_lastVisit a = C_lastVisit b
     \<and> same_list (C_preferredServices a) (C_preferredServices b)
     \<and> C_notes a = C_notes b \<and> C_photo a = C_photo b)"

section \<open>Example data\<close>

text \<open>Concrete rows and a small database on which the theorems below are instantiated.\<close>

definition example_customer_row :: "string \<Rightarrow> string \<Rightarrow> string \<Rightarrow> customers_row" where
  "example_customer_row i n ph =
    \<lparr>c_id = Some i, c_name = Some n, c_phone = Some ph, c_email = None,
     c_gender = Some ''female'', c_visit_count = Some 0, c_total_spent = Some 0,
     c_last_visit = None, c_preferred_services = Some ''[]'', c_notes = Some '''',
     c_photo = None, c_created_at = Some ''2024-01-01 00:00:00'',
     c_updated_at = Some ''2024-01-01 00:00:00''\<rparr>"

definition example_employee_row :: "string \<Rightarrow> string \<Rightarrow> employees_row" where
  "example_employee_row i n =
    \<lparr>e_id = Some i, e_name = Some n, e_role = Some ''Stylist'', e_email = Some '''',
     e_phone = Some '''', e_photo = None, e_available = Some 1, e_specialties = None,
     e_rating = Some 5, e_next_available = Some ''Now'', e_working_hours_start = Some ''09:00'',
     e_working_hours_end = Some ''18:00'', e_created_at = Some ''2024-01-01 00:00:00'',
     e_updated_at = Some ''2024-01-01 00:00:00''\<rparr>"

definition example_service_row :: "string \<Rightarrow> string \<Rightarrow> services_row" where
  "example_service_row i n =
    \<lparr>s_id = Some i, s_name = Some n, s_duration = Some 30, s_price = Some 500,
     s_category = Some ''Hair'', s_description = None,
     s_created_at = Some ''2024-01-01 00:00:00'', s_updated_at = Some ''2024-01-01 00:00:00''\<rparr>"

definition example_product_row :: "string \<Rightarrow> string \<Rightarrow> products_row" where
  "example_product_row i n =
    \<lparr>p_id = Some i, p_name = Some n, p_price = Some 250, p_image = None,
     p_category = Some ''Care'', p_stock = Some 3, p_description = None, p_brand = None,
     p_created_at = Some ''2024-01-01 00:00:00'', p_updated_at = Some ''2024-01-01 00:00:00''\<rparr>"

definition example_appointment_row :: "string \<Rightarrow> string \<Rightarrow> string \<Rightarrow> string \<Rightarrow> appointments_row" where
  "example_appointment_row i dt tm ids =
    \<lparr>a_id = Some i, a_customer_id = Some ''c1'', a_employee_id = Some ''e1'',
     a_service_ids = Some ids, a_date = Some dt, a_time = Some tm,
     a_status = Some ''scheduled'', a_total = Some 500, a_notes = Some '''',
     a_created_at = Some ''2024-01-01 00:00:00'', a_updated_at = Some ''2024-01-01 00:00:00''\<rparr>"

definition example_tally_row :: "string \<Rightarrow> string \<Rightarrow> string \<Rightarrow> string \<Rightarrow> string option \<Rightarrow> tally_items_row" where
  "example_tally_row i dt tm sv upi =
    \<lparr>t_id = Some i, t_date = Some dt, t_time = Some tm, t_customer_name = Some ''Asha'',
     t_customer_phone = Some ''9990001111'', t_staff_name = Some ''Mia'',
     t_services = Some sv, t_total_cost = Some 500, t_payment_method = Some ''upi'',
     t_payment_status = Some ''pending'', t_payment_date = Some ''2024-01-01T00:00:00.000Z'',
     t_upi_transaction_id = upi, t_created_at = Some ''2024-01-01 00:00:00'',
     t_updated_at = Some ''2024-01-01 00:00:00''\<rparr>"

definition example_db :: db where
  "example_db =
    \<lparr>customers = [example_customer_row ''c1'' ''Zed'' ''111'', example_customer_row ''c2'' ''Asha'' ''222''],
     employees = [example_employee_row ''e1'' ''Mia'', example_employee_row ''e2'' ''Bo''],
     services = [example_service_row ''s1'' ''Trim'', example_service_row ''s2'' ''Cut''],
     appointments = [example_appointment_row ''a1'' ''2024-02-02'' ''10:00'' ''[]'',
                     example_appointment_row ''a2'' ''2024-02-01'' ''12:00'' ''[]''],
     tally_items = [example_tally_row ''t1'' ''2024-02-01'' ''12:00'' ''[]'' (Some ''TXN0''),
                    example_tally_row ''t2'' ''2024-02-02'' ''10:00'' ''[]'' None],
     products = [example_product_row ''p1'' ''Wax'', example_product_row ''p2'' ''Gel'']\<rparr>"

definition example_clock :: clock where
  "example_clock = \<lparr>Date_now = 1700000000000, toISOString = ''2023-11-14T22:13:20.000Z'',
     CURRENT_TIMESTAMP = ''2023-11-14 22:13:20''\<rparr>"

definition later_clock :: clock where
  "later_clock = \<lparr>Date_now = 1700000060000, toISOString = ''2023-11-14T22:14:20.000Z'',
     CURRENT_TIMESTAMP = ''2023-11-14 22:14:20''\<rparr>"

definition example_item :: "string list js TallyItem" where
  "example_item =
    \<lparr>T_id = Undefined, T_date = Val ''2023-11-14'', T_time = Val ''22:13'',
     T_customerName = Val ''Asha'', T_customerPhone = Val ''9990001111'',
     T_staffName = Val ''Mia'', T_services = Val [''Haircut'', ''Facial''],
     T_totalCost = Val 1200, T_paymentMethod = Val ''upi'', T_paymentStatus = Val ''pending'',
     T_paymentDate = Undefined, T_upiTransactionId = Undefined\<rparr>"

text \<open>The object \<open>{}\<close> of each shape: every field absent.\<close>

definition empty_Customer :: "string list js Customer" where
  "empty_Customer =
    \<lparr>C_id = Undefined, C_name = Undefined, C_phone = Undefined, C_email = Undefined,
     C_gender = Undefined, C_visitCount = Undefined, C_totalSpent = Undefined,
     C_lastVisit = Undefined, C_preferredServices = Undefined, C_notes = Undefined,
     C_photo = Undefined\<rparr>"

definition empty_Employee :: "string list js Employee" where
  "empty_Employee =
    \<lparr>E_id = Undefined, E_name = Undefined, E_role = Undefined, E_email = Undefined,
     E_phone = Undefined, E_photo = Undefined, E_available = Undefined,
     E_specialties = Undefined, E_rating = Undefined, E_nextAvailable = Undefined,
     E_workingHours = Undefined\<rparr>"

definition empty_Service :: Service where
  "empty_Service =
    \<lparr>S_id = Undefined, S_name = Undefined, S_duration = Undefined, S_price = Undefined,
     S_category = Undefined, S_description = Undefined\<rparr>"

definition empty_Appointment :: "string list js Appointment" where
  "empty_Appointment =
    \<lparr>A_id = Undefined, A_customerId = Undefined, A_employeeId = Undefined,
     A_serviceIds = Undefined, A_date = Undefined, A_time = Undefined, A_status = Undefined,
     A_total = Undefined, A_notes = Undefined\<rparr>"

definition empty_Product :: Product where
  "empty_Product =
    \<lparr>P_id = Undefined, P_name = Undefined, P_price = Undefined, P_image = Undefined,
     P_category = Undefined, P_stock = Undefined, P_description = Undefined,
     P_brand = Undefined\<rparr>"

definition example_customer :: "string list js Customer" where
  "example_customer =
    empty_Customer\<lparr>C_name := Val ''Asha'', C_phone := Val ''9990001111'',
      C_gender := Val ''female'', C_preferredServices := Val [''svc-1'']\<rparr>"

definition example_customer_stored :: customers_row where
  "example_customer_stored =
    \<lparr>c_id = Some ''cust-1700000000000'', c_name = Some ''Asha'', c_phone = Some ''9990001111'',
     c_email = None, c_gender = Some ''female'', c_visit_count = Some 0, c_total_spent = Some 0,
     c_last_visit = Some ''2023-11-14T22:13:20.000Z'',
     c_preferred_services = Some ''[\"svc-1\"]'', c_notes = Some '''', c_photo = None,
     c_created_at = Some ''2023-11-14 22:13:20'', c_updated_at = Some ''2023-11-14 22:13:20''\<rparr>"

definition example_customer_read :: "jsv Customer" where
  "example_customer_read =
    \<lparr>C_id = Val ''cust-1700000000000'', C_name = Val ''Asha'', C_phone = Val ''9990001111'',
     C_email = Null, C_gender = Val ''female'', C_visitCount = Val 0, C_totalSpent = Val 0,
     C_lastVisit = Val ''2023-11-14T22:13:20.000Z'', C_preferredServices = JArr [JStr ''svc-1''],
     C_notes = Val '''', C_photo = Null\<rparr>"

definition full_customer :: "string list js Customer" where
  "full_customer =
    \<lparr>C_id = Undefined, C_name = Val ''Asha'', C_phone = Val ''9990001111'',
     C_email = Val ''asha@example.com'', C_gender = Val ''female'', C_visitCount = Undefined,
     C_totalSpent = Undefined, C_lastVisit = Undefined,
     C_preferredServices = Val [''svc-1'', ''svc-2''], C_notes = Val ''regular'',
     C_photo = Val ''asha.png''\<rparr>"

text \<open>A database whose JSON columns cannot be decoded.\<close>

definition unreadable_db :: db where
  "unreadable_db =
    \<lparr>customers = [(example_customer_row ''c1'' ''Zed'' ''111'')\<lparr>c_preferred_services := Some ''[''\<rparr>],
     employees = [(example_employee_row ''e1'' ''Mia'')\<lparr>e_specialties := Some ''[''\<rparr>],
     services = [],
     appointments = [example_appointment_row ''a9'' ''2024-02-02'' ''10:00'' ''''],
     tally_items = [example_tally_row ''t9'' ''2024-02-02'' ''10:00'' '''' None],
     products = []\<rparr>"

definition example_employee :: "string list js Employee" where
  "example_employee =
    empty_Employee\<lparr>E_name := Val ''Mia'', E_role := Val ''Stylist'', E_available := Val True\<rparr>"

definition example_employee_stored :: employees_row where
  "example_employee_stored =
    \<lparr>e_id = Some ''emp-1700000000000'', e_name = Some ''Mia'', e_role = Some ''Stylist'',
     e_email = Some '''', e_phone = Some '''', e_photo = None, e_available = Some 1,
     e_specialties = Some ''[]'', e_rating = Some 5, e_next_available = Some ''Now'',
     e_working_hours_start = Some ''09:00'', e_working_hours_end = Some ''18:00'',
     e_created_at = Some ''2023-11-14 22:13:20'', e_updated_at = Some ''2023-11-14 22:13:20''\<rparr>"

text \<open>Seed records as a mock data module supplies them, and the rows they become.\<close>

definition seed_customer :: "string list js Customer" where
  "seed_customer =
    \<lparr>C_id = Val ''1'', C_name = Val ''Priya'', C_phone = Val ''9876543210'',
     C_email = Val ''priya@example.com'', C_gender = Val ''female'', C_visitCount = Val 12,
     C_totalSpent = Val 4500, C_lastVisit = Val ''2024-01-10'',
     C_preferredServices = Val [''svc-1''], C_notes = Undefined, C_photo = Undefined\<rparr>"

definition seed_employee :: "string list js Employee" where
  "seed_employee =
    \<lparr>E_id = Val ''emp-1'', E_name = Val ''Mia'', E_role = Val ''Stylist'', E_email = Undefined,
     E_phone = Undefined, E_photo = Val ''mia.png'', E_available = Val True,
     E_specialties = Val [''Hair''], E_rating = Val 4.5, E_nextAvailable = Val ''Now'',
     E_workingHours = Val \<lparr>wh_start = Val ''10:00'', wh_end = Val ''19:00''\<rparr>\<rparr>"

definition seed_service :: Service where
  "seed_service =
    \<lparr>S_id = Val ''svc-1'', S_name = Val ''Haircut'', S_duration = Val 30, S_price = Val 500,
     S_category = Val ''Hair'', S_description = Val ''Wash and cut''\<rparr>"

definition seed_product :: Product where
  "seed_product =
    \<lparr>P_id = Val ''prod-1'', P_name = Val ''Shampoo'', P_price = Val 350, P_image = Undefined,
     P_category = Val ''Care'', P_stock = Val 10, P_description = Undefined,
     P_brand = Val ''Acme''\<rparr>"

definition example_mock :: mockData where
  "example_mock = \<lparr>mockCustomers = [seed_customer], mockEmployees = [seed_employee],
     mockServices = [seed_service], mockProducts = [seed_product]\<rparr>"

definition seeded_customer_row :: customers_row where
  "seeded_customer_row =
    \<lparr>c_id = Some ''1'', c_name = Some ''Priya'', c_phone = Some ''9876543210'',
     c_email = Some ''priya@example.com'', c_gender = Some ''female'', c_visit_count = Some 12,
     c_total_spent = Some 4500, c_last_visit = Some ''2024-01-10'',
     c_preferred_services = Some ''[\"svc-1\"]'', c_notes = None, c_photo = None,
     c_created_at = Some ''2023-11-14 22:13:20'', c_updated_at = Some ''2023-11-14 22:13:20''\<rparr>"

definition created_customer_row :: customers_row where
  "created_customer_row =
    \<lparr>c_id = Some ''cust-1700000000000'', c_name = Some ''Priya'', c_phone = Some ''9876543210'',
     c_email = Some ''priya@example.com'', c_gender = Some ''female'', c_visit_count = Some 0,
     c_total_spent = Some 0, c_last_visit = Some ''2023-11-14T22:13:20.000Z'',
     c_preferred_services = Some ''[\"svc-1\"]'', c_notes = Some '''', c_photo = None,
     c_created_at = Some ''2023-11-14 22:13:20'', c_updated_at = Some ''2023-11-14 22:13:20''\<rparr>"

definition example_appointment :: "string list js Appointment" where
  "example_appointment =
    \<lparr>A_id = Val ''a3'', A_customerId = Val ''c1'', A_employeeId = Val ''e1'',
     A_serviceIds = Val [''svc-1'', ''svc-2''], A_date = Val ''2024-03-01'', A_time = Val ''09:30'',
     A_status = Val ''scheduled'', A_total = Val 900, A_notes = Undefined\<rparr>"

definition skilled_employee :: "string list js Employee" where
  "skilled_employee = example_employee\<lparr>E_name := Val ''Ana'', E_specialties := Val [''Hair'', ''Nails'']\<rparr>"

section \<open>\<open>JSON.parse\<close> inverts \<open>JSON.stringify\<close>\<close>

lemma hex_val_digit: "k < 16 \<Longrightarrow> hex_val (hex_digit k) = Some k"
  by (auto simp: hex_digit_def hex_val_def Let_def)

lemma hex4_control:
  assumes "n < 32"
  shows "hex4 (CHR ''0'') (CHR ''0'') (hex_digit (n div 16)) (hex_digit (n mod 16)) = Some n"
proof -
  have "n div 16 < 16" using assms by simp
  then have a: "hex_val (hex_digit (n div 16)) = Some (n div 16)" by (rule hex_val_digit)
  have b: "hex_val (hex_digit (n mod 16)) = Some (n mod 16)" by (rule hex_val_digit) simp
  have z: "hex_val (CHR ''0'') = Some 0" by (simp add: hex_val_def)
  show ?thesis by (simp add: hex4_def a b z)
qed

lemma lex_string_escape_char:
  "lex_string (escape_char c @ tail) = prepend [c] (lex_string tail)"
proof -
  consider (quote) "c = CHR 0x22" | (backslash) "c = CHR 0x5C"
    | (short) "c \<in> {CHR 0x08, CHR 0x09, CHR 0x0A, CHR 0x0C, CHR 0x0D}"
    | (control) "(of_char c :: nat) < 0x20" "c \<notin> {CHR 0x08, CHR 0x09, CHR 0x0A, CHR 0x0C, CHR 0x0D}"
    | (plain) "c \<noteq> CHR 0x22" "c \<noteq> CHR 0x5C" "\<not> (of_char c :: nat) < 0x20"
    by blast
  then show ?thesis
  proof cases
    case quote
    then show ?thesis by (simp add: escape_char_def unescape_def)
  next
    case backslash
    then show ?thesis by (simp add: escape_char_def unescape_def)
  next
    case short
    then show ?thesis by (elim insertE emptyE) (simp_all add: escape_char_def unescape_def)
  next
    case control
    then have n: "(of_char c :: nat) < 32" by simp
    have q: "c \<noteq> CHR 0x22" "c \<noteq> CHR 0x5C" using n by auto
    have e: "escape_char c = [CHR 0x5C, CHR ''u'', CHR ''0'', CHR ''0'',
               hex_digit (of_char c div 16), hex_digit (of_char c mod 16)]"
      using control q by (simp add: escape_char_def)
    have u: "utf8_encode (of_char c) = [c]"
      using n by (simp add: utf8_encode_def)
    show ?thesis
      by (simp add: e hex4_control [OF n] u)
  next
    case plain
    then show ?thesis by (simp add: escape_char_def)
  qed
qed

lemma lex_string_escaped:
  "lex_string (concat (map escape_char s) @ CHR 0x22 # rest) = Some (s, rest)"
  by (induction s) (simp_all add: lex_string_escape_char prepend_def)

lemma lex_quote: "lex (quote s @ rest) = emit (TString s) (lex rest)"
  by (simp add: quote_def whitespace_def lex_string_escaped)

lemma lex_Comma: "lex (CHR '','' # t) = emit Comma (lex t)"
  by (simp add: whitespace_def)

lemma lex_LBracket: "lex (CHR ''['' # t) = emit LBracket (lex t)"
  by (simp add: whitespace_def)

lemma lex_RBracket: "lex (CHR '']'' # t) = emit RBracket (lex t)"
  by (simp add: whitespace_def)

declare lex.simps(2) [simp del]

lemma lex_comma_quoted:
  "lex (concat (map (\<lambda>x. CHR '','' # quote x) xs) @ rest) =
     map_option ((@) (concat (map (\<lambda>x. [Comma, TString x]) xs))) (lex rest)"
proof (induction xs)
  case Nil
  show ?case by (simp add: option.map_ident)
next
  case (Cons x xs)
  then show ?case
    by (simp add: lex_Comma lex_quote emit_def option.map_comp comp_def)
qed

lemma lex_stringify:
  "lex (JSON_stringify xs) = Some (LBracket # tokens_of xs @ [RBracket])"
proof (cases xs)
  case Nil
  then show ?thesis by (simp add: JSON_stringify_def lex_LBracket lex_RBracket emit_def)
next
  case (Cons x ys)
  then show ?thesis
    by (simp add: JSON_stringify_def lex_LBracket lex_RBracket lex_quote lex_comma_quoted
        emit_def comp_def)
qed

lemma parse_after_elements:
  "parse_after v (InArr acc # ks) (concat (map (\<lambda>y. [Comma, TString y]) xs) @ RBracket # ts) =
     parse_after (JArr (rev acc @ v # map JStr xs)) ks ts"
  by (induction xs arbitrary: v acc) simp_all

lemma JSON_parse_stringify: "JSON_parse (JSON_stringify xs) = Inr (JArr (map JStr xs))"
proof (cases xs)
  case Nil
  then show ?thesis by (simp add: JSON_parse_def lex_stringify)
next
  case (Cons x ys)
  have "parse_value [] (LBracket # TString x # concat (map (\<lambda>y. [Comma, TString y]) ys) @ [RBracket]) =
        parse_after (JStr x) [InArr []] (concat (map (\<lambda>y. [Comma, TString y]) ys) @ RBracket # [])"
    by simp
  also have "\<dots> = parse_after (JArr (rev [] @ JStr x # map JStr ys)) [] []"
    by (rule parse_after_elements)
  finally show ?thesis
    using Cons by (simp add: JSON_parse_def lex_stringify)
qed

lemma JSON_parse_empty: "JSON_parse [] = Inl SyntaxError"
  by (simp add: JSON_parse_def)

section \<open>Auxiliary facts\<close>

lemma bind_column: "bind (column v) = v"
  by (cases v) simp_all

lemma map_result_Inr:
  "map_result f xs = Inr ys \<Longrightarrow> list_all2 (\<lambda>x y. f x = Inr y) xs ys"
  by (induction xs arbitrary: ys) (auto split: sum.splits)

lemma map_result_keys:
  assumes "map_result f xs = Inr ys" and "\<And>x y. f x = Inr y \<Longrightarrow> k' y = k x"
  shows "map k' ys = map k xs"
proof -
  have "list_all2 (\<lambda>x y. f x = Inr y) xs ys" using assms(1) by (rule map_result_Inr)
  then have "list_all2 (\<lambda>x y. k' y = k x) xs ys"
    by (rule list_all2_mono) (simp add: assms(2))
  then show ?thesis
    by (induction rule: list_all2_induct) simp_all
qed

lemma Customer_of_row_name: "Customer_of_row r = Inr c \<Longrightarrow> bind (C_name c) = c_name r"
  by (auto simp: Customer_of_row_def bind_column split: sum.splits)

lemma Employee_of_row_name: "Employee_of_row r = Inr c \<Longrightarrow> bind (E_name c) = e_name r"
  by (auto simp: Employee_of_row_def bind_column split: sum.splits)

lemma Appointment_of_row_key:
  "Appointment_of_row r = Inr c \<Longrightarrow> (bind (A_date c), bind (A_time c)) = (a_date r, a_time r)"
  by (auto simp: Appointment_of_row_def bind_column split: sum.splits)

lemma TallyItem_of_row_key:
  "TallyItem_of_row r = Inr c \<Longrightarrow> (bind (T_date c), bind (T_time c)) = (t_date r, t_time r)"
  by (auto simp: TallyItem_of_row_def bind_column split: sum.splits)

lemma customerDb_getAll_sorted:
  "customerDb_getAll d = Inr cs \<Longrightarrow> sorted (map (\<lambda>c. bind (C_name c)) cs)"
  unfolding customerDb_getAll_def
  by (drule map_result_keys [where k = c_name and k' = "\<lambda>c. bind (C_name c)"])
     (simp_all add: Customer_of_row_name)

lemma employeeDb_getAll_sorted:
  "employeeDb_getAll d = Inr cs \<Longrightarrow> sorted (map (\<lambda>c. bind (E_name c)) cs)"
  unfolding employeeDb_getAll_def
  by (drule map_result_keys [where k = e_name and k' = "\<lambda>c. bind (E_name c)"])
     (simp_all add: Employee_of_row_name)

lemma appointmentDb_getAll_sorted:
  "appointmentDb_getAll d = Inr cs \<Longrightarrow> sorted (map (\<lambda>a. (bind (A_date a), bind (A_time a))) cs)"
  unfolding appointmentDb_getAll_def
  by (drule map_result_keys [where k = "\<lambda>r. (a_date r, a_time r)"
        and k' = "\<lambda>a. (bind (A_date a), bind (A_time a))"])
     (simp_all add: Appointment_of_row_key)

lemma tallyDb_getAll_sorted:
  "tallyDb_getAll d = Inr cs \<Longrightarrow>
     sorted_wrt (\<lambda>x y. y \<le> x) (map (\<lambda>t. (bind (T_date t), bind (T_time t))) cs)"
  unfolding tallyDb_getAll_def
  by (drule map_result_keys [where k = "\<lambda>r. (t_date r, t_time r)"
        and k' = "\<lambda>t. (bind (T_date t), bind (T_time t))"])
     (simp_all add: TallyItem_of_row_key rev_map [symmetric] sorted_wrt_rev)

lemma JSON_parse_empty_array: "JSON_parse ''[]'' = Inr (JArr [])"
  using JSON_parse_stringify [of "[]"] by (simp add: JSON_stringify_def)

lemma miss_all: "Some i \<notin> set (map key rows) \<Longrightarrow> \<forall>r \<in> set rows. key r \<noteq> Some i"
  by force

lemma sql_get_miss: "Some i \<notin> set (map key rows) \<Longrightarrow> sql_get key i rows = None"
  by (drule miss_all) (simp add: sql_get_def find_None_iff)

lemma sql_update_miss:
  "Some i \<notin> set (map key rows) \<Longrightarrow> sql_update violation key i f rows = Inr rows"
proof -
  assume "Some i \<notin> set (map key rows)"
  then have m: "\<forall>r \<in> set rows. key r \<noteq> Some i" by (rule miss_all)
  then have "filter (\<lambda>r. key r = Some i) rows = []"
    by (simp add: filter_empty_conv)
  moreover have "map (\<lambda>r. if key r = Some i then f r else r) rows = rows"
    using m by (induction rows) auto
  ultimately show ?thesis
    by (simp add: sql_update_def guard_def)
qed

lemma sql_delete_miss: "Some i \<notin> set (map key rows) \<Longrightarrow> sql_delete key i rows = rows"
  by (drule miss_all) (simp add: sql_delete_def filter_id_conv)

lemma map_result_set:
  "map_result f xs = Inr ys \<Longrightarrow>
     (\<forall>y \<in> set ys. \<exists>x \<in> set xs. f x = Inr y) \<and> (\<forall>x \<in> set xs. \<exists>y \<in> set ys. f x = Inr y)"
  by (induction xs arbitrary: ys) (auto split: sum.splits)

lemma map_result_total:
  "(\<forall>x \<in> set xs. \<exists>y. f x = Inr y) \<Longrightarrow> \<exists>ys. map_result f xs = Inr ys"
  by (induction xs) (auto split: sum.splits)

lemma sql_update_Inr:
  "sql_update violation key i f rows = Inr rows' \<Longrightarrow>
     rows' = map (\<lambda>r. if key r = Some i then f r else r) rows"
  by (auto simp: sql_update_def guard_def split: option.splits)

lemma sql_insert_Inr:
  "sql_insert violation r rows = Inr rows' \<Longrightarrow> rows' = rows @ [r] \<and> violation r rows = None"
  by (auto simp: sql_insert_def guard_def split: option.splits)

lemma column_eq_Val: "column v = Val x \<longleftrightarrow> v = Some x"
  by (cases v) auto

lemma JSON_parse_null: "JSON_parse ''null'' = Inr JNull"
  by (simp add: JSON_parse_def lex.simps whitespace_def is_digit_def emit_def)

lemma stringify_parses: "stringify l = Some s \<Longrightarrow> \<exists>v. JSON_parse s = Inr v"
  by (cases l) (auto simp: JSON_parse_stringify JSON_parse_null)

lemma sql_update_fresh_last:
  assumes "Some i \<notin> set (map key rows)" and "key row = Some i"
    and "violation (f row) rows = None"
  shows "sql_update violation key i f (rows @ [row]) = Inr (rows @ [f row])"
proof -
  from assms(1) have m: "\<forall>r \<in> set rows. key r \<noteq> Some i" by (rule miss_all)
  then have 1: "filter (\<lambda>r. key r = Some i) rows = []"
    by (simp add: filter_empty_conv)
  have 2: "filter (\<lambda>x. key x \<noteq> Some i) rows = rows"
    using m by (simp add: filter_id_conv)
  have 3: "map (\<lambda>r. if key r = Some i then f r else r) rows = rows"
    using m by (induction rows) auto
  show ?thesis
    by (simp add: sql_update_def 1 2 3 assms(2,3) guard_def)
qed

lemma parse_errors:
  "parse_value ks ts = Inl e \<Longrightarrow> e = SyntaxError"
  "parse_after v ks ts = Inl e \<Longrightarrow> e = SyntaxError"
  by (induction ks ts and v ks ts rule: parse_value_parse_after.induct)
     (auto split: token.splits list.splits frame.splits)

lemma JSON_parse_error: "JSON_parse s = Inl e \<Longrightarrow> e = SyntaxError"
  by (auto simp: JSON_parse_def parse_errors split: option.splits)

lemma map_result_Inl: "map_result f xs = Inl e \<Longrightarrow> \<exists>x \<in> set xs. f x = Inl e"
  by (induction xs) (auto split: sum.splits)

lemma Customer_of_row_empty:
  "c_preferred_services r = None \<or> c_preferred_services r = Some [] \<Longrightarrow>
     \<exists>c. Customer_of_row r = Inr c \<and> C_preferredServices c = JArr []"
  by (auto simp: Customer_of_row_def text_or_def JSON_parse_empty_array)

lemma Employee_of_row_empty:
  "e_specialties r = None \<or> e_specialties r = Some [] \<Longrightarrow>
     \<exists>c. Employee_of_row r = Inr c \<and> E_specialties c = JArr []"
  by (auto simp: Employee_of_row_def text_or_def JSON_parse_empty_array)

lemma Customer_of_row_Inl:
  "Customer_of_row r = Inl e \<Longrightarrow>
     e = SyntaxError \<and> (\<exists>s. c_preferred_services r = Some s \<and> s \<noteq> [] \<and> JSON_parse s = Inl e)"
  by (auto simp: Customer_of_row_def text_or_def JSON_parse_empty_array
      split: sum.splits option.splits if_splits dest: JSON_parse_error)

lemma Employee_of_row_Inl:
  "Employee_of_row r = Inl e \<Longrightarrow>
     e = SyntaxError \<and> (\<exists>s. e_specialties r = Some s \<and> s \<noteq> [] \<and> JSON_parse s = Inl e)"
  by (auto simp: Employee_of_row_def text_or_def JSON_parse_empty_array
      split: sum.splits option.splits if_splits dest: JSON_parse_error)

lemma Appointment_of_row_Inl:
  "Appointment_of_row r = Inl e \<Longrightarrow>
     e = SyntaxError \<and> (\<exists>s. a_service_ids r = Some s \<and> JSON_parse s = Inl e)"
  by (auto simp: Appointment_of_row_def JSON_parse_column_def
      split: sum.splits option.splits dest: JSON_parse_error)

lemma TallyItem_of_row_Inl:
  "TallyItem_of_row r = Inl e \<Longrightarrow>
     e = SyntaxError \<and> (\<exists>s. t_services r = Some s \<and> JSON_parse s = Inl e)"
  by (auto simp: TallyItem_of_row_def JSON_parse_column_def
      split: sum.splits option.splits dest: JSON_parse_error)

lemma Appointment_of_row_empty:
  "a_service_ids r = Some [] \<Longrightarrow> Appointment_of_row r = Inl SyntaxError"
  by (simp add: Appointment_of_row_def JSON_parse_column_def JSON_parse_empty)

lemma TallyItem_of_row_empty:
  "t_services r = Some [] \<Longrightarrow> TallyItem_of_row r = Inl SyntaxError"
  by (simp add: TallyItem_of_row_def JSON_parse_column_def JSON_parse_empty)

lemma Appointment_of_row_NULL:
  "a_service_ids r = None \<Longrightarrow> \<exists>a. Appointment_of_row r = Inr a \<and> A_serviceIds a = JNull"
  by (simp add: Appointment_of_row_def JSON_parse_column_def)

lemma TallyItem_of_row_NULL:
  "t_services r = None \<Longrightarrow> \<exists>t. TallyItem_of_row r = Inr t \<and> T_services t = JNull"
  by (simp add: TallyItem_of_row_def JSON_parse_column_def)

lemma customerDb_getAll_Inl:
  "customerDb_getAll d = Inl e \<Longrightarrow> \<exists>r \<in> set (customers d). Customer_of_row r = Inl e"
  unfolding customerDb_getAll_def by (drule map_result_Inl) simp

lemma customerDb_getById_Inl:
  "customerDb_getById i d = Inl e \<Longrightarrow>
     \<exists>r \<in> set (customers d). c_id r = Some i \<and> Customer_of_row r = Inl e"
  by (force simp: customerDb_getById_def sql_get_def find_Some_iff
      split: option.splits sum.splits)

lemma employeeDb_getAll_Inl:
  "employeeDb_getAll d = Inl e \<Longrightarrow> \<exists>r \<in> set (employees d). Employee_of_row r = Inl e"
  unfolding employeeDb_getAll_def by (drule map_result_Inl) simp

lemma appointmentDb_getAll_Inl:
  "appointmentDb_getAll d = Inl e \<Longrightarrow> \<exists>r \<in> set (appointments d). Appointment_of_row r = Inl e"
  unfolding appointmentDb_getAll_def by (drule map_result_Inl) simp

lemma tallyDb_getAll_Inl:
  "tallyDb_getAll d = Inl e \<Longrightarrow> \<exists>r \<in> set (tally_items d). TallyItem_of_row r = Inl e"
  unfolding tallyDb_getAll_def by (drule map_result_Inl) simp

lemma JSON_parse_open_bracket: "JSON_parse ''['' = Inl SyntaxError"
  by (simp add: JSON_parse_def lex.simps whitespace_def emit_def)

lemma JSON_stringify_nonempty: "JSON_stringify xs \<noteq> []"
  by (simp add: JSON_stringify_def)

lemma sql_get_fresh_last:
  "Some i \<notin> set (map key rows) \<Longrightarrow> key row = Some i \<Longrightarrow> sql_get key i (rows @ [row]) = Some row"
  by (drule miss_all, induction rows) (simp_all add: sql_get_def)

lemma column_bind_Val: "bind a \<noteq> None \<Longrightarrow> column (bind a) = a"
  by (cases a) auto

lemma customerDb_create_Inr:
  assumes "customerDb_create clk c d = Inr (rec, d1)"
  shows "\<exists>row. d1 = d\<lparr>customers := customers d @ [row]\<rparr>
           \<and> customers_violation row (customers d) = None
           \<and> row = \<lparr>c_id = Some (''cust-'' @ string_of_nat (Date_now clk)),
                c_name = bind (C_name c), c_phone = bind (C_phone c), c_email = bind (C_email c),
                c_gender = bind (C_gender c), c_visit_count = Some 0,
                c_total_spent = Some 0, c_last_visit = Some (toISOString clk),
                c_preferred_services = stringify (C_preferredServices c),
                c_notes = bind (or_str (C_notes c) ''''),
                c_photo = bind (C_photo c),
                c_created_at = Some (CURRENT_TIMESTAMP clk),
                c_updated_at = Some (CURRENT_TIMESTAMP clk)\<rparr>
           \<and> rec = c\<lparr>C_id := Val (''cust-'' @ string_of_nat (Date_now clk)),
                       C_visitCount := Val 0, C_totalSpent := Val 0,
                       C_lastVisit := Val (toISOString clk)\<rparr>"
  using assms
  by (auto simp: customerDb_create_def Let_def split: sum.splits dest!: sql_insert_Inr)

lemma customers_violation_None:
  "customers_violation row rows = None \<Longrightarrow>
     c_name row \<noteq> None \<and> c_phone row \<noteq> None \<and> c_gender row \<noteq> None
     \<and> (\<forall>i. c_id row = Some i \<longrightarrow> Some i \<notin> set (map c_id rows))"
  by (auto simp: customers_violation_def taken_def split: if_splits)

lemma parse_stored_list:
  "JSON_parse (text_or (Some (JSON_stringify xs)) ''[]'') = Inr (JArr (map JStr xs))"
  by (simp add: text_or_def JSON_stringify_nonempty JSON_parse_stringify)

lemma stringify_svc1: "JSON_stringify [''svc-1''] = ''[\"svc-1\"]''"
  by (simp add: JSON_stringify_def quote_def escape_char_def)

lemma parse_svc1: "JSON_parse ''[\"svc-1\"]'' = Inr (JArr [JStr ''svc-1''])"
  using JSON_parse_stringify [of "[''svc-1'']"] by (simp add: stringify_svc1)

lemma employeeDb_create_Inr:
  assumes "employeeDb_create clk e d = Inr (rec, d1)"
  shows "rec = e\<lparr>E_id := Val (''emp-'' @ string_of_nat (Date_now clk))\<rparr> \<and>
         (\<exists>row. d1 = d\<lparr>employees := employees d @ [row]\<rparr>
           \<and> employees_violation row (employees d) = None
           \<and> e_id row = Some (''emp-'' @ string_of_nat (Date_now clk))
           \<and> e_email row = bind (or_str (E_email e) '''')
           \<and> e_phone row = bind (or_str (E_phone e) '''')
           \<and> e_specialties row =
                 stringify (if truthy_obj (E_specialties e) then E_specialties e else Val [])
           \<and> e_rating row = bind (or_num (E_rating e) 5)
           \<and> e_next_available row = bind (or_str (E_nextAvailable e) ''Now'')
           \<and> e_working_hours_start row = bind (or_str (opt_start (E_workingHours e)) ''09:00'')
           \<and> e_working_hours_end row = bind (or_str (opt_end (E_workingHours e)) ''18:00''))"
  using assms
  by (auto simp: employeeDb_create_def Let_def split: sum.splits dest!: sql_insert_Inr)

lemma TallyItem_of_row_Inr:
  "TallyItem_of_row r = Inr t \<Longrightarrow>
     T_id t = column (t_id r) \<and> T_paymentStatus t = column (t_payment_status r)
     \<and> T_paymentDate t = column (t_payment_date r)
     \<and> T_upiTransactionId t = column (t_upi_transaction_id r)"
  by (auto simp: TallyItem_of_row_def split: sum.splits)

lemma tallyDb_create_Inr:
  assumes "tallyDb_create clk item d = Inr (rec, d1)"
  shows "\<exists>row. d1 = d\<lparr>tally_items := tally_items d @ [row]\<rparr>
           \<and> tally_items_violation row (tally_items d) = None
           \<and> t_id row = Some (''tally-'' @ string_of_nat (Date_now clk))
           \<and> t_payment_status row = bind (T_paymentStatus item)
           \<and> t_payment_date row = Some (toISOString clk)
           \<and> t_upi_transaction_id row = None
           \<and> t_services row = stringify (T_services item)
           \<and> rec = item\<lparr>T_id := Val (''tally-'' @ string_of_nat (Date_now clk)),
                          T_paymentDate := Val (toISOString clk),
                          T_upiTransactionId := Undefined\<rparr>"
  using assms
  by (auto simp: tallyDb_create_def Let_def split: sum.splits dest!: sql_insert_Inr)


lemma map_result_map: "map_result f xs = Inr ys \<Longrightarrow> map f xs = map Inr ys"
  by (induction xs arbitrary: ys) (auto split: sum.splits)

lemma map_result_rows:
  "map_result f xs = Inr ys \<Longrightarrow> mset xs = mset rows \<Longrightarrow> mset (map Inr ys) = mset (map f rows)"
  by (drule map_result_map, drule arg_cong [where f = mset]) simp

lemma customerDb_getAll_rows:
  "customerDb_getAll d = Inr cs \<Longrightarrow> mset (map Inr cs) = mset (map Customer_of_row (customers d))"
  unfolding customerDb_getAll_def by (erule map_result_rows) simp

lemma employeeDb_getAll_rows:
  "employeeDb_getAll d = Inr es \<Longrightarrow> mset (map Inr es) = mset (map Employee_of_row (employees d))"
  unfolding employeeDb_getAll_def by (erule map_result_rows) simp

lemma appointmentDb_getAll_rows:
  "appointmentDb_getAll d = Inr as \<Longrightarrow>
     mset (map Inr as) = mset (map Appointment_of_row (appointments d))"
  unfolding appointmentDb_getAll_def by (erule map_result_rows) simp

lemma tallyDb_getAll_rows:
  "tallyDb_getAll d = Inr ts \<Longrightarrow> mset (map Inr ts) = mset (map TallyItem_of_row (tally_items d))"
  unfolding tallyDb_getAll_def by (erule map_result_rows) simp

lemma customerDb_getAll_total:
  "\<forall>r \<in> set (customers d). \<exists>c. Customer_of_row r = Inr c \<Longrightarrow> \<exists>cs. customerDb_getAll d = Inr cs"
  unfolding customerDb_getAll_def by (rule map_result_total) simp

lemma employeeDb_getAll_total:
  "\<forall>r \<in> set (employees d). \<exists>c. Employee_of_row r = Inr c \<Longrightarrow> \<exists>es. employeeDb_getAll d = Inr es"
  unfolding employeeDb_getAll_def by (rule map_result_total) simp

lemma appointmentDb_getAll_total:
  "\<forall>r \<in> set (appointments d). \<exists>c. Appointment_of_row r = Inr c \<Longrightarrow>
     \<exists>as. appointmentDb_getAll d = Inr as"
  unfolding appointmentDb_getAll_def by (rule map_result_total) simp

lemma tallyDb_getAll_total:
  "\<forall>r \<in> set (tally_items d). \<exists>c. TallyItem_of_row r = Inr c \<Longrightarrow> \<exists>ts. tallyDb_getAll d = Inr ts"
  unfolding tallyDb_getAll_def by (rule map_result_total) simp

lemma map_result_Inl_iff:
  "(\<exists>e. map_result f xs = Inl e) \<longleftrightarrow> (\<exists>x \<in> set xs. \<exists>e. f x = Inl e)"
  by (induction xs) (auto split: sum.splits)

lemma map_result_SyntaxError:
  assumes "\<And>x e. f x = Inl e \<Longrightarrow> e = SyntaxError"
  shows "map_result f xs = Inl e \<longleftrightarrow> e = SyntaxError \<and> (\<exists>x \<in> set xs. f x = Inl SyntaxError)"
proof
  assume "map_result f xs = Inl e"
  then obtain x where "x \<in> set xs" "f x = Inl e" by (auto dest: map_result_Inl)
  with assms [of x e] show "e = SyntaxError \<and> (\<exists>x \<in> set xs. f x = Inl SyntaxError)" by auto
next
  assume r: "e = SyntaxError \<and> (\<exists>x \<in> set xs. f x = Inl SyntaxError)"
  then have "\<exists>x \<in> set xs. \<exists>e. f x = Inl e" by blast
  then obtain e' where e': "map_result f xs = Inl e'"
    unfolding map_result_Inl_iff [symmetric] ..
  then obtain x where "f x = Inl e'" by (auto dest: map_result_Inl)
  with assms have "e' = SyntaxError" by blast
  with e' r show "map_result f xs = Inl e" by simp
qed

lemma Customer_of_row_Inl_iff:
  "Customer_of_row r = Inl e \<longleftrightarrow>
     e = SyntaxError \<and> (\<exists>s. c_preferred_services r = Some s \<and> s \<noteq> [] \<and> JSON_parse s = Inl e)"
  by (rule iffI, erule Customer_of_row_Inl) (auto simp: Customer_of_row_def text_or_def)

lemma Employee_of_row_Inl_iff:
  "Employee_of_row r = Inl e \<longleftrightarrow>
     e = SyntaxError \<and> (\<exists>s. e_specialties r = Some s \<and> s \<noteq> [] \<and> JSON_parse s = Inl e)"
  by (rule iffI, erule Employee_of_row_Inl) (auto simp: Employee_of_row_def text_or_def)

lemma Appointment_of_row_Inl_iff:
  "Appointment_of_row r = Inl e \<longleftrightarrow>
     e = SyntaxError \<and> (\<exists>s. a_service_ids r = Some s \<and> JSON_parse s = Inl e)"
  by (rule iffI, erule Appointment_of_row_Inl)
     (auto simp: Appointment_of_row_def JSON_parse_column_def)

lemma TallyItem_of_row_Inl_iff:
  "TallyItem_of_row r = Inl e \<longleftrightarrow>
     e = SyntaxError \<and> (\<exists>s. t_services r = Some s \<and> JSON_parse s = Inl e)"
  by (rule iffI, erule TallyItem_of_row_Inl)
     (auto simp: TallyItem_of_row_def JSON_parse_column_def)

lemma customerDb_getAll_Inl_iff:
  "customerDb_getAll d = Inl e \<longleftrightarrow>
     e = SyntaxError \<and> (\<exists>r \<in> set (customers d). Customer_of_row r = Inl SyntaxError)"
  unfolding customerDb_getAll_def
  by (subst map_result_SyntaxError) (auto dest: Customer_of_row_Inl)

lemma employeeDb_getAll_Inl_iff:
  "employeeDb_getAll d = Inl e \<longleftrightarrow>
     e = SyntaxError \<and> (\<exists>r \<in> set (employees d). Employee_of_row r = Inl SyntaxError)"
  unfolding employeeDb_getAll_def
  by (subst map_result_SyntaxError) (auto dest: Employee_of_row_Inl)

lemma appointmentDb_getAll_Inl_iff:
  "appointmentDb_getAll d = Inl e \<longleftrightarrow>
     e = SyntaxError \<and> (\<exists>r \<in> set (appointments d). Appointment_of_row r = Inl SyntaxError)"
  unfolding appointmentDb_getAll_def
  by (subst map_result_SyntaxError) (auto dest: Appointment_of_row_Inl)

lemma tallyDb_getAll_Inl_iff:
  "tallyDb_getAll d = Inl e \<longleftrightarrow>
     e = SyntaxError \<and> (\<exists>r \<in> set (tally_items d). TallyItem_of_row r = Inl SyntaxError)"
  unfolding tallyDb_getAll_def
  by (subst map_result_SyntaxError) (auto dest: TallyItem_of_row_Inl)

lemma customerDb_getById_Inl_iff:
  "customerDb_getById i d = Inl e \<longleftrightarrow>
     (\<exists>r. sql_get c_id i (customers d) = Some r \<and> Customer_of_row r = Inl e)"
  by (auto simp: customerDb_getById_def split: option.splits sum.splits)

section \<open>Create, then read\<close>

lemma or_str_column: "column (bind (or_str a d)) = or_str a d"
  by (cases a) (simp_all add: or_str_def)

lemma or_num_column: "column (bind (or_num a d)) = or_num a d"
  by (cases a) (simp_all add: or_num_def)

lemma customerDb_getAll_entries:
  "customerDb_getAll d = Inr cs \<Longrightarrow> \<forall>r \<in> set (customers d). \<exists>c \<in> set cs. Customer_of_row r = Inr c"
  unfolding customerDb_getAll_def by (drule map_result_set) simp

lemma employeeDb_getAll_entries:
  "employeeDb_getAll d = Inr es \<Longrightarrow> \<forall>r \<in> set (employees d). \<exists>e \<in> set es. Employee_of_row r = Inr e"
  unfolding employeeDb_getAll_def by (drule map_result_set) simp

lemma appointmentDb_getAll_entries:
  "appointmentDb_getAll d = Inr as \<Longrightarrow>
     \<forall>r \<in> set (appointments d). \<exists>a \<in> set as. Appointment_of_row r = Inr a"
  unfolding appointmentDb_getAll_def by (drule map_result_set) simp

lemma tallyDb_getAll_entries:
  "tallyDb_getAll d = Inr ts \<Longrightarrow> \<forall>r \<in> set (tally_items d). \<exists>t \<in> set ts. TallyItem_of_row r = Inr t"
  unfolding tallyDb_getAll_def by (drule map_result_set) simp

lemma customerDb_getAll_after_insert:
  assumes "\<exists>cs. customerDb_getAll d = Inr cs" and "Customer_of_row row = Inr c"
  shows "\<exists>cs. customerDb_getAll (d\<lparr>customers := customers d @ [row]\<rparr>) = Inr cs"
proof (rule customerDb_getAll_total)
  from assms(1) obtain cs where "customerDb_getAll d = Inr cs" ..
  from customerDb_getAll_entries [OF this] assms(2)
  show "\<forall>r \<in> set (customers (d\<lparr>customers := customers d @ [row]\<rparr>)). \<exists>c. Customer_of_row r = Inr c"
    by auto
qed

lemma employeeDb_getAll_after_insert:
  assumes "\<exists>es. employeeDb_getAll d = Inr es" and "Employee_of_row row = Inr e"
  shows "\<exists>es. employeeDb_getAll (d\<lparr>employees := employees d @ [row]\<rparr>) = Inr es"
proof (rule employeeDb_getAll_total)
  from assms(1) obtain es where "employeeDb_getAll d = Inr es" ..
  from employeeDb_getAll_entries [OF this] assms(2)
  show "\<forall>r \<in> set (employees (d\<lparr>employees := employees d @ [row]\<rparr>)). \<exists>e. Employee_of_row r = Inr e"
    by auto
qed

lemma appointmentDb_getAll_after_insert:
  assumes "\<exists>as. appointmentDb_getAll d = Inr as" and "Appointment_of_row row = Inr a"
  shows "\<exists>as. appointmentDb_getAll (d\<lparr>appointments := appointments d @ [row]\<rparr>) = Inr as"
proof (rule appointmentDb_getAll_total)
  from assms(1) obtain as where "appointmentDb_getAll d = Inr as" ..
  from appointmentDb_getAll_entries [OF this] assms(2)
  show "\<forall>r \<in> set (appointments (d\<lparr>appointments := appointments d @ [row]\<rparr>)).
          \<exists>a. Appointment_of_row r = Inr a"
    by auto
qed

lemma tallyDb_getAll_after_insert:
  assumes "\<exists>ts. tallyDb_getAll d = Inr ts" and "TallyItem_of_row row = Inr t"
  shows "\<exists>ts. tallyDb_getAll (d\<lparr>tally_items := tally_items d @ [row]\<rparr>) = Inr ts"
proof (rule tallyDb_getAll_total)
  from assms(1) obtain ts where "tallyDb_getAll d = Inr ts" ..
  from tallyDb_getAll_entries [OF this] assms(2)
  show "\<forall>r \<in> set (tally_items (d\<lparr>tally_items := tally_items d @ [row]\<rparr>)).
          \<exists>t. TallyItem_of_row r = Inr t"
    by auto
qed

subsection \<open>Customers\<close>

lemma customerDb_round_trip:
  assumes c: "customerDb_create clk customer d = Inr (rec, d1)"
    and i: "C_id rec = Val i"
  shows "\<exists>r. customerDb_getById i d1 = Inr (Some r) \<and>
           C_id r = C_id rec \<and> C_name r = C_name rec \<and> C_phone r = C_phone rec
           \<and> C_gender r = C_gender rec \<and> C_visitCount r = C_visitCount rec
           \<and> C_totalSpent r = C_totalSpent rec \<and> C_lastVisit r = C_lastVisit rec
           \<and> C_email r = column (bind (C_email rec)) \<and> C_photo r = column (bind (C_photo rec))
           \<and> C_notes r = or_str (C_notes rec) ''''
           \<and> C_preferredServices r =
               (case C_preferredServices rec of
                  Val xs \<Rightarrow> JArr (map JStr xs) | Null \<Rightarrow> JNull | Undefined \<Rightarrow> JArr [])
           \<and> ((\<exists>e. C_email rec = Val e) \<and> (\<exists>n. C_notes rec = Val n) \<and> (\<exists>p. C_photo rec = Val p)
                \<and> (\<exists>xs. C_preferredServices rec = Val xs) \<longrightarrow> same_Customer rec r)
           \<and> (\<forall>rs. customerDb_getAll d1 = Inr rs \<longrightarrow> r \<in> set rs)
           \<and> ((\<exists>rs. customerDb_getAll d = Inr rs) \<longrightarrow> (\<exists>rs. customerDb_getAll d1 = Inr rs))"
proof -
  from customerDb_create_Inr [OF c] obtain row where
    d1: "d1 = d\<lparr>customers := customers d @ [row]\<rparr>"
    and v: "customers_violation row (customers d) = None"
    and row: "row = \<lparr>c_id = Some (''cust-'' @ string_of_nat (Date_now clk)),
                c_name = bind (C_name customer), c_phone = bind (C_phone customer),
                c_email = bind (C_email customer),
                c_gender = bind (C_gender customer), c_visit_count = Some 0,
                c_total_spent = Some 0, c_last_visit = Some (toISOString clk),
                c_preferred_services = stringify (C_preferredServices customer),
                c_notes = bind (or_str (C_notes customer) ''''),
                c_photo = bind (C_photo customer),
                c_created_at = Some (CURRENT_TIMESTAMP clk),
                c_updated_at = Some (CURRENT_TIMESTAMP clk)\<rparr>"
    and rec: "rec = customer\<lparr>C_id := Val (''cust-'' @ string_of_nat (Date_now clk)),
                       C_visitCount := Val 0, C_totalSpent := Val 0,
                       C_lastVisit := Val (toISOString clk)\<rparr>"
    by blast
  from rec i have ii: "i = ''cust-'' @ string_of_nat (Date_now clk)" by simp
  have rid: "c_id row = Some i" by (simp add: row ii)
  note nn = customers_violation_None [OF v]
  from nn rid have fresh: "Some i \<notin> set (map c_id (customers d))" by blast
  have got: "sql_get c_id i (customers d1) = Some row"
    unfolding d1 using fresh rid by (simp add: sql_get_fresh_last)
  have name: "column (c_name row) = C_name customer"
    and phone: "column (c_phone row) = C_phone customer"
    and gender: "column (c_gender row) = C_gender customer"
    using nn by (simp_all add: row column_bind_Val)
  have nts: "column (c_notes row) = or_str (C_notes customer) ''''"
    by (simp add: row or_str_column)
  define v where "v = (case C_preferredServices customer of
                  Val xs \<Rightarrow> JArr (map JStr xs) | Null \<Rightarrow> JNull | Undefined \<Rightarrow> JArr [])"
  have pv: "JSON_parse (text_or (c_preferred_services row) ''[]'') = Inr v"
  proof (cases "C_preferredServices customer")
    case Undefined
    then show ?thesis
      by (simp add: v_def row text_or_def JSON_parse_empty_array)
  next
    case Null
    then show ?thesis
      by (simp add: v_def row text_or_def JSON_parse_null)
  next
    case (Val xs)
    then show ?thesis
      using parse_stored_list [of xs] by (simp add: v_def row)
  qed
  define r where "r = \<lparr>C_id = column (c_id row), C_name = column (c_name row),
              C_phone = column (c_phone row), C_email = column (c_email row),
              C_gender = column (c_gender row), C_visitCount = column (c_visit_count row),
              C_totalSpent = column (c_total_spent row), C_lastVisit = column (c_last_visit row),
              C_preferredServices = v, C_notes = column (c_notes row),
              C_photo = column (c_photo row)\<rparr>"
  have cr: "Customer_of_row row = Inr r"
    by (simp add: Customer_of_row_def pv r_def)
  have g: "customerDb_getById i d1 = Inr (Some r)"
    by (simp add: customerDb_getById_def got cr)
  have f1: "C_id r = C_id rec" "C_name r = C_name rec" "C_phone r = C_phone rec"
      "C_gender r = C_gender rec" "C_visitCount r = C_visitCount rec"
      "C_totalSpent r = C_totalSpent rec" "C_lastVisit r = C_lastVisit rec"
    using name phone gender by (simp_all add: r_def rec) (simp_all add: row)
  have f2: "C_email r = column (bind (C_email rec))" "C_photo r = column (bind (C_photo rec))"
      "C_notes r = or_str (C_notes rec) ''''"
    using nts by (simp_all add: r_def rec) (simp_all add: row)
  have f3: "C_preferredServices r =
               (case C_preferredServices rec of
                  Val xs \<Rightarrow> JArr (map JStr xs) | Null \<Rightarrow> JNull | Undefined \<Rightarrow> JArr [])"
    by (simp add: r_def rec v_def)
  have f4: "(\<exists>e. C_email rec = Val e) \<and> (\<exists>n. C_notes rec = Val n) \<and> (\<exists>p. C_photo rec = Val p)
                \<and> (\<exists>xs. C_preferredServices rec = Val xs) \<longrightarrow> same_Customer rec r"
    using f1 f2 f3 by (auto simp: same_Customer_def or_str_def)
  have f5: "\<forall>rs. customerDb_getAll d1 = Inr rs \<longrightarrow> r \<in> set rs"
  proof (intro allI impI)
    fix rs assume "customerDb_getAll d1 = Inr rs"
    from customerDb_getAll_entries [OF this]
    have "\<forall>x \<in> set (customers d1). \<exists>y \<in> set rs. Customer_of_row x = Inr y" .
    moreover have "row \<in> set (customers d1)" by (simp add: d1)
    ultimately show "r \<in> set rs" using cr by force
  qed
  have f6: "(\<exists>rs. customerDb_getAll d = Inr rs) \<longrightarrow> (\<exists>rs. customerDb_getAll d1 = Inr rs)"
    unfolding d1 using cr by (blast intro: customerDb_getAll_after_insert)
  show ?thesis
    by (intro exI [of _ r] conjI g f1 f2 f3 f4 f5 f6)
qed

subsection \<open>Employees\<close>

lemma employeeDb_create_row:
  assumes "employeeDb_create clk e d = Inr (rec, d1)"
  shows "\<exists>row. d1 = d\<lparr>employees := employees d @ [row]\<rparr>
           \<and> employees_violation row (employees d) = None
           \<and> row = \<lparr>e_id = Some (''emp-'' @ string_of_nat (Date_now clk)),
                e_name = bind (E_name e), e_role = bind (E_role e),
                e_email = bind (or_str (E_email e) ''''),
                e_phone = bind (or_str (E_phone e) ''''),
                e_photo = bind (E_photo e),
                e_available = Some (if truthy_bool (E_available e) then 1 else 0),
                e_specialties =
                  stringify (if truthy_obj (E_specialties e) then E_specialties e else Val []),
                e_rating = bind (or_num (E_rating e) 5),
                e_next_available = bind (or_str (E_nextAvailable e) ''Now''),
                e_working_hours_start = bind (or_str (opt_start (E_workingHours e)) ''09:00''),
                e_working_hours_end = bind (or_str (opt_end (E_workingHours e)) ''18:00''),
                e_created_at = Some (CURRENT_TIMESTAMP clk),
                e_updated_at = Some (CURRENT_TIMESTAMP clk)\<rparr>
           \<and> rec = e\<lparr>E_id := Val (''emp-'' @ string_of_nat (Date_now clk))\<rparr>"
  using assms
  by (auto simp: employeeDb_create_def Let_def split: sum.splits dest!: sql_insert_Inr)

lemma parse_specialties:
  "JSON_parse (text_or (stringify (if truthy_obj l then l else Val [])) ''[]'') =
     Inr (case l of Val ss \<Rightarrow> JArr (map JStr ss) | _ \<Rightarrow> JArr [])"
  using parse_stored_list [of "[]"] by (cases l) (simp_all add: parse_stored_list)

lemma employee_round_trip:
  assumes c: "employeeDb_create clk e d = Inr (er, d1)"
  shows "\<exists>x. (\<forall>es. employeeDb_getAll d1 = Inr es \<longrightarrow> x \<in> set es) \<and>
           ((\<exists>es. employeeDb_getAll d = Inr es) \<longrightarrow> (\<exists>es. employeeDb_getAll d1 = Inr es)) \<and>
           E_id x = E_id er \<and> E_name x = E_name er \<and> E_role x = E_role er
           \<and> E_email x = or_str (E_email er) '''' \<and> E_phone x = or_str (E_phone er) ''''
           \<and> E_photo x = column (bind (E_photo er))
           \<and> E_available x = Val (truthy_bool (E_available er))
           \<and> E_specialties x =
               (case E_specialties er of Val ss \<Rightarrow> JArr (map JStr ss) | _ \<Rightarrow> JArr [])
           \<and> E_rating x = or_num (E_rating er) 5
           \<and> E_nextAvailable x = or_str (E_nextAvailable er) ''Now''
           \<and> E_workingHours x =
               Val \<lparr>wh_start = or_str (opt_start (E_workingHours er)) ''09:00'',
                    wh_end = or_str (opt_end (E_workingHours er)) ''18:00''\<rparr>"
proof -
  from employeeDb_create_row [OF c] obtain row where
    d1: "d1 = d\<lparr>employees := employees d @ [row]\<rparr>"
    and v: "employees_violation row (employees d) = None"
    and row: "row = \<lparr>e_id = Some (''emp-'' @ string_of_nat (Date_now clk)),
                e_name = bind (E_name e), e_role = bind (E_role e),
                e_email = bind (or_str (E_email e) ''''),
                e_phone = bind (or_str (E_phone e) ''''),
                e_photo = bind (E_photo e),
                e_available = Some (if truthy_bool (E_available e) then 1 else 0),
                e_specialties =
                  stringify (if truthy_obj (E_specialties e) then E_specialties e else Val []),
                e_rating = bind (or_num (E_rating e) 5),
                e_next_available = bind (or_str (E_nextAvailable e) ''Now''),
                e_working_hours_start = bind (or_str (opt_start (E_workingHours e)) ''09:00''),
                e_working_hours_end = bind (or_str (opt_end (E_workingHours e)) ''18:00''),
                e_created_at = Some (CURRENT_TIMESTAMP clk),
                e_updated_at = Some (CURRENT_TIMESTAMP clk)\<rparr>"
    and er: "er = e\<lparr>E_id := Val (''emp-'' @ string_of_nat (Date_now clk))\<rparr>"
    by blast
  from v have nn: "bind (E_name e) \<noteq> None" "bind (E_role e) \<noteq> None"
    by (auto simp: employees_violation_def row split: if_splits)
  define x where "x = \<lparr>E_id = Val (''emp-'' @ string_of_nat (Date_now clk)),
      E_name = E_name e, E_role = E_role e, E_email = or_str (E_email e) '''',
      E_phone = or_str (E_phone e) '''', E_photo = column (bind (E_photo e)),
      E_available = Val (truthy_bool (E_available e)),
      E_specialties = (case E_specialties e of Val ss \<Rightarrow> JArr (map JStr ss) | _ \<Rightarrow> JArr []),
      E_rating = or_num (E_rating e) 5, E_nextAvailable = or_str (E_nextAvailable e) ''Now'',
      E_workingHours = Val \<lparr>wh_start = or_str (opt_start (E_workingHours e)) ''09:00'',
                             wh_end = or_str (opt_end (E_workingHours e)) ''18:00''\<rparr>\<rparr>"
  have dec: "Employee_of_row row = Inr x"
    using nn
    by (simp add: Employee_of_row_def row parse_specialties x_def or_str_column or_num_column
        column_bind_Val Boolean_def)
  have a: "\<forall>es. employeeDb_getAll d1 = Inr es \<longrightarrow> x \<in> set es"
  proof (intro allI impI)
    fix es assume "employeeDb_getAll d1 = Inr es"
    from employeeDb_getAll_entries [OF this]
    have "\<forall>r \<in> set (employees d1). \<exists>y \<in> set es. Employee_of_row r = Inr y" .
    moreover have "row \<in> set (employees d1)" by (simp add: d1)
    ultimately show "x \<in> set es" using dec by force
  qed
  have b: "(\<exists>es. employeeDb_getAll d = Inr es) \<longrightarrow> (\<exists>es. employeeDb_getAll d1 = Inr es)"
    unfolding d1 using dec by (blast intro: employeeDb_getAll_after_insert)
  have f: "E_id x = E_id er" "E_name x = E_name er" "E_role x = E_role er"
      "E_email x = or_str (E_email er) ''''" "E_phone x = or_str (E_phone er) ''''"
      "E_photo x = column (bind (E_photo er))"
      "E_available x = Val (truthy_bool (E_available er))"
      "E_specialties x =
         (case E_specialties er of Val ss \<Rightarrow> JArr (map JStr ss) | _ \<Rightarrow> JArr [])"
      "E_rating x = or_num (E_rating er) 5"
      "E_nextAvailable x = or_str (E_nextAvailable er) ''Now''"
      "E_workingHours x =
         Val \<lparr>wh_start = or_str (opt_start (E_workingHours er)) ''09:00'',
              wh_end = or_str (opt_end (E_workingHours er)) ''18:00''\<rparr>"
    by (simp_all add: x_def er)
  show ?thesis
    by (intro exI [of _ x] conjI a b f)
qed

subsection \<open>Appointments\<close>

lemma appointmentDb_create_row:
  assumes "appointmentDb_create clk a d = Inr d1"
  shows "\<exists>row. d1 = d\<lparr>appointments := appointments d @ [row]\<rparr>
           \<and> appointments_violation row (appointments d) = None
           \<and> row = \<lparr>a_id = bind (A_id a), a_customer_id = bind (A_customerId a),
                a_employee_id = bind (A_employeeId a),
                a_service_ids = stringify (A_serviceIds a),
                a_date = bind (A_date a), a_time = bind (A_time a),
                a_status = bind (A_status a), a_total = bind (A_total a),
                a_notes = bind (or_str (A_notes a) ''''),
                a_created_at = Some (CURRENT_TIMESTAMP clk),
                a_updated_at = Some (CURRENT_TIMESTAMP clk)\<rparr>"
  using assms
  by (auto simp: appointmentDb_create_def Let_def split: sum.splits if_splits
      dest!: sql_insert_Inr)

lemma parse_stringify_column:
  "stringify l \<noteq> None \<Longrightarrow>
     \<exists>v. JSON_parse_column (stringify l) = Inr v \<and> same_list l v"
  by (cases l) (simp_all add: JSON_parse_column_def JSON_parse_stringify JSON_parse_null)

lemma appointment_round_trip:
  assumes c: "appointmentDb_create clk a d = Inr d1"
  shows "\<exists>x. (\<forall>as. appointmentDb_getAll d1 = Inr as \<longrightarrow> x \<in> set as) \<and>
           ((\<exists>as. appointmentDb_getAll d = Inr as) \<longrightarrow> (\<exists>as. appointmentDb_getAll d1 = Inr as)) \<and>
           A_id x = column (bind (A_id a)) \<and> A_customerId x = A_customerId a
           \<and> A_employeeId x = A_employeeId a \<and> same_list (A_serviceIds a) (A_serviceIds x)
           \<and> A_date x = A_date a \<and> A_time x = A_time a
           \<and> A_status x = column (bind (A_status a)) \<and> A_total x = A_total a
           \<and> A_notes x = or_str (A_notes a) ''''"
proof -
  from appointmentDb_create_row [OF c] obtain row where
    d1: "d1 = d\<lparr>appointments := appointments d @ [row]\<rparr>"
    and v: "appointments_violation row (appointments d) = None"
    and row: "row = \<lparr>a_id = bind (A_id a), a_customer_id = bind (A_customerId a),
                a_employee_id = bind (A_employeeId a),
                a_service_ids = stringify (A_serviceIds a),
                a_date = bind (A_date a), a_time = bind (A_time a),
                a_status = bind (A_status a), a_total = bind (A_total a),
                a_notes = bind (or_str (A_notes a) ''''),
                a_created_at = Some (CURRENT_TIMESTAMP clk),
                a_updated_at = Some (CURRENT_TIMESTAMP clk)\<rparr>"
    by blast
  from v have nn: "bind (A_customerId a) \<noteq> None" "bind (A_employeeId a) \<noteq> None"
      "stringify (A_serviceIds a) \<noteq> None" "bind (A_date a) \<noteq> None" "bind (A_time a) \<noteq> None"
      "bind (A_total a) \<noteq> None"
    by (auto simp: appointments_violation_def row split: if_splits)
  from parse_stringify_column [OF nn(3)] obtain l where
    l: "JSON_parse_column (stringify (A_serviceIds a)) = Inr l" "same_list (A_serviceIds a) l"
    by blast
  define x where "x = \<lparr>A_id = column (bind (A_id a)), A_customerId = A_customerId a,
      A_employeeId = A_employeeId a, A_serviceIds = l, A_date = A_date a, A_time = A_time a,
      A_status = column (bind (A_status a)), A_total = A_total a,
      A_notes = or_str (A_notes a) ''''\<rparr>"
  have dec: "Appointment_of_row row = Inr x"
    using nn by (simp add: Appointment_of_row_def row l(1) x_def or_str_column column_bind_Val)
  have g: "\<forall>as. appointmentDb_getAll d1 = Inr as \<longrightarrow> x \<in> set as"
  proof (intro allI impI)
    fix as assume "appointmentDb_getAll d1 = Inr as"
    from appointmentDb_getAll_entries [OF this]
    have "\<forall>r \<in> set (appointments d1). \<exists>y \<in> set as. Appointment_of_row r = Inr y" .
    moreover have "row \<in> set (appointments d1)" by (simp add: d1)
    ultimately show "x \<in> set as" using dec by force
  qed
  have b: "(\<exists>as. appointmentDb_getAll d = Inr as) \<longrightarrow> (\<exists>as. appointmentDb_getAll d1 = Inr as)"
    unfolding d1 using dec by (blast intro: appointmentDb_getAll_after_insert)
  have f: "A_id x = column (bind (A_id a))" "A_customerId x = A_customerId a"
      "A_employeeId x = A_employeeId a" "same_list (A_serviceIds a) (A_serviceIds x)"
      "A_date x = A_date a" "A_time x = A_time a"
      "A_status x = column (bind (A_status a))" "A_total x = A_total a"
      "A_notes x = or_str (A_notes a) ''''"
    using l(2) by (simp_all add: x_def)
  show ?thesis
    by (intro exI [of _ x] conjI g b f)
qed

subsection \<open>Tally items\<close>

lemma tallyDb_create_row:
  assumes "tallyDb_create clk item d = Inr (rec, d1)"
  shows "\<exists>row. d1 = d\<lparr>tally_items := tally_items d @ [row]\<rparr>
           \<and> tally_items_violation row (tally_items d) = None
           \<and> row = \<lparr>t_id = Some (''tally-'' @ string_of_nat (Date_now clk)),
                t_date = bind (T_date item), t_time = bind (T_time item),
                t_customer_name = bind (T_customerName item),
                t_customer_phone = bind (T_customerPhone item),
                t_staff_name = bind (T_staffName item),
                t_services = stringify (T_services item),
                t_total_cost = bind (T_totalCost item),
                t_payment_method = bind (T_paymentMethod item),
                t_payment_status = bind (T_paymentStatus item),
                t_payment_date = Some (toISOString clk), t_upi_transaction_id = None,
                t_created_at = Some (CURRENT_TIMESTAMP clk),
                t_updated_at = Some (CURRENT_TIMESTAMP clk)\<rparr>
           \<and> rec = item\<lparr>T_id := Val (''tally-'' @ string_of_nat (Date_now clk)),
                          T_paymentDate := Val (toISOString clk),
                          T_upiTransactionId := Undefined\<rparr>"
  using assms
  by (auto simp: tallyDb_create_def Let_def split: sum.splits dest!: sql_insert_Inr)

lemma tally_round_trip:
  assumes c: "tallyDb_create clk item d = Inr (tr, d1)"
  shows "\<exists>x. (\<forall>ts. tallyDb_getAll d1 = Inr ts \<longrightarrow> x \<in> set ts) \<and>
           ((\<exists>ts. tallyDb_getAll d = Inr ts) \<longrightarrow> (\<exists>ts. tallyDb_getAll d1 = Inr ts)) \<and>
           T_id x = T_id tr \<and> T_date x = T_date tr \<and> T_time x = T_time tr
           \<and> T_customerName x = T_customerName tr \<and> T_customerPhone x = T_customerPhone tr
           \<and> T_staffName x = T_staffName tr \<and> same_list (T_services tr) (T_services x)
           \<and> T_totalCost x = T_totalCost tr \<and> T_paymentMethod x = T_paymentMethod tr
           \<and> T_paymentStatus x = column (bind (T_paymentStatus tr))
           \<and> T_paymentDate x = T_paymentDate tr
           \<and> T_upiTransactionId x = Null \<and> T_upiTransactionId tr = Undefined"
proof -
  from tallyDb_create_row [OF c] obtain row where
    d1: "d1 = d\<lparr>tally_items := tally_items d @ [row]\<rparr>"
    and v: "tally_items_violation row (tally_items d) = None"
    and row: "row = \<lparr>t_id = Some (''tally-'' @ string_of_nat (Date_now clk)),
                t_date = bind (T_date item), t_time = bind (T_time item),
                t_customer_name = bind (T_customerName item),
                t_customer_phone = bind (T_customerPhone item),
                t_staff_name = bind (T_staffName item),
                t_services = stringify (T_services item),
                t_total_cost = bind (T_totalCost item),
                t_payment_method = bind (T_paymentMethod item),
                t_payment_status = bind (T_paymentStatus item),
                t_payment_date = Some (toISOString clk), t_upi_transaction_id = None,
                t_created_at = Some (CURRENT_TIMESTAMP clk),
                t_updated_at = Some (CURRENT_TIMESTAMP clk)\<rparr>"
    and tr: "tr = item\<lparr>T_id := Val (''tally-'' @ string_of_nat (Date_now clk)),
                          T_paymentDate := Val (toISOString clk),
                          T_upiTransactionId := Undefined\<rparr>"
    by blast
  from v have nn: "bind (T_date item) \<noteq> None" "bind (T_time item) \<noteq> None"
      "bind (T_customerName item) \<noteq> None" "bind (T_customerPhone item) \<noteq> None"
      "bind (T_staffName item) \<noteq> None" "stringify (T_services item) \<noteq> None"
      "bind (T_totalCost item) \<noteq> None" "bind (T_paymentMethod item) \<noteq> None"
    by (auto simp: tally_items_violation_def row split: if_splits)
  from parse_stringify_column [OF nn(6)] obtain l where
    l: "JSON_parse_column (stringify (T_services item)) = Inr l" "same_list (T_services item) l"
    by blast
  define x where "x = \<lparr>T_id = Val (''tally-'' @ string_of_nat (Date_now clk)),
      T_date = T_date item, T_time = T_time item, T_customerName = T_customerName item,
      T_customerPhone = T_customerPhone item, T_staffName = T_staffName item, T_services = l,
      T_totalCost = T_totalCost item, T_paymentMethod = T_paymentMethod item,
      T_paymentStatus = column (bind (T_paymentStatus item)),
      T_paymentDate = Val (toISOString clk), T_upiTransactionId = Null\<rparr>"
  have dec: "TallyItem_of_row row = Inr x"
    using nn by (simp add: TallyItem_of_row_def row l(1) x_def column_bind_Val)
  have g: "\<forall>ts. tallyDb_getAll d1 = Inr ts \<longrightarrow> x \<in> set ts"
  proof (intro allI impI)
    fix ts assume "tallyDb_getAll d1 = Inr ts"
    from tallyDb_getAll_entries [OF this]
    have "\<forall>r \<in> set (tally_items d1). \<exists>y \<in> set ts. TallyItem_of_row r = Inr y" .
    moreover have "row \<in> set (tally_items d1)" by (simp add: d1)
    ultimately show "x \<in> set ts" using dec by force
  qed
  have b: "(\<exists>ts. tallyDb_getAll d = Inr ts) \<longrightarrow> (\<exists>ts. tallyDb_getAll d1 = Inr ts)"
    unfolding d1 using dec by (blast intro: tallyDb_getAll_after_insert)
  have f: "T_id x = T_id tr" "T_date x = T_date tr" "T_time x = T_time tr"
      "T_customerName x = T_customerName tr" "T_customerPhone x = T_customerPhone tr"
      "T_staffName x = T_staffName tr" "same_list (T_services tr) (T_services x)"
      "T_totalCost x = T_totalCost tr" "T_paymentMethod x = T_paymentMethod tr"
      "T_paymentStatus x = column (bind (T_paymentStatus tr))"
      "T_paymentDate x = T_paymentDate tr"
      "T_upiTransactionId x = Null" "T_upiTransactionId tr = Undefined"
    using l(2) by (simp_all add: x_def tr)
  show ?thesis
    by (intro exI [of _ x] conjI g b f)
qed

subsection \<open>Services and products\<close>

lemma service_round_trip:
  assumes "serviceDb_create clk service d = Inr d1"
  shows "\<lparr>s_id = bind (S_id service), s_name = bind (S_name service),
           s_duration = bind (S_duration service), s_price = bind (S_price service),
           s_category = bind (S_category service),
           s_description = bind (S_description service),
           s_created_at = Some (CURRENT_TIMESTAMP clk),
           s_updated_at = Some (CURRENT_TIMESTAMP clk)\<rparr> \<in> set (serviceDb_getAll d1)"
  using assms
  by (auto simp: serviceDb_create_def serviceDb_getAll_def Let_def split: sum.splits
      dest!: sql_insert_Inr)

lemma product_round_trip:
  assumes "productDb_create clk product d = Inr d1"
  shows "\<lparr>p_id = bind (P_id product), p_name = bind (P_name product),
           p_price = bind (P_price product), p_image = bind (P_image product),
           p_category = bind (P_category product), p_stock = bind (P_stock product),
           p_description = bind (P_description product), p_brand = bind (P_brand product),
           p_created_at = Some (CURRENT_TIMESTAMP clk),
           p_updated_at = Some (CURRENT_TIMESTAMP clk)\<rparr> \<in> set (productDb_getAll d1)"
  using assms
  by (auto simp: productDb_create_def productDb_getAll_def Let_def split: sum.splits
      dest!: sql_insert_Inr)

text \<open>
  Claim C1 as stated: the record read back after \<open>create\<close> equals the record
  \<open>create\<close> returned, also when notes or photo are omitted. For the customer of
  the specification's example (no email, notes or photo) the returned record has no
  notes and no photo, the record read back has notes \<open>""\<close> and photo
  \<open>null\<close>.
\<close>

theorem omitted_fields_counterexample:
  "customerDb_create example_clock example_customer empty_db
     = Inr (example_customer\<lparr>C_id := Val ''cust-1700000000000'', C_visitCount := Val 0,
              C_totalSpent := Val 0, C_lastVisit := Val ''2023-11-14T22:13:20.000Z''\<rparr>,
            empty_db\<lparr>customers := [example_customer_stored]\<rparr>) \<and>
   customerDb_getById ''cust-1700000000000'' (empty_db\<lparr>customers := [example_customer_stored]\<rparr>)
     = Inr (Some example_customer_read) \<and>
   C_notes (example_customer\<lparr>C_id := Val ''cust-1700000000000'', C_visitCount := Val 0,
              C_totalSpent := Val 0, C_lastVisit := Val ''2023-11-14T22:13:20.000Z''\<rparr>) = Undefined \<and>
   C_notes example_customer_read = Val '''' \<and>
   C_photo (example_customer\<lparr>C_id := Val ''cust-1700000000000'', C_visitCount := Val 0,
              C_totalSpent := Val 0, C_lastVisit := Val ''2023-11-14T22:13:20.000Z''\<rparr>) = Undefined \<and>
   C_photo example_customer_read = Null \<and>
   \<not> same_Customer
       (example_customer\<lparr>C_id := Val ''cust-1700000000000'', C_visitCount := Val 0,
              C_totalSpent := Val 0, C_lastVisit := Val ''2023-11-14T22:13:20.000Z''\<rparr>)
       example_customer_read"
  by (simp add: customerDb_create_def customerDb_getById_def example_clock_def
      example_customer_def empty_Customer_def empty_db_def example_customer_stored_def
      example_customer_read_def same_Customer_def string_of_nat.simps sql_insert_def sql_get_def
      guard_def customers_violation_def check_in_def taken_def or_str_def Customer_of_row_def
      text_or_def stringify_svc1 parse_svc1 Let_def)

text \<open>
  Claim C1, amended. After a successful \<open>create\<close> the record read back for the
  created id is determined, field by field, by the record \<open>create\<close> returned (for
  appointments, services and products, whose \<open>create\<close> returns nothing, by the
  record passed). It is the result of \<open>getById\<close> for customers and an entry of
  every list \<open>getAll\<close> returns, and \<open>getAll\<close> returns whenever it returned
  before the call.

  \<^item> A field stored in a NOT NULL column, the generated id and the time stamps of
  \<open>create\<close> read back equal. A list field reads back as the strings that were
  passed, in their order (\<open>null\<close> as \<open>null\<close>).

  \<^item> A field of a nullable column that was omitted reads back as \<open>null\<close>:
  customer email and photo, employee photo, appointment id and status, tally
  paymentStatus; a tally item's upiTransactionId always reads back as \<open>null\<close>
  while \<open>create\<close> returned it as \<open>undefined\<close>.

  \<^item> A field with a default in \<open>create\<close> reads back as the default when it
  was omitted or falsy: customer and appointment notes \<open>""\<close>; employee email and
  phone \<open>""\<close>, specialties \<open>[]\<close>, rating 5, nextAvailable \<open>Now\<close>,
  working hours 09:00 and 18:00, available \<open>false\<close>. An omitted customer
  preferredServices reads back as \<open>[]\<close>.

  \<^item> A customer created with email, notes, photo and preferredServices is read back
  equal to the returned record.

  \<^item> Services and products are read back as the stored row: the columns hold the
  values passed (NULL for an omitted one), created_at and updated_at the time of the insert.
\<close>

theorem create_then_read:
  "(customerDb_create clk customer d = Inr (rec, d1) \<and> C_id rec = Val i \<longrightarrow>
      (\<exists>r. customerDb_getById i d1 = Inr (Some r) \<and>
           C_id r = C_id rec \<and> C_name r = C_name rec \<and> C_phone r = C_phone rec
           \<and> C_gender r = C_gender rec \<and> C_visitCount r = C_visitCount rec
           \<and> C_totalSpent r = C_totalSpent rec \<and> C_lastVisit r = C_lastVisit rec
           \<and> C_email r = column (bind (C_email rec)) \<and> C_photo r = column (bind (C_photo rec))
           \<and> C_notes r = or_str (C_notes rec) ''''
           \<and> C_preferredServices r =
               (case C_preferredServices rec of
                  Val xs \<Rightarrow> JArr (map JStr xs) | Null \<Rightarrow> JNull | Undefined \<Rightarrow> JArr [])
           \<and> ((\<exists>e. C_email rec = Val e) \<and> (\<exists>n. C_notes rec = Val n) \<and> (\<exists>p. C_photo rec = Val p)
                \<and> (\<exists>xs. C_preferredServices rec = Val xs) \<longrightarrow> same_Customer rec r)
           \<and> (\<forall>rs. customerDb_getAll d1 = Inr rs \<longrightarrow> r \<in> set rs)
           \<and> ((\<exists>rs. customerDb_getAll d = Inr rs) \<longrightarrow> (\<exists>rs. customerDb_getAll d1 = Inr rs)))) \<and>
   (employeeDb_create clk employee d = Inr (er, d2) \<longrightarrow>
      (\<exists>x. (\<forall>es. employeeDb_getAll d2 = Inr es \<longrightarrow> x \<in> set es) \<and>
           ((\<exists>es. employeeDb_getAll d = Inr es) \<longrightarrow> (\<exists>es. employeeDb_getAll d2 = Inr es)) \<and>
           E_id x = E_id er \<and> E_name x = E_name er \<and> E_role x = E_role er
           \<and> E_email x = or_str (E_email er) '''' \<and> E_phone x = or_str (E_phone er) ''''
           \<and> E_photo x = column (bind (E_photo er))
           \<and> E_available x = Val (truthy_bool (E_available er))
           \<and> E_specialties x =
               (case E_specialties er of Val ss \<Rightarrow> JArr (map JStr ss) | _ \<Rightarrow> JArr [])
           \<and> E_rating x = or_num (E_rating er) 5
           \<and> E_nextAvailable x = or_str (E_nextAvailable er) ''Now''
           \<and> E_workingHours x =
               Val \<lparr>wh_start = or_str (opt_start (E_workingHours er)) ''09:00'',
                    wh_end = or_str (opt_end (E_workingHours er)) ''18:00''\<rparr>)) \<and>
   (appointmentDb_create clk appointment d = Inr d3 \<longrightarrow>
      (\<exists>x. (\<forall>as. appointmentDb_getAll d3 = Inr as \<longrightarrow> x \<in> set as) \<and>
           ((\<exists>as. appointmentDb_getAll d = Inr as) \<longrightarrow> (\<exists>as. appointmentDb_getAll d3 = Inr as)) \<and>
           A_id x = column (bind (A_id appointment)) \<and> A_customerId x = A_customerId appointment
           \<and> A_employeeId x = A_employeeId appointment
           \<and> same_list (A_serviceIds appointment) (A_serviceIds x)
           \<and> A_date x = A_date appointment \<and> A_time x = A_time appointment
           \<and> A_status x = column (bind (A_status appointment)) \<and> A_total x = A_total appointment
           \<and> A_notes x = or_str (A_notes appointment) '''')) \<and>
   (tallyDb_create clk item d = Inr (tr, d4) \<longrightarrow>
      (\<exists>x. (\<forall>ts. tallyDb_getAll d4 = Inr ts \<longrightarrow> x \<in> set ts) \<and>
           ((\<exists>ts. tallyDb_getAll d = Inr ts) \<longrightarrow> (\<exists>ts. tallyDb_getAll d4 = Inr ts)) \<and>
           T_id x = T_id tr \<and> T_date x = T_date tr \<and> T_time x = T_time tr
           \<and> T_customerName x = T_customerName tr \<and> T_customerPhone x = T_customerPhone tr
           \<and> T_staffName x = T_staffName tr \<and> same_list (T_services tr) (T_services x)
           \<and> T_totalCost x = T_totalCost tr \<and> T_paymentMethod x = T_paymentMethod tr
           \<and> T_paymentStatus x = column (bind (T_paymentStatus tr))
           \<and> T_paymentDate x = T_paymentDate tr
           \<and> T_upiTransactionId x = Null \<and> T_upiTransactionId tr = Undefined)) \<and>
   (serviceDb_create clk service d = Inr d5 \<longrightarrow>
      \<lparr>s_id = bind (S_id service), s_name = bind (S_name service),
        s_duration = bind (S_duration service), s_price = bind (S_price service),
        s_category = bind (S_category service),
        s_description = bind (S_description service),
        s_created_at = Some (CURRENT_TIMESTAMP clk),
        s_updated_at = Some (CURRENT_TIMESTAMP clk)\<rparr> \<in> set (serviceDb_getAll d5)) \<and>
   (productDb_create clk product d = Inr d6 \<longrightarrow>
      \<lparr>p_id = bind (P_id product), p_name = bind (P_name product),
        p_price = bind (P_price product), p_image = bind (P_image product),
        p_category = bind (P_category product), p_stock = bind (P_stock product),
        p_description = bind (P_description product), p_brand = bind (P_brand product),
        p_created_at = Some (CURRENT_TIMESTAMP clk),
        p_updated_at = Some (CURRENT_TIMESTAMP clk)\<rparr> \<in> set (productDb_getAll d6))"
proof (intro conjI impI)
  assume "customerDb_create clk customer d = Inr (rec, d1) \<and> C_id rec = Val i"
  then show "\<exists>r. customerDb_getById i d1 = Inr (Some r) \<and>
           C_id r = C_id rec \<and> C_name r = C_name rec \<and> C_phone r = C_phone rec
           \<and> C_gender r = C_gender rec \<and> C_visitCount r = C_visitCount rec
           \<and> C_totalSpent r = C_totalSpent rec \<and> C_lastVisit r = C_lastVisit rec
           \<and> C_email r = column (bind (C_email rec)) \<and> C_photo r = column (bind (C_photo rec))
           \<and> C_notes r = or_str (C_notes rec) ''''
           \<and> C_preferredServices r =
               (case C_preferredServices rec of
                  Val xs \<Rightarrow> JArr (map JStr xs) | Null \<Rightarrow> JNull | Undefined \<Rightarrow> JArr [])
           \<and> ((\<exists>e. C_email rec = Val e) \<and> (\<exists>n. C_notes rec = Val n) \<and> (\<exists>p. C_photo rec = Val p)
                \<and> (\<exists>xs. C_preferredServices rec = Val xs) \<longrightarrow> same_Customer rec r)
           \<and> (\<forall>rs. customerDb_getAll d1 = Inr rs \<longrightarrow> r \<in> set rs)
           \<and> ((\<exists>rs. customerDb_getAll d = Inr rs) \<longrightarrow> (\<exists>rs. customerDb_getAll d1 = Inr rs))"
    by (elim conjE) (rule customerDb_round_trip)
qed (erule employee_round_trip appointment_round_trip tally_round_trip service_round_trip
       product_round_trip)+

theorem create_then_read_witness:
  "\<exists>rec d1 r er d2 es x d3 as y tr d4 ts z d5 d6.
     customerDb_create example_clock full_customer example_db = Inr (rec, d1) \<and>
     C_id rec = Val ''cust-1700000000000'' \<and>
     C_email rec = Val ''asha@example.com'' \<and> C_notes rec = Val ''regular'' \<and>
     C_photo rec = Val ''asha.png'' \<and> C_preferredServices rec = Val [''svc-1'', ''svc-2''] \<and>
     customerDb_getById ''cust-1700000000000'' d1 = Inr (Some r) \<and>
     same_Customer rec r \<and>
     C_preferredServices r = JArr [JStr ''svc-1'', JStr ''svc-2''] \<and>
     (\<exists>rs. customerDb_getAll d1 = Inr rs \<and> r \<in> set rs) \<and>
     employeeDb_create example_clock skilled_employee example_db = Inr (er, d2) \<and>
     employeeDb_getAll d2 = Inr es \<and> x \<in> set es \<and>
     E_id x = Val ''emp-1700000000000'' \<and> E_name x = Val ''Ana'' \<and> E_role x = Val ''Stylist'' \<and>
     E_email x = Val '''' \<and> E_photo x = Null \<and> E_available x = Val True \<and>
     E_specialties x = JArr [JStr ''Hair'', JStr ''Nails''] \<and> E_rating x = Val 5 \<and>
     E_nextAvailable x = Val ''Now'' \<and>
     E_workingHours x = Val \<lparr>wh_start = Val ''09:00'', wh_end = Val ''18:00''\<rparr> \<and>
     appointmentDb_create example_clock example_appointment example_db = Inr d3 \<and>
     appointmentDb_getAll d3 = Inr as \<and> y \<in> set as \<and>
     A_id y = Val ''a3'' \<and> A_customerId y = Val ''c1'' \<and> A_employeeId y = Val ''e1'' \<and>
     A_serviceIds y = JArr [JStr ''svc-1'', JStr ''svc-2''] \<and> A_date y = Val ''2024-03-01'' \<and>
     A_time y = Val ''09:30'' \<and> A_status y = Val ''scheduled'' \<and> A_total y = Val 900 \<and>
     A_notes y = Val '''' \<and>
     tallyDb_create example_clock example_item example_db = Inr (tr, d4) \<and>
     tallyDb_getAll d4 = Inr ts \<and> z \<in> set ts \<and>
     T_id z = Val ''tally-1700000000000'' \<and> T_date z = Val ''2023-11-14'' \<and>
     T_time z = Val ''22:13'' \<and> T_customerName z = Val ''Asha'' \<and>
     T_customerPhone z = Val ''9990001111'' \<and> T_staffName z = Val ''Mia'' \<and>
     T_services z = JArr [JStr ''Haircut'', JStr ''Facial''] \<and> T_totalCost z = Val 1200 \<and>
     T_paymentMethod z = Val ''upi'' \<and> T_paymentStatus z = Val ''pending'' \<and>
     T_paymentDate z = Val ''2023-11-14T22:13:20.000Z'' \<and> T_upiTransactionId z = Null \<and>
     T_upiTransactionId tr = Undefined \<and>
     serviceDb_create example_clock seed_service example_db = Inr d5 \<and>
     (\<exists>s \<in> set (serviceDb_getAll d5). s_id s = Some ''svc-1'' \<and> s_name s = Some ''Haircut''
        \<and> s_duration s = Some 30 \<and> s_price s = Some 500 \<and> s_category s = Some ''Hair''
        \<and> s_description s = Some ''Wash and cut'') \<and>
     productDb_create example_clock seed_product example_db = Inr d6 \<and>
     (\<exists>p \<in> set (productDb_getAll d6). p_id p = Some ''prod-1'' \<and> p_name p = Some ''Shampoo''
        \<and> p_price p = Some 350 \<and> p_image p = None \<and> p_category p = Some ''Care''
        \<and> p_stock p = Some 10 \<and> p_description p = None \<and> p_brand p = Some ''Acme'')"
proof -
  obtain rec d1 rs where
    c: "customerDb_create example_clock full_customer example_db = Inr (rec, d1)"
    and i: "C_id rec = Val ''cust-1700000000000''"
    and f: "C_email rec = Val ''asha@example.com''" "C_notes rec = Val ''regular''"
      "C_photo rec = Val ''asha.png''" "C_preferredServices rec = Val [''svc-1'', ''svc-2'']"
    and g: "customerDb_getAll d1 = Inr rs"
    by (simp add: customerDb_create_def customerDb_getAll_def example_clock_def
        full_customer_def example_db_def example_customer_row_def string_of_nat.simps
        sql_insert_def guard_def customers_violation_def check_in_def taken_def or_str_def
        Customer_of_row_def text_or_def JSON_stringify_nonempty JSON_parse_stringify
        JSON_parse_empty_array Let_def)
  obtain er d2 es where
    ce: "employeeDb_create example_clock skilled_employee example_db = Inr (er, d2)"
    and fe: "er = skilled_employee\<lparr>E_id := Val ''emp-1700000000000''\<rparr>"
    and ge: "employeeDb_getAll d2 = Inr es"
    by (simp add: employeeDb_create_def employeeDb_getAll_def example_clock_def
        skilled_employee_def example_employee_def empty_Employee_def example_db_def
        example_employee_row_def string_of_nat.simps sql_insert_def guard_def
        employees_violation_def taken_def or_str_def or_num_def opt_start_def opt_end_def
        Employee_of_row_def text_or_def JSON_stringify_nonempty JSON_parse_stringify
        JSON_parse_empty_array Let_def)
  obtain d3 as where
    ca: "appointmentDb_create example_clock example_appointment example_db = Inr d3"
    and ga: "appointmentDb_getAll d3 = Inr as"
    by (simp add: appointmentDb_create_def appointmentDb_getAll_def example_clock_def
        example_appointment_def example_db_def example_appointment_row_def
        example_customer_row_def example_employee_row_def sql_insert_def guard_def
        appointments_violation_def check_in_def taken_def or_str_def Appointment_of_row_def
        JSON_parse_column_def JSON_parse_stringify JSON_parse_empty_array Let_def)
  obtain tr d4 ts where
    ct: "tallyDb_create example_clock example_item example_db = Inr (tr, d4)"
    and ft: "tr = example_item\<lparr>T_id := Val ''tally-1700000000000'',
               T_paymentDate := Val ''2023-11-14T22:13:20.000Z'', T_upiTransactionId := Undefined\<rparr>"
    and gt: "tallyDb_getAll d4 = Inr ts"
    by (simp add: tallyDb_create_def tallyDb_getAll_def example_clock_def example_item_def
        example_db_def example_tally_row_def string_of_nat.simps sql_insert_def guard_def
        tally_items_violation_def check_in_def taken_def TallyItem_of_row_def
        JSON_parse_column_def JSON_parse_stringify JSON_parse_empty_array Let_def)
  obtain d5 d6 where
    cs: "serviceDb_create example_clock seed_service example_db = Inr d5"
    and cp: "productDb_create example_clock seed_product example_db = Inr d6"
    by (simp add: serviceDb_create_def productDb_create_def example_clock_def seed_service_def
        seed_product_def example_db_def example_service_row_def example_product_row_def
        sql_insert_def guard_def services_violation_def products_violation_def taken_def Let_def)
  note t = create_then_read [where clk = example_clock and d = example_db
      and customer = full_customer and rec = rec and ?d1.0 = d1 and i = "''cust-1700000000000''"
      and employee = skilled_employee and er = er and ?d2.0 = d2
      and appointment = example_appointment and ?d3.0 = d3
      and item = example_item and tr = tr and ?d4.0 = d4
      and service = seed_service and ?d5.0 = d5 and product = seed_product and ?d6.0 = d6]
  note t1 = t [THEN conjunct1]
  note t2 = t [THEN conjunct2, THEN conjunct1]
  note t3 = t [THEN conjunct2, THEN conjunct2, THEN conjunct1]
  note t4 = t [THEN conjunct2, THEN conjunct2, THEN conjunct2, THEN conjunct1]
  note t5 = t [THEN conjunct2, THEN conjunct2, THEN conjunct2, THEN conjunct2, THEN conjunct1]
  note t6 = t [THEN conjunct2, THEN conjunct2, THEN conjunct2, THEN conjunct2, THEN conjunct2]
  from t1 c i obtain r where
    r: "customerDb_getById ''cust-1700000000000'' d1 = Inr (Some r)"
    and p: "C_preferredServices r =
               (case C_preferredServices rec of
                  Val xs \<Rightarrow> JArr (map JStr xs) | Null \<Rightarrow> JNull | Undefined \<Rightarrow> JArr [])"
    and s: "(\<exists>e. C_email rec = Val e) \<and> (\<exists>n. C_notes rec = Val n) \<and> (\<exists>p. C_photo rec = Val p)
                \<and> (\<exists>xs. C_preferredServices rec = Val xs) \<longrightarrow> same_Customer rec r"
    and a: "\<forall>rs. customerDb_getAll d1 = Inr rs \<longrightarrow> r \<in> set rs"
    by blast
  from s f have s': "same_Customer rec r" by blast
  from p f have p': "C_preferredServices r = JArr [JStr ''svc-1'', JStr ''svc-2'']" by simp
  from a g have a': "\<exists>rs. customerDb_getAll d1 = Inr rs \<and> r \<in> set rs" by blast
  from t2 ce obtain x where
    xa: "\<forall>es. employeeDb_getAll d2 = Inr es \<longrightarrow> x \<in> set es"
    and xf: "E_id x = E_id er" "E_name x = E_name er" "E_role x = E_role er"
      "E_email x = or_str (E_email er) ''''"
      "E_photo x = column (bind (E_photo er))"
      "E_available x = Val (truthy_bool (E_available er))"
      "E_specialties x =
         (case E_specialties er of Val ss \<Rightarrow> JArr (map JStr ss) | _ \<Rightarrow> JArr [])"
      "E_rating x = or_num (E_rating er) 5"
      "E_nextAvailable x = or_str (E_nextAvailable er) ''Now''"
      "E_workingHours x =
         Val \<lparr>wh_start = or_str (opt_start (E_workingHours er)) ''09:00'',
              wh_end = or_str (opt_end (E_workingHours er)) ''18:00''\<rparr>"
    by blast
  from xa ge have x1: "x \<in> set es" by blast
  have x2: "E_id x = Val ''emp-1700000000000''" "E_name x = Val ''Ana''"
      "E_role x = Val ''Stylist''" "E_email x = Val ''''" "E_photo x = Null"
      "E_available x = Val True" "E_specialties x = JArr [JStr ''Hair'', JStr ''Nails'']"
      "E_rating x = Val 5" "E_nextAvailable x = Val ''Now''"
      "E_workingHours x = Val \<lparr>wh_start = Val ''09:00'', wh_end = Val ''18:00''\<rparr>"
    by (simp_all add: xf fe skilled_employee_def example_employee_def empty_Employee_def
        or_str_def or_num_def opt_start_def opt_end_def)
  from t3 ca obtain y where
    ya: "\<forall>as. appointmentDb_getAll d3 = Inr as \<longrightarrow> y \<in> set as"
    and yf: "A_id y = column (bind (A_id example_appointment))"
      "A_customerId y = A_customerId example_appointment"
      "A_employeeId y = A_employeeId example_appointment"
      "same_list (A_serviceIds example_appointment) (A_serviceIds y)"
      "A_date y = A_date example_appointment" "A_time y = A_time example_appointment"
      "A_status y = column (bind (A_status example_appointment))"
      "A_total y = A_total example_appointment"
      "A_notes y = or_str (A_notes example_appointment) ''''"
    by blast
  from ya ga have y1: "y \<in> set as" by blast
  have y2: "A_id y = Val ''a3''" "A_customerId y = Val ''c1''" "A_employeeId y = Val ''e1''"
      "A_serviceIds y = JArr [JStr ''svc-1'', JStr ''svc-2'']" "A_date y = Val ''2024-03-01''"
      "A_time y = Val ''09:30''" "A_status y = Val ''scheduled''" "A_total y = Val 900"
      "A_notes y = Val ''''"
    using yf by (simp_all add: example_appointment_def or_str_def)
  from t4 ct obtain z where
    za: "\<forall>ts. tallyDb_getAll d4 = Inr ts \<longrightarrow> z \<in> set ts"
    and zf: "T_id z = T_id tr" "T_date z = T_date tr" "T_time z = T_time tr"
      "T_customerName z = T_customerName tr" "T_customerPhone z = T_customerPhone tr"
      "T_staffName z = T_staffName tr" "same_list (T_services tr) (T_services z)"
      "T_totalCost z = T_totalCost tr" "T_paymentMethod z = T_paymentMethod tr"
      "T_paymentStatus z = column (bind (T_paymentStatus tr))"
      "T_paymentDate z = T_paymentDate tr"
      "T_upiTransactionId z = Null" "T_upiTransactionId tr = Undefined"
    by blast
  from za gt have z1: "z \<in> set ts" by blast
  have z2: "T_id z = Val ''tally-1700000000000''" "T_date z = Val ''2023-11-14''"
      "T_time z = Val ''22:13''" "T_customerName z = Val ''Asha''"
      "T_customerPhone z = Val ''9990001111''" "T_staffName z = Val ''Mia''"
      "T_services z = JArr [JStr ''Haircut'', JStr ''Facial'']" "T_totalCost z = Val 1200"
      "T_paymentMethod z = Val ''upi''" "T_paymentStatus z = Val ''pending''"
      "T_paymentDate z = Val ''2023-11-14T22:13:20.000Z''" "T_upiTransactionId z = Null"
      "T_upiTransactionId tr = Undefined"
    using zf by (simp_all add: ft example_item_def)
  from t5 cs
  have sv: "\<exists>s \<in> set (serviceDb_getAll d5). s_id s = Some ''svc-1'' \<and> s_name s = Some ''Haircut''
        \<and> s_duration s = Some 30 \<and> s_price s = Some 500 \<and> s_category s = Some ''Hair''
        \<and> s_description s = Some ''Wash and cut''"
    by (force simp: seed_service_def)
  from t6 cp
  have pr: "\<exists>p \<in> set (productDb_getAll d6). p_id p = Some ''prod-1'' \<and> p_name p = Some ''Shampoo''
        \<and> p_price p = Some 350 \<and> p_image p = None \<and> p_category p = Some ''Care''
        \<and> p_stock p = Some 10 \<and> p_description p = None \<and> p_brand p = Some ''Acme''"
    by (force simp: seed_product_def)
  show ?thesis
    by (intro exI [of _ rec] exI [of _ d1] exI [of _ r] exI [of _ er] exI [of _ d2]
        exI [of _ es] exI [of _ x] exI [of _ d3] exI [of _ as] exI [of _ y] exI [of _ tr]
        exI [of _ d4] exI [of _ ts] exI [of _ z] exI [of _ d5] exI [of _ d6]
        conjI c i f r s' p' a' ce ge x1 x2 ca ga y1 y2 ct gt z1 z2 cs sv cp pr)
qed

section \<open>Tally items and their payment status\<close>

lemma tally_violation_fresh:
  "tally_items_violation row rows = None \<Longrightarrow> t_id row = Some i \<Longrightarrow> Some i \<notin> set (map t_id rows)"
  by (auto simp: tally_items_violation_def taken_def split: if_splits)

lemma tally_update_violation_status:
  "tally_items_update_violation [''payment_status'', ''upi_transaction_id'', ''updated_at'']
     (row\<lparr>t_payment_status := Some ''completed'', t_upi_transaction_id := u,
           t_updated_at := w\<rparr>) rows = None"
  by (simp add: tally_items_update_violation_def check_in_def)

text \<open>
  Claim C8. \<open>tallyDb.create\<close> stores the payment status as supplied and stamps
  paymentDate with the current time. After it and
  \<open>updatePaymentStatus(id, "completed", "TXN123")\<close> the update succeeds, and every
  entry of \<open>getAll\<close> with that id (there is one) has paymentStatus
  \<open>completed\<close>, upiTransactionId \<open>TXN123\<close> and the paymentDate stamped by
  \<open>create\<close>. \<open>getAll\<close> returns whenever it returned before the two calls.
\<close>

theorem payment_status_scenario:
  assumes c: "tallyDb_create clk item d = Inr (rec, d1)"
    and i: "T_id rec = Val i"
  shows "(\<exists>row. tally_items d1 = tally_items d @ [row] \<and> t_id row = Some i
            \<and> t_payment_status row = bind (T_paymentStatus item)
            \<and> t_payment_date row = Some (toISOString clk)) \<and>
         (\<exists>d2. tallyDb_updatePaymentStatus clk' i ''completed'' (Val ''TXN123'') d1 = Inr d2 \<and>
           (\<forall>ts. tallyDb_getAll d2 = Inr ts \<longrightarrow>
              (\<exists>t \<in> set ts. T_id t = Val i) \<and>
              (\<forall>t \<in> set ts. T_id t = Val i \<longrightarrow>
                 T_paymentStatus t = Val ''completed'' \<and> T_upiTransactionId t = Val ''TXN123''
                 \<and> T_paymentDate t = Val (toISOString clk)
                 \<and> T_paymentDate t = T_paymentDate rec)) \<and>
           ((\<exists>ts0. tallyDb_getAll d = Inr ts0) \<longrightarrow> (\<exists>ts. tallyDb_getAll d2 = Inr ts)))"
proof -
  define f where "f = (\<lambda>r :: tally_items_row.
      r\<lparr>t_payment_status := Some ''completed'', t_upi_transaction_id := Some ''TXN123'',
        t_updated_at := Some (toISOString clk')\<rparr>)"
  from tallyDb_create_Inr [OF c] obtain row where
    d1: "d1 = d\<lparr>tally_items := tally_items d @ [row]\<rparr>"
    and v: "tally_items_violation row (tally_items d) = None"
    and rid: "t_id row = Some (''tally-'' @ string_of_nat (Date_now clk))"
    and ps: "t_payment_status row = bind (T_paymentStatus item)"
    and pd: "t_payment_date row = Some (toISOString clk)"
    and sv: "t_services row = stringify (T_services item)"
    and rec: "rec = item\<lparr>T_id := Val (''tally-'' @ string_of_nat (Date_now clk)),
                          T_paymentDate := Val (toISOString clk),
                          T_upiTransactionId := Undefined\<rparr>"
    by blast
  from rec i have ii: "i = ''tally-'' @ string_of_nat (Date_now clk)" by simp
  with rid have rid': "t_id row = Some i" by simp
  have fresh: "Some i \<notin> set (map t_id (tally_items d))"
    using v rid' by (rule tally_violation_fresh)
  have vf: "tally_items_update_violation [''payment_status'', ''upi_transaction_id'', ''updated_at'']
              (f row) (tally_items d) = None"
    unfolding f_def by (rule tally_update_violation_status)
  have upd: "sql_update
               (tally_items_update_violation [''payment_status'', ''upi_transaction_id'', ''updated_at''])
               t_id i f (tally_items d @ [row])
               = Inr (tally_items d @ [f row])"
    using fresh rid' vf by (rule sql_update_fresh_last)
  define d2 where "d2 = d1\<lparr>tally_items := tally_items d @ [f row]\<rparr>"
  have u: "tallyDb_updatePaymentStatus clk' i ''completed'' (Val ''TXN123'') d1 = Inr d2"
    using upd by (simp add: tallyDb_updatePaymentStatus_def d1 d2_def f_def)
  have rows2: "tally_items d2 = tally_items d @ [f row]"
    by (simp add: d2_def)
  have sorted_set: "set (rev (sort_key (\<lambda>r. (t_date r, t_time r)) (rev (tally_items d2))))
                      = set (tally_items d) \<union> {f row}"
    by (simp add: rows2 set_insort_key)
  have frow: "t_id (f row) = Some i" "t_payment_status (f row) = Some ''completed''"
      "t_upi_transaction_id (f row) = Some ''TXN123''"
      "t_payment_date (f row) = Some (toISOString clk)"
    by (simp_all add: f_def rid' pd)
  have read: "(\<exists>t \<in> set ts. T_id t = Val i) \<and>
              (\<forall>t \<in> set ts. T_id t = Val i \<longrightarrow>
                 T_paymentStatus t = Val ''completed'' \<and> T_upiTransactionId t = Val ''TXN123''
                 \<and> T_paymentDate t = Val (toISOString clk)
                 \<and> T_paymentDate t = T_paymentDate rec)"
    if g: "tallyDb_getAll d2 = Inr ts" for ts
  proof -
    from g have mr: "map_result TallyItem_of_row
        (rev (sort_key (\<lambda>r. (t_date r, t_time r)) (rev (tally_items d2)))) = Inr ts"
      by (simp add: tallyDb_getAll_def)
    note s = map_result_set [OF mr, unfolded sorted_set]
    from s obtain t where t: "t \<in> set ts" "TallyItem_of_row (f row) = Inr t"
      by auto
    have ex: "\<exists>t \<in> set ts. T_id t = Val i"
      using t TallyItem_of_row_Inr [OF t(2)] frow by auto
    have all: "T_paymentStatus t' = Val ''completed'' \<and> T_upiTransactionId t' = Val ''TXN123''
                 \<and> T_paymentDate t' = Val (toISOString clk)
                 \<and> T_paymentDate t' = T_paymentDate rec"
      if t': "t' \<in> set ts" "T_id t' = Val i" for t'
    proof -
      from s t'(1) obtain r where r: "r \<in> set (tally_items d) \<union> {f row}"
          "TallyItem_of_row r = Inr t'"
        by blast
      from TallyItem_of_row_Inr [OF r(2)] t'(2) have "column (t_id r) = Val i"
        by simp
      then have "t_id r = Some i"
        by (simp add: column_eq_Val)
      with fresh r(1) have "r = f row" by force
      with TallyItem_of_row_Inr [OF r(2)] frow rec show ?thesis by simp
    qed
    from ex all show ?thesis by blast
  qed
  have total: "\<exists>ts. tallyDb_getAll d2 = Inr ts" if "\<exists>ts0. tallyDb_getAll d = Inr ts0"
  proof -
    from that obtain ts0 where "map_result TallyItem_of_row
        (rev (sort_key (\<lambda>r. (t_date r, t_time r)) (rev (tally_items d)))) = Inr ts0"
      by (auto simp: tallyDb_getAll_def)
    from map_result_set [OF this]
    have old: "\<forall>x \<in> set (tally_items d). \<exists>y. TallyItem_of_row x = Inr y"
      by auto
    from v have "t_services row \<noteq> None"
      by (auto simp: tally_items_violation_def split: if_splits)
    then obtain s where s: "stringify (T_services item) = Some s"
      using sv by auto
    from stringify_parses [OF s] have "\<exists>y. TallyItem_of_row (f row) = Inr y"
      by (auto simp: TallyItem_of_row_def JSON_parse_column_def f_def sv s)
    with old have "\<forall>x \<in> set (rev (sort_key (\<lambda>r. (t_date r, t_time r)) (rev (tally_items d2)))).
        \<exists>y. TallyItem_of_row x = Inr y"
      unfolding sorted_set by auto
    from map_result_total [OF this] show ?thesis
      by (simp add: tallyDb_getAll_def)
  qed
  have made: "\<exists>row. tally_items d1 = tally_items d @ [row] \<and> t_id row = Some i
            \<and> t_payment_status row = bind (T_paymentStatus item)
            \<and> t_payment_date row = Some (toISOString clk)"
    by (rule exI [of _ row]) (simp add: d1 rid' ps pd)
  from u read total
  have "\<exists>d2. tallyDb_updatePaymentStatus clk' i ''completed'' (Val ''TXN123'') d1 = Inr d2 \<and>
           (\<forall>ts. tallyDb_getAll d2 = Inr ts \<longrightarrow>
              (\<exists>t \<in> set ts. T_id t = Val i) \<and>
              (\<forall>t \<in> set ts. T_id t = Val i \<longrightarrow>
                 T_paymentStatus t = Val ''completed'' \<and> T_upiTransactionId t = Val ''TXN123''
                 \<and> T_paymentDate t = Val (toISOString clk)
                 \<and> T_paymentDate t = T_paymentDate rec)) \<and>
           ((\<exists>ts0. tallyDb_getAll d = Inr ts0) \<longrightarrow> (\<exists>ts. tallyDb_getAll d2 = Inr ts))"
    by blast
  with made show ?thesis by blast
qed

theorem payment_status_scenario_witness:
  "\<exists>rec d1 d2 ts.
     tallyDb_create example_clock example_item example_db = Inr (rec, d1) \<and>
     T_id rec = Val ''tally-1700000000000'' \<and>
     tallyDb_updatePaymentStatus later_clock ''tally-1700000000000'' ''completed'' (Val ''TXN123'') d1
       = Inr d2 \<and>
     tallyDb_getAll d2 = Inr ts \<and>
     map T_id ts = [Val ''t2'', Val ''t1'', Val ''tally-1700000000000''] \<and>
     (\<exists>t \<in> set ts. T_id t = Val ''tally-1700000000000'' \<and> T_paymentStatus t = Val ''completed''
        \<and> T_upiTransactionId t = Val ''TXN123''
        \<and> T_paymentDate t = Val (toISOString example_clock))"
proof -
  obtain rec d1 d2 ts where
    c: "tallyDb_create example_clock example_item example_db = Inr (rec, d1)"
    and i: "T_id rec = Val ''tally-1700000000000''"
    and u: "tallyDb_updatePaymentStatus later_clock ''tally-1700000000000'' ''completed''
              (Val ''TXN123'') d1 = Inr d2"
    and g: "tallyDb_getAll d2 = Inr ts"
    and m: "map T_id ts = [Val ''t2'', Val ''t1'', Val ''tally-1700000000000'']"
    by (simp add: tallyDb_create_def tallyDb_updatePaymentStatus_def tallyDb_getAll_def
        example_clock_def later_clock_def example_item_def example_db_def example_tally_row_def
        string_of_nat.simps sql_insert_def sql_update_def guard_def tally_items_violation_def
        tally_items_update_violation_def         check_in_def taken_def TallyItem_of_row_def JSON_parse_column_def JSON_parse_empty_array
        JSON_parse_stringify Let_def)
  from payment_status_scenario [OF c i, of later_clock] u g
  have b: "\<exists>t \<in> set ts. T_id t = Val ''tally-1700000000000'' \<and> T_paymentStatus t = Val ''completed''
        \<and> T_upiTransactionId t = Val ''TXN123''
        \<and> T_paymentDate t = Val (toISOString example_clock)"
    by fastforce
  show ?thesis
    by (intro exI [of _ rec] exI [of _ d1] exI [of _ d2] exI [of _ ts] conjI c i u g m b)
qed

section \<open>Partial updates\<close>

lemma assign_append: "assign (xs @ ys) r = assign ys (assign xs r)"
  by (simp add: assign_def)

lemma assign_push_if: "assign (push_if b (c, f)) r = (if b then f r else r)"
  by (simp add: assign_def push_if_def)

lemma assign_single: "assign [(c, f)] r = f r"
  by (simp add: assign_def)

lemma customerDb_update_assign:
  "assign (customerDb_update_fields clk u) r =
     r\<lparr>c_name := if truthy_str (C_name u) then bind (C_name u) else c_name r,
       c_phone := if truthy_str (C_phone u) then bind (C_phone u) else c_phone r,
       c_email := if C_email u \<noteq> Undefined then bind (C_email u) else c_email r,
       c_gender := if truthy_str (C_gender u) then bind (C_gender u) else c_gender r,
       c_visit_count := if C_visitCount u \<noteq> Undefined then bind (C_visitCount u) else c_visit_count r,
       c_total_spent := if C_totalSpent u \<noteq> Undefined then bind (C_totalSpent u) else c_total_spent r,
       c_last_visit := if truthy_str (C_lastVisit u) then bind (C_lastVisit u) else c_last_visit r,
       c_preferred_services :=
         if truthy_obj (C_preferredServices u) then stringify (C_preferredServices u)
         else c_preferred_services r,
       c_notes := if C_notes u \<noteq> Undefined then bind (C_notes u) else c_notes r,
       c_photo := if C_photo u \<noteq> Undefined then bind (C_photo u) else c_photo r,
       c_updated_at := Some (toISOString clk)\<rparr>"
  by (simp add: customerDb_update_fields_def assign_append assign_push_if assign_single)

lemma employeeDb_update_assign:
  "assign (employeeDb_update_fields clk u) r =
     r\<lparr>e_name := if truthy_str (E_name u) then bind (E_name u) else e_name r,
       e_role := if truthy_str (E_role u) then bind (E_role u) else e_role r,
       e_email := if E_email u \<noteq> Undefined then bind (E_email u) else e_email r,
       e_phone := if E_phone u \<noteq> Undefined then bind (E_phone u) else e_phone r,
       e_photo := if E_photo u \<noteq> Undefined then bind (E_photo u) else e_photo r,
       e_available :=
         if E_available u \<noteq> Undefined then Some (if truthy_bool (E_available u) then 1 else 0)
         else e_available r,
       e_specialties :=
         if truthy_obj (E_specialties u) then stringify (E_specialties u) else e_specialties r,
       e_rating := if E_rating u \<noteq> Undefined then bind (E_rating u) else e_rating r,
       e_next_available :=
         if E_nextAvailable u \<noteq> Undefined then bind (E_nextAvailable u) else e_next_available r,
       e_working_hours_start :=
         if truthy_obj (E_workingHours u) then bind (opt_start (E_workingHours u))
         else e_working_hours_start r,
       e_working_hours_end :=
         if truthy_obj (E_workingHours u) then bind (opt_end (E_workingHours u))
         else e_working_hours_end r,
       e_updated_at := Some (toISOString clk)\<rparr>"
  by (simp add: employeeDb_update_fields_def assign_append assign_push_if assign_single)

lemma appointmentDb_update_assign:
  "assign (appointmentDb_update_fields clk u) r =
     r\<lparr>a_status := if truthy_str (A_status u) then bind (A_status u) else a_status r,
       a_notes := if A_notes u \<noteq> Undefined then bind (A_notes u) else a_notes r,
       a_total := if A_total u \<noteq> Undefined then bind (A_total u) else a_total r,
       a_updated_at := Some (toISOString clk)\<rparr>"
  by (simp add: appointmentDb_update_fields_def assign_append assign_push_if assign_single)

lemma serviceDb_update_assign:
  "assign (serviceDb_update_fields clk u) r =
     r\<lparr>s_name := if truthy_str (S_name u) then bind (S_name u) else s_name r,
       s_duration := if S_duration u \<noteq> Undefined then bind (S_duration u) else s_duration r,
       s_price := if S_price u \<noteq> Undefined then bind (S_price u) else s_price r,
       s_category := if truthy_str (S_category u) then bind (S_category u) else s_category r,
       s_description :=
         if S_description u \<noteq> Undefined then bind (S_description u) else s_description r,
       s_updated_at := Some (toISOString clk)\<rparr>"
  by (simp add: serviceDb_update_fields_def assign_append assign_push_if assign_single)

lemma productDb_update_assign:
  "assign (productDb_update_fields clk u) r =
     r\<lparr>p_name := if truthy_str (P_name u) then bind (P_name u) else p_name r,
       p_price := if P_price u \<noteq> Undefined then bind (P_price u) else p_price r,
       p_image := if P_image u \<noteq> Undefined then bind (P_image u) else p_image r,
       p_category := if truthy_str (P_category u) then bind (P_category u) else p_category r,
       p_stock := if P_stock u \<noteq> Undefined then bind (P_stock u) else p_stock r,
       p_description :=
         if P_description u \<noteq> Undefined then bind (P_description u) else p_description r,
       p_brand := if truthy_str (P_brand u) then bind (P_brand u) else p_brand r,
       p_updated_at := Some (toISOString clk)\<rparr>"
  by (simp add: productDb_update_fields_def assign_append assign_push_if assign_single)

lemma empty_updates:
  "assign (customerDb_update_fields clk empty_Customer) cr = cr\<lparr>c_updated_at := Some (toISOString clk)\<rparr>"
  "assign (employeeDb_update_fields clk empty_Employee) er = er\<lparr>e_updated_at := Some (toISOString clk)\<rparr>"
  "assign (appointmentDb_update_fields clk empty_Appointment) ar = ar\<lparr>a_updated_at := Some (toISOString clk)\<rparr>"
  "assign (serviceDb_update_fields clk empty_Service) sr = sr\<lparr>s_updated_at := Some (toISOString clk)\<rparr>"
  "assign (productDb_update_fields clk empty_Product) pr = pr\<lparr>p_updated_at := Some (toISOString clk)\<rparr>"
  by (simp_all add: customerDb_update_assign employeeDb_update_assign appointmentDb_update_assign
      serviceDb_update_assign productDb_update_assign empty_Customer_def empty_Employee_def
      empty_Appointment_def empty_Service_def empty_Product_def)

lemma update_results:
  "customerDb_update clk i cu d = Inr d1 \<Longrightarrow>
     d1 = d\<lparr>customers := map (\<lambda>r. if c_id r = Some i
                then assign (customerDb_update_fields clk cu) r else r) (customers d)\<rparr>"
  "employeeDb_update clk i eu d = Inr d2 \<Longrightarrow>
     d2 = d\<lparr>employees := map (\<lambda>r. if e_id r = Some i
                then assign (employeeDb_update_fields clk eu) r else r) (employees d)\<rparr>"
  "appointmentDb_update clk i au d = Inr d3 \<Longrightarrow>
     d3 = d\<lparr>appointments := map (\<lambda>r. if a_id r = Some i
                then assign (appointmentDb_update_fields clk au) r else r) (appointments d)\<rparr>"
  "serviceDb_update clk i su d = Inr d4 \<Longrightarrow>
     d4 = d\<lparr>services := map (\<lambda>r. if s_id r = Some i
                then assign (serviceDb_update_fields clk su) r else r) (services d)\<rparr>"
  "productDb_update clk i pu d = Inr d5 \<Longrightarrow>
     d5 = d\<lparr>products := map (\<lambda>r. if p_id r = Some i
                then assign (productDb_update_fields clk pu) r else r) (products d)\<rparr>"
  by (auto simp: customerDb_update_def employeeDb_update_def appointmentDb_update_def
      serviceDb_update_def productDb_update_def Let_def split: sum.splits dest!: sql_update_Inr)

lemma JSON_stringify_Nil: "JSON_stringify [] = ''[]''"
  by (simp add: JSON_stringify_def)

lemma guard_examples:
  "assign (customerDb_update_fields clk (empty_Customer\<lparr>C_name := Val '''', C_phone := Null\<rparr>)) cr
     = cr\<lparr>c_updated_at := Some (toISOString clk)\<rparr>"
  "assign (customerDb_update_fields clk
       (empty_Customer\<lparr>C_email := Null, C_visitCount := Val 0, C_notes := Val ''''\<rparr>)) cr
     = cr\<lparr>c_email := None, c_visit_count := Some 0, c_notes := Some '''',
          c_updated_at := Some (toISOString clk)\<rparr>"
  "assign (customerDb_update_fields clk (empty_Customer\<lparr>C_preferredServices := Val []\<rparr>)) cr
     = cr\<lparr>c_preferred_services := Some ''[]'', c_updated_at := Some (toISOString clk)\<rparr>"
  "assign (employeeDb_update_fields clk
       (empty_Employee\<lparr>E_specialties := Val [],
          E_workingHours := Val \<lparr>wh_start = Undefined, wh_end = Undefined\<rparr>\<rparr>)) er
     = er\<lparr>e_specialties := Some ''[]'', e_working_hours_start := None,
          e_working_hours_end := None, e_updated_at := Some (toISOString clk)\<rparr>"
  "assign (employeeDb_update_fields clk
       (empty_Employee\<lparr>E_specialties := Null, E_workingHours := Null, E_available := Val False\<rparr>)) er
     = er\<lparr>e_available := Some 0, e_updated_at := Some (toISOString clk)\<rparr>"
  by (simp_all add: customerDb_update_assign employeeDb_update_assign empty_Customer_def
      empty_Employee_def JSON_stringify_Nil opt_start_def opt_end_def)

lemma first_violation_None: "\<forall>v \<in> set vs. v = None \<Longrightarrow> first_violation vs = None"
  by (induction vs) auto

lemma sql_update_unchecked:
  "(\<And>r others. violation (f r) others = None) \<Longrightarrow>
     sql_update violation key i f rows = Inr (map (\<lambda>r. if key r = Some i then f r else r) rows)"
  by (simp add: sql_update_def guard_def first_violation_None)

lemma set_list_empty:
  "set_list (customerDb_update_fields clk empty_Customer) = [''updated_at'']"
  "set_list (employeeDb_update_fields clk empty_Employee) = [''updated_at'']"
  "set_list (appointmentDb_update_fields clk empty_Appointment) = [''updated_at'']"
  "set_list (serviceDb_update_fields clk empty_Service) = [''updated_at'']"
  "set_list (productDb_update_fields clk empty_Product) = [''updated_at'']"
  by (simp_all add: set_list_def push_if_def customerDb_update_fields_def
      employeeDb_update_fields_def appointmentDb_update_fields_def serviceDb_update_fields_def
      productDb_update_fields_def empty_Customer_def empty_Employee_def empty_Appointment_def
      empty_Service_def empty_Product_def)

lemma empty_update_results:
  "customerDb_update clk i empty_Customer d =
     Inr (d\<lparr>customers := map (\<lambda>r. if c_id r = Some i
            then r\<lparr>c_updated_at := Some (toISOString clk)\<rparr> else r) (customers d)\<rparr>)"
  "employeeDb_update clk i empty_Employee d =
     Inr (d\<lparr>employees := map (\<lambda>r. if e_id r = Some i
            then r\<lparr>e_updated_at := Some (toISOString clk)\<rparr> else r) (employees d)\<rparr>)"
  "appointmentDb_update clk i empty_Appointment d =
     Inr (d\<lparr>appointments := map (\<lambda>r. if a_id r = Some i
            then r\<lparr>a_updated_at := Some (toISOString clk)\<rparr> else r) (appointments d)\<rparr>)"
  "serviceDb_update clk i empty_Service d =
     Inr (d\<lparr>services := map (\<lambda>r. if s_id r = Some i
            then r\<lparr>s_updated_at := Some (toISOString clk)\<rparr> else r) (services d)\<rparr>)"
  "productDb_update clk i empty_Product d =
     Inr (d\<lparr>products := map (\<lambda>r. if p_id r = Some i
            then r\<lparr>p_updated_at := Some (toISOString clk)\<rparr> else r) (products d)\<rparr>)"
  by (simp_all add: customerDb_update_def employeeDb_update_def appointmentDb_update_def
      serviceDb_update_def productDb_update_def Let_def set_list_empty sql_update_unchecked
      customers_update_violation_def employees_update_violation_def
      appointments_update_violation_def services_update_violation_def
      products_update_violation_def empty_updates)

text \<open>
  Claim C2 as stated: every field present in the partial input is assigned, also when its
  value is the empty string. \<open>customerDb.update\<close> tests \<open>updates.name\<close> for
  truthiness, so a name \<open>""\<close> is not assigned; \<open>appointmentDb.update\<close>
  looks at status, notes and total only, so a date in the input is not assigned. In both
  cases only \<open>updated_at\<close> changes.
\<close>

theorem empty_name_counterexample:
  "C_name (empty_Customer\<lparr>C_name := Val ''''\<rparr>) = Val '''' \<and>
   customerDb_update later_clock ''c1'' (empty_Customer\<lparr>C_name := Val ''''\<rparr>) example_db
     = Inr (example_db\<lparr>customers :=
              [(example_customer_row ''c1'' ''Zed'' ''111'')\<lparr>c_updated_at := Some ''2023-11-14T22:14:20.000Z''\<rparr>,
               example_customer_row ''c2'' ''Asha'' ''222'']\<rparr>) \<and>
   c_name ((example_customer_row ''c1'' ''Zed'' ''111'')\<lparr>c_updated_at := Some ''2023-11-14T22:14:20.000Z''\<rparr>)
     = Some ''Zed'' \<and>
   A_date (empty_Appointment\<lparr>A_date := Val ''2025-01-01''\<rparr>) = Val ''2025-01-01'' \<and>
   appointmentDb_update later_clock ''a1'' (empty_Appointment\<lparr>A_date := Val ''2025-01-01''\<rparr>) example_db
     = Inr (example_db\<lparr>appointments :=
              [(example_appointment_row ''a1'' ''2024-02-02'' ''10:00'' ''[]'')
                 \<lparr>a_updated_at := Some ''2023-11-14T22:14:20.000Z''\<rparr>,
               example_appointment_row ''a2'' ''2024-02-01'' ''12:00'' ''[]'']\<rparr>) \<and>
   a_date ((example_appointment_row ''a1'' ''2024-02-02'' ''10:00'' ''[]'')
             \<lparr>a_updated_at := Some ''2023-11-14T22:14:20.000Z''\<rparr>) = Some ''2024-02-02''"
  by (simp add: customerDb_update_def appointmentDb_update_def customerDb_update_assign
      appointmentDb_update_assign sql_update_def guard_def customers_update_violation_def
      appointments_update_violation_def customerDb_update_fields_def
      appointmentDb_update_fields_def set_list_def assign_def push_if_def check_in_def taken_def
      empty_Customer_def empty_Appointment_def Let_def
      example_db_def example_customer_row_def example_appointment_row_def later_clock_def)

text \<open>
  Claim C2, amended. An update changes the rows with the given id and nothing else. In
  such a row a column is assigned when its field passes the guard written for it and keeps
  its value otherwise, in particular when the field is absent. The guard is truthiness
  for name, phone, gender, lastVisit, role, status, category and brand: a non-empty string
  is assigned, \<open>""\<close>, \<open>null\<close> and \<open>undefined\<close> are skipped. It is
  truthiness, too, for preferredServices, specialties and workingHours, where every array
  and object passes, the empty array \<open>[]\<close> and the empty object \<open>{}\<close>
  included, and only \<open>null\<close> and \<open>undefined\<close> are skipped (a workingHours
  \<open>{}\<close> sets both hour columns to NULL). It is \<open>!== undefined\<close> for every
  other field, so that \<open>null\<close>, 0, \<open>false\<close> and \<open>""\<close> are
  assigned. \<open>updated_at\<close> is always set to the current time, and \<open>id\<close> and
  \<open>created_at\<close> never change. \<open>appointmentDb.update\<close> assigns status, notes
  and total only; \<open>tallyDb\<close> has no \<open>update\<close>. With an empty input the
  update always succeeds and only \<open>updated_at\<close> changes.
\<close>

theorem partial_update:
  "(customerDb_update clk i cu d = Inr d1 \<longrightarrow>
     d1 = d\<lparr>customers := map (\<lambda>r. if c_id r = Some i
                then assign (customerDb_update_fields clk cu) r else r) (customers d)\<rparr>) \<and>
   (employeeDb_update clk i eu d = Inr d2 \<longrightarrow>
     d2 = d\<lparr>employees := map (\<lambda>r. if e_id r = Some i
                then assign (employeeDb_update_fields clk eu) r else r) (employees d)\<rparr>) \<and>
   (appointmentDb_update clk i au d = Inr d3 \<longrightarrow>
     d3 = d\<lparr>appointments := map (\<lambda>r. if a_id r = Some i
                then assign (appointmentDb_update_fields clk au) r else r) (appointments d)\<rparr>) \<and>
   (serviceDb_update clk i su d = Inr d4 \<longrightarrow>
     d4 = d\<lparr>services := map (\<lambda>r. if s_id r = Some i
                then assign (serviceDb_update_fields clk su) r else r) (services d)\<rparr>) \<and>
   (productDb_update clk i pu d = Inr d5 \<longrightarrow>
     d5 = d\<lparr>products := map (\<lambda>r. if p_id r = Some i
                then assign (productDb_update_fields clk pu) r else r) (products d)\<rparr>) \<and>
   assign (customerDb_update_fields clk cu) cr =
     cr\<lparr>c_name := if truthy_str (C_name cu) then bind (C_name cu) else c_name cr,
       c_phone := if truthy_str (C_phone cu) then bind (C_phone cu) else c_phone cr,
       c_email := if C_email cu \<noteq> Undefined then bind (C_email cu) else c_email cr,
       c_gender := if truthy_str (C_gender cu) then bind (C_gender cu) else c_gender cr,
       c_visit_count := if C_visitCount cu \<noteq> Undefined then bind (C_visitCount cu) else c_visit_count cr,
       c_total_spent := if C_totalSpent cu \<noteq> Undefined then bind (C_totalSpent cu) else c_total_spent cr,
       c_last_visit := if truthy_str (C_lastVisit cu) then bind (C_lastVisit cu) else c_last_visit cr,
       c_preferred_services :=
         if truthy_obj (C_preferredServices cu) then stringify (C_preferredServices cu)
         else c_preferred_services cr,
       c_notes := if C_notes cu \<noteq> Undefined then bind (C_notes cu) else c_notes cr,
       c_photo := if C_photo cu \<noteq> Undefined then bind (C_photo cu) else c_photo cr,
       c_updated_at := Some (toISOString clk)\<rparr> \<and>
   assign (employeeDb_update_fields clk eu) er =
     er\<lparr>e_name := if truthy_str (E_name eu) then bind (E_name eu) else e_name er,
       e_role := if truthy_str (E_role eu) then bind (E_role eu) else e_role er,
       e_email := if E_email eu \<noteq> Undefined then bind (E_email eu) else e_email er,
       e_phone := if E_phone eu \<noteq> Undefined then bind (E_phone eu) else e_phone er,
       e_photo := if E_photo eu \<noteq> Undefined then bind (E_photo eu) else e_photo er,
       e_available :=
         if E_available eu \<noteq> Undefined then Some (if truthy_bool (E_available eu) then 1 else 0)
         else e_available er,
       e_specialties :=
         if truthy_obj (E_specialties eu) then stringify (E_specialties eu) else e_specialties er,
       e_rating := if E_rating eu \<noteq> Undefined then bind (E_rating eu) else e_rating er,
       e_next_available :=
         if E_nextAvailable eu \<noteq> Undefined then bind (E_nextAvailable eu) else e_next_available er,
       e_working_hours_start :=
         if truthy_obj (E_workingHours eu) then bind (opt_start (E_workingHours eu))
         else e_working_hours_start er,
       e_working_hours_end :=
         if truthy_obj (E_workingHours eu) then bind (opt_end (E_workingHours eu))
         else e_working_hours_end er,
       e_updated_at := Some (toISOString clk)\<rparr> \<and>
   assign (appointmentDb_update_fields clk au) ar =
     ar\<lparr>a_status := if truthy_str (A_status au) then bind (A_status au) else a_status ar,
       a_notes := if A_notes au \<noteq> Undefined then bind (A_notes au) else a_notes ar,
       a_total := if A_total au \<noteq> Undefined then bind (A_total au) else a_total ar,
       a_updated_at := Some (toISOString clk)\<rparr> \<and>
   assign (serviceDb_update_fields clk su) sr =
     sr\<lparr>s_name := if truthy_str (S_name su) then bind (S_name su) else s_name sr,
       s_duration := if S_duration su \<noteq> Undefined then bind (S_duration su) else s_duration sr,
       s_price := if S_price su \<noteq> Undefined then bind (S_price su) else s_price sr,
       s_category := if truthy_str (S_category su) then bind (S_category su) else s_category sr,
       s_description :=
         if S_description su \<noteq> Undefined then bind (S_description su) else s_description sr,
       s_updated_at := Some (toISOString clk)\<rparr> \<and>
   assign (productDb_update_fields clk pu) pr =
     pr\<lparr>p_name := if truthy_str (P_name pu) then bind (P_name pu) else p_name pr,
       p_price := if P_price pu \<noteq> Undefined then bind (P_price pu) else p_price pr,
       p_image := if P_image pu \<noteq> Undefined then bind (P_image pu) else p_image pr,
       p_category := if truthy_str (P_category pu) then bind (P_category pu) else p_category pr,
       p_stock := if P_stock pu \<noteq> Undefined then bind (P_stock pu) else p_stock pr,
       p_description :=
         if P_description pu \<noteq> Undefined then bind (P_description pu) else p_description pr,
       p_brand := if truthy_str (P_brand pu) then bind (P_brand pu) else p_brand pr,
       p_updated_at := Some (toISOString clk)\<rparr> \<and>
   assign (customerDb_update_fields clk empty_Customer) cr = cr\<lparr>c_updated_at := Some (toISOString clk)\<rparr> \<and>
   assign (employeeDb_update_fields clk empty_Employee) er = er\<lparr>e_updated_at := Some (toISOString clk)\<rparr> \<and>
   assign (appointmentDb_update_fields clk empty_Appointment) ar = ar\<lparr>a_updated_at := Some (toISOString clk)\<rparr> \<and>
   assign (serviceDb_update_fields clk empty_Service) sr = sr\<lparr>s_updated_at := Some (toISOString clk)\<rparr> \<and>
   assign (productDb_update_fields clk empty_Product) pr = pr\<lparr>p_updated_at := Some (toISOString clk)\<rparr> \<and>
   assign (customerDb_update_fields clk (empty_Customer\<lparr>C_name := Val '''', C_phone := Null\<rparr>)) cr
     = cr\<lparr>c_updated_at := Some (toISOString clk)\<rparr> \<and>
   assign (customerDb_update_fields clk
       (empty_Customer\<lparr>C_email := Null, C_visitCount := Val 0, C_notes := Val ''''\<rparr>)) cr
     = cr\<lparr>c_email := None, c_visit_count := Some 0, c_notes := Some '''',
          c_updated_at := Some (toISOString clk)\<rparr> \<and>
   assign (customerDb_update_fields clk (empty_Customer\<lparr>C_preferredServices := Val []\<rparr>)) cr
     = cr\<lparr>c_preferred_services := Some ''[]'', c_updated_at := Some (toISOString clk)\<rparr> \<and>
   assign (employeeDb_update_fields clk
       (empty_Employee\<lparr>E_specialties := Val [],
          E_workingHours := Val \<lparr>wh_start = Undefined, wh_end = Undefined\<rparr>\<rparr>)) er
     = er\<lparr>e_specialties := Some ''[]'', e_working_hours_start := None,
          e_working_hours_end := None, e_updated_at := Some (toISOString clk)\<rparr> \<and>
   assign (employeeDb_update_fields clk
       (empty_Employee\<lparr>E_specialties := Null, E_workingHours := Null, E_available := Val False\<rparr>)) er
     = er\<lparr>e_available := Some 0, e_updated_at := Some (toISOString clk)\<rparr> \<and>
   customerDb_update clk i empty_Customer d =
     Inr (d\<lparr>customers := map (\<lambda>r. if c_id r = Some i
            then r\<lparr>c_updated_at := Some (toISOString clk)\<rparr> else r) (customers d)\<rparr>) \<and>
   employeeDb_update clk i empty_Employee d =
     Inr (d\<lparr>employees := map (\<lambda>r. if e_id r = Some i
            then r\<lparr>e_updated_at := Some (toISOString clk)\<rparr> else r) (employees d)\<rparr>) \<and>
   appointmentDb_update clk i empty_Appointment d =
     Inr (d\<lparr>appointments := map (\<lambda>r. if a_id r = Some i
            then r\<lparr>a_updated_at := Some (toISOString clk)\<rparr> else r) (appointments d)\<rparr>) \<and>
   serviceDb_update clk i empty_Service d =
     Inr (d\<lparr>services := map (\<lambda>r. if s_id r = Some i
            then r\<lparr>s_updated_at := Some (toISOString clk)\<rparr> else r) (services d)\<rparr>) \<and>
   productDb_update clk i empty_Product d =
     Inr (d\<lparr>products := map (\<lambda>r. if p_id r = Some i
            then r\<lparr>p_updated_at := Some (toISOString clk)\<rparr> else r) (products d)\<rparr>) \<and>
   update \<notin> set tallyDb"
  by (intro conjI impI update_results customerDb_update_assign employeeDb_update_assign
      appointmentDb_update_assign serviceDb_update_assign productDb_update_assign empty_updates
      guard_examples empty_update_results)
     (simp_all add: tallyDb_def)

theorem partial_update_witness:
  "\<exists>d1 d2 d3 d4 d5.
     customerDb_update later_clock ''c1''
       (empty_Customer\<lparr>C_phone := Val ''333'', C_visitCount := Val 0, C_notes := Val ''''\<rparr>) example_db
       = Inr d1 \<and>
     map c_phone (customers d1) = [Some ''333'', Some ''222''] \<and>
     map c_name (customers d1) = [Some ''Zed'', Some ''Asha''] \<and>
     map c_updated_at (customers d1) = [Some ''2023-11-14T22:14:20.000Z'', Some ''2024-01-01 00:00:00''] \<and>
     employeeDb_update later_clock ''e2'' (empty_Employee\<lparr>E_rating := Val 0, E_available := Val False\<rparr>)
       example_db = Inr d2 \<and>
     map e_rating (employees d2) = [Some 5, Some 0] \<and>
     map e_available (employees d2) = [Some 1, Some 0] \<and>
     map e_name (employees d2) = [Some ''Mia'', Some ''Bo''] \<and>
     appointmentDb_update later_clock ''a2'' (empty_Appointment\<lparr>A_status := Val ''completed''\<rparr>)
       example_db = Inr d3 \<and>
     map a_status (appointments d3) = [Some ''scheduled'', Some ''completed''] \<and>
     map a_total (appointments d3) = [Some 500, Some 500] \<and>
     serviceDb_update later_clock ''s1'' (empty_Service\<lparr>S_price := Val 650\<rparr>) example_db = Inr d4 \<and>
     map s_price (services d4) = [Some 650, Some 500] \<and>
     map s_name (services d4) = [Some ''Trim'', Some ''Cut''] \<and>
     productDb_update later_clock ''p2'' empty_Product example_db = Inr d5 \<and>
     map p_updated_at (products d5) = [Some ''2024-01-01 00:00:00'', Some ''2023-11-14T22:14:20.000Z''] \<and>
     map p_name (products d5) = [Some ''Wax'', Some ''Gel'']"
proof -
  obtain d1 d2 d3 d4 d5 where
    u1: "customerDb_update later_clock ''c1''
       (empty_Customer\<lparr>C_phone := Val ''333'', C_visitCount := Val 0, C_notes := Val ''''\<rparr>) example_db
       = Inr d1"
    and u2: "employeeDb_update later_clock ''e2''
       (empty_Employee\<lparr>E_rating := Val 0, E_available := Val False\<rparr>) example_db = Inr d2"
    and u3: "appointmentDb_update later_clock ''a2'' (empty_Appointment\<lparr>A_status := Val ''completed''\<rparr>)
       example_db = Inr d3"
    and u4: "serviceDb_update later_clock ''s1'' (empty_Service\<lparr>S_price := Val 650\<rparr>) example_db = Inr d4"
    and u5: "productDb_update later_clock ''p2'' empty_Product example_db = Inr d5"
    by (simp add: customerDb_update_def employeeDb_update_def appointmentDb_update_def
        serviceDb_update_def productDb_update_def customerDb_update_assign
        employeeDb_update_assign appointmentDb_update_assign serviceDb_update_assign
        productDb_update_assign sql_update_def guard_def customers_update_violation_def
        employees_update_violation_def appointments_update_violation_def
        services_update_violation_def products_update_violation_def check_in_def taken_def
        customerDb_update_fields_def employeeDb_update_fields_def
        appointmentDb_update_fields_def serviceDb_update_fields_def
        productDb_update_fields_def set_list_def assign_def push_if_def Let_def
        empty_Customer_def empty_Employee_def
        empty_Appointment_def empty_Service_def empty_Product_def example_db_def
        example_customer_row_def example_employee_row_def example_appointment_row_def
        example_service_row_def example_product_row_def later_clock_def)
  note p = partial_update [of later_clock "''c1''"
      "empty_Customer\<lparr>C_phone := Val ''333'', C_visitCount := Val 0, C_notes := Val ''''\<rparr>"
      example_db d1, THEN conjunct1]
  have f1: "map c_phone (customers d1) = [Some ''333'', Some ''222'']"
      "map c_name (customers d1) = [Some ''Zed'', Some ''Asha'']"
      "map c_updated_at (customers d1) = [Some ''2023-11-14T22:14:20.000Z'', Some ''2024-01-01 00:00:00'']"
    using p u1
    by (simp_all add: customerDb_update_assign empty_Customer_def example_db_def
        example_customer_row_def later_clock_def)
  note q = partial_update [of later_clock "''e2''" _ example_db _
      "empty_Employee\<lparr>E_rating := Val 0, E_available := Val False\<rparr>" d2, THEN conjunct2, THEN conjunct1]
  have f2: "map e_rating (employees d2) = [Some 5, Some 0]"
      "map e_available (employees d2) = [Some 1, Some 0]"
      "map e_name (employees d2) = [Some ''Mia'', Some ''Bo'']"
    using q u2
    by (simp_all add: employeeDb_update_assign empty_Employee_def example_db_def
        example_employee_row_def later_clock_def)
  note r = partial_update [of later_clock "''a2''" _ example_db _ _ _
      "empty_Appointment\<lparr>A_status := Val ''completed''\<rparr>" d3, THEN conjunct2, THEN conjunct2, THEN conjunct1]
  have f3: "map a_status (appointments d3) = [Some ''scheduled'', Some ''completed'']"
      "map a_total (appointments d3) = [Some 500, Some 500]"
    using r u3
    by (simp_all add: appointmentDb_update_assign empty_Appointment_def example_db_def
        example_appointment_row_def later_clock_def)
  note s = partial_update [of later_clock "''s1''" _ example_db _ _ _ _ _
      "empty_Service\<lparr>S_price := Val 650\<rparr>" d4, THEN conjunct2, THEN conjunct2, THEN conjunct2, THEN conjunct1]
  have f4: "map s_price (services d4) = [Some 650, Some 500]"
      "map s_name (services d4) = [Some ''Trim'', Some ''Cut'']"
    using s u4
    by (simp_all add: serviceDb_update_assign empty_Service_def example_db_def
        example_service_row_def later_clock_def)
  note t = partial_update [of later_clock "''p2''" _ example_db _ _ _ _ _ _ _ empty_Product d5, THEN conjunct2, THEN conjunct2, THEN conjunct2, THEN conjunct2, THEN conjunct1]
  have f5: "map p_updated_at (products d5) = [Some ''2024-01-01 00:00:00'', Some ''2023-11-14T22:14:20.000Z'']"
      "map p_name (products d5) = [Some ''Wax'', Some ''Gel'']"
    using t u5
    by (simp_all add: productDb_update_assign empty_Product_def example_db_def
        example_product_row_def later_clock_def)
  show ?thesis
    by (intro exI [of _ d1] exI [of _ d2] exI [of _ d3] exI [of _ d4] exI [of _ d5] conjI
        u1 u2 u3 u4 u5 f1 f2 f3 f4 f5)
qed

section \<open>What \<open>create\<close> returns\<close>

text \<open>
  Claim C3 as stated: the record \<open>create\<close> returns carries every default applied
  to an omitted field. \<open>employeeDb.create\<close> returns \<open>{ ...employee, id }\<close>:
  for an employee passed without rating and working hours the stored row has rating 5
  and hours 09:00 to 18:00, the returned record has neither.
\<close>

theorem employee_defaults_counterexample:
  "employeeDb_create example_clock example_employee empty_db
     = Inr (example_employee\<lparr>E_id := Val ''emp-1700000000000''\<rparr>,
            empty_db\<lparr>employees := [example_employee_stored]\<rparr>) \<and>
   E_rating (example_employee\<lparr>E_id := Val ''emp-1700000000000''\<rparr>) = Undefined \<and>
   E_workingHours (example_employee\<lparr>E_id := Val ''emp-1700000000000''\<rparr>) = Undefined \<and>
   e_rating example_employee_stored = Some 5 \<and>
   e_working_hours_start example_employee_stored = Some ''09:00'' \<and>
   e_working_hours_end example_employee_stored = Some ''18:00''"
  by (simp add: employeeDb_create_def example_clock_def example_employee_def empty_Employee_def
      empty_db_def example_employee_stored_def string_of_nat.simps sql_insert_def guard_def
      employees_violation_def taken_def or_str_def or_num_def opt_start_def opt_end_def
      JSON_stringify_def Let_def)

text \<open>
  Claim C3, amended. For customer, employee and tally item, \<open>create\<close> returns the
  record it was given with the generated id; a customer also gets visitCount 0,
  totalSpent 0 and lastVisit now, a tally item paymentDate now and no upiTransactionId.
  The defaults for omitted or falsy fields (employee email and phone \<open>""\<close>,
  specialties \<open>[]\<close>, rating 5, nextAvailable \<open>Now\<close>, working hours 09:00
  to 18:00; customer notes \<open>""\<close>) are written to the stored row only.
\<close>

theorem create_returns_input_with_id:
  "(customerDb_create clk c d = Inr (cr, d1) \<longrightarrow>
      cr = c\<lparr>C_id := Val (''cust-'' @ string_of_nat (Date_now clk)), C_visitCount := Val 0,
             C_totalSpent := Val 0, C_lastVisit := Val (toISOString clk)\<rparr>
      \<and> (\<exists>row. customers d1 = customers d @ [row]
            \<and> c_id row = Some (''cust-'' @ string_of_nat (Date_now clk))
            \<and> c_visit_count row = Some 0 \<and> c_total_spent row = Some 0
            \<and> c_last_visit row = Some (toISOString clk)
            \<and> c_notes row = bind (or_str (C_notes c) ''''))) \<and>
   (employeeDb_create clk e d = Inr (er, d2) \<longrightarrow>
      er = e\<lparr>E_id := Val (''emp-'' @ string_of_nat (Date_now clk))\<rparr>
      \<and> (\<exists>row. employees d2 = employees d @ [row]
            \<and> e_id row = Some (''emp-'' @ string_of_nat (Date_now clk))
            \<and> e_email row = bind (or_str (E_email e) '''')
            \<and> e_phone row = bind (or_str (E_phone e) '''')
            \<and> e_specialties row =
                  stringify (if truthy_obj (E_specialties e) then E_specialties e else Val [])
            \<and> e_rating row = bind (or_num (E_rating e) 5)
            \<and> e_next_available row = bind (or_str (E_nextAvailable e) ''Now'')
            \<and> e_working_hours_start row = bind (or_str (opt_start (E_workingHours e)) ''09:00'')
            \<and> e_working_hours_end row = bind (or_str (opt_end (E_workingHours e)) ''18:00''))) \<and>
   (tallyDb_create clk t d = Inr (tr, d3) \<longrightarrow>
      tr = t\<lparr>T_id := Val (''tally-'' @ string_of_nat (Date_now clk)),
             T_paymentDate := Val (toISOString clk), T_upiTransactionId := Undefined\<rparr>
      \<and> (\<exists>row. tally_items d3 = tally_items d @ [row]
            \<and> t_id row = Some (''tally-'' @ string_of_nat (Date_now clk))
            \<and> t_payment_status row = bind (T_paymentStatus t)
            \<and> t_payment_date row = Some (toISOString clk)
            \<and> t_upi_transaction_id row = None))"
proof (intro conjI impI)
  assume "customerDb_create clk c d = Inr (cr, d1)"
  from customerDb_create_Inr [OF this]
  show "cr = c\<lparr>C_id := Val (''cust-'' @ string_of_nat (Date_now clk)), C_visitCount := Val 0,
             C_totalSpent := Val 0, C_lastVisit := Val (toISOString clk)\<rparr>"
    and "\<exists>row. customers d1 = customers d @ [row]
            \<and> c_id row = Some (''cust-'' @ string_of_nat (Date_now clk))
            \<and> c_visit_count row = Some 0 \<and> c_total_spent row = Some 0
            \<and> c_last_visit row = Some (toISOString clk)
            \<and> c_notes row = bind (or_str (C_notes c) '''')"
    by auto
next
  assume "employeeDb_create clk e d = Inr (er, d2)"
  from employeeDb_create_Inr [OF this]
  show "er = e\<lparr>E_id := Val (''emp-'' @ string_of_nat (Date_now clk))\<rparr>"
    and "\<exists>row. employees d2 = employees d @ [row]
            \<and> e_id row = Some (''emp-'' @ string_of_nat (Date_now clk))
            \<and> e_email row = bind (or_str (E_email e) '''')
            \<and> e_phone row = bind (or_str (E_phone e) '''')
            \<and> e_specialties row =
                  stringify (if truthy_obj (E_specialties e) then E_specialties e else Val [])
            \<and> e_rating row = bind (or_num (E_rating e) 5)
            \<and> e_next_available row = bind (or_str (E_nextAvailable e) ''Now'')
            \<and> e_working_hours_start row = bind (or_str (opt_start (E_workingHours e)) ''09:00'')
            \<and> e_working_hours_end row = bind (or_str (opt_end (E_workingHours e)) ''18:00'')"
    by auto
next
  assume "tallyDb_create clk t d = Inr (tr, d3)"
  from tallyDb_create_Inr [OF this]
  show "tr = t\<lparr>T_id := Val (''tally-'' @ string_of_nat (Date_now clk)),
             T_paymentDate := Val (toISOString clk), T_upiTransactionId := Undefined\<rparr>"
    and "\<exists>row. tally_items d3 = tally_items d @ [row]
            \<and> t_id row = Some (''tally-'' @ string_of_nat (Date_now clk))
            \<and> t_payment_status row = bind (T_paymentStatus t)
            \<and> t_payment_date row = Some (toISOString clk)
            \<and> t_upi_transaction_id row = None"
    by auto
qed

theorem create_returns_input_with_id_witness:
  "\<exists>cr d1 er d2 tr d3.
     customerDb_create example_clock full_customer example_db = Inr (cr, d1) \<and>
     C_id cr = Val ''cust-1700000000000'' \<and> C_visitCount cr = Val 0 \<and> C_totalSpent cr = Val 0 \<and>
     C_lastVisit cr = Val ''2023-11-14T22:13:20.000Z'' \<and> C_name cr = Val ''Asha'' \<and>
     employeeDb_create example_clock example_employee example_db = Inr (er, d2) \<and>
     E_id er = Val ''emp-1700000000000'' \<and> E_rating er = Undefined \<and>
     E_workingHours er = Undefined \<and>
     (\<exists>row. employees d2 = employees example_db @ [row] \<and> e_rating row = Some 5
        \<and> e_working_hours_start row = Some ''09:00'' \<and> e_working_hours_end row = Some ''18:00'') \<and>
     tallyDb_create example_clock example_item example_db = Inr (tr, d3) \<and>
     T_id tr = Val ''tally-1700000000000'' \<and> T_paymentDate tr = Val ''2023-11-14T22:13:20.000Z'' \<and>
     T_upiTransactionId tr = Undefined \<and> T_paymentStatus tr = Val ''pending''"
proof -
  obtain cr d1 where c: "customerDb_create example_clock full_customer example_db = Inr (cr, d1)"
    by (simp add: customerDb_create_def example_clock_def full_customer_def example_db_def
        example_customer_row_def sql_insert_def guard_def customers_violation_def check_in_def
        taken_def or_str_def string_of_nat.simps Let_def)
  obtain er d2 where e: "employeeDb_create example_clock example_employee example_db = Inr (er, d2)"
    by (simp add: employeeDb_create_def example_clock_def example_employee_def empty_Employee_def
        example_db_def example_employee_row_def sql_insert_def guard_def employees_violation_def
        taken_def string_of_nat.simps Let_def)
  obtain tr d3 where t: "tallyDb_create example_clock example_item example_db = Inr (tr, d3)"
    by (simp add: tallyDb_create_def example_clock_def example_item_def example_db_def
        example_tally_row_def sql_insert_def guard_def tally_items_violation_def check_in_def
        taken_def string_of_nat.simps Let_def)
  note s = create_returns_input_with_id
    [of example_clock full_customer example_db cr d1 example_employee er d2 example_item tr d3]
  have n: "string_of_nat (Date_now example_clock) = ''1700000000000''"
    by (simp add: example_clock_def string_of_nat.simps)
  have iso: "toISOString example_clock = ''2023-11-14T22:13:20.000Z''"
    by (simp add: example_clock_def)
  from s c have cr: "cr = full_customer\<lparr>C_id := Val (''cust-'' @ string_of_nat (Date_now example_clock)),
      C_visitCount := Val 0, C_totalSpent := Val 0, C_lastVisit := Val (toISOString example_clock)\<rparr>"
    by blast
  have 1: "C_id cr = Val ''cust-1700000000000''" "C_visitCount cr = Val 0" "C_totalSpent cr = Val 0"
      "C_lastVisit cr = Val ''2023-11-14T22:13:20.000Z''" "C_name cr = Val ''Asha''"
    by (simp_all add: cr n iso full_customer_def)
  from s e have er: "er = example_employee\<lparr>E_id := Val (''emp-'' @ string_of_nat (Date_now example_clock))\<rparr>"
    by blast
  have 2: "E_id er = Val ''emp-1700000000000''" "E_rating er = Undefined"
      "E_workingHours er = Undefined"
    by (simp_all add: er n example_employee_def empty_Employee_def)
  from s e obtain row where row: "employees d2 = employees example_db @ [row]"
      "e_rating row = bind (or_num (E_rating example_employee) 5)"
      "e_working_hours_start row = bind (or_str (opt_start (E_workingHours example_employee)) ''09:00'')"
      "e_working_hours_end row = bind (or_str (opt_end (E_workingHours example_employee)) ''18:00'')"
    by blast
  have 3: "\<exists>row. employees d2 = employees example_db @ [row] \<and> e_rating row = Some 5
        \<and> e_working_hours_start row = Some ''09:00'' \<and> e_working_hours_end row = Some ''18:00''"
    by (rule exI [of _ row])
       (simp add: row example_employee_def empty_Employee_def or_num_def or_str_def
         opt_start_def opt_end_def)
  from s t have tr: "tr = example_item\<lparr>T_id := Val (''tally-'' @ string_of_nat (Date_now example_clock)),
      T_paymentDate := Val (toISOString example_clock), T_upiTransactionId := Undefined\<rparr>"
    by blast
  have 4: "T_id tr = Val ''tally-1700000000000''" "T_paymentDate tr = Val ''2023-11-14T22:13:20.000Z''"
      "T_upiTransactionId tr = Undefined" "T_paymentStatus tr = Val ''pending''"
    by (simp_all add: tr n iso example_item_def)
  show ?thesis
    by (intro exI [of _ cr] exI [of _ d1] exI [of _ er] exI [of _ d2] exI [of _ tr]
        exI [of _ d3] conjI c e t 1 2 3 4)
qed

section \<open>Seeding\<close>

lemma forEach_frame:
  assumes "\<And>x d d'. f x d = Inr d' \<Longrightarrow> P d' = P d"
  shows "P (fst (forEach f xs d)) = P d"
  using assms by (induction xs arbitrary: d) (auto split: sum.splits)

lemma insertCustomer_Inr:
  "insertCustomer clk c d = Inr d1 \<Longrightarrow>
     \<exists>row. d1 = d\<lparr>customers := customers d @ [row]\<rparr> \<and> c_id row = bind (C_id c)
       \<and> c_visit_count row = bind (C_visitCount c) \<and> c_total_spent row = bind (C_totalSpent c)
       \<and> c_last_visit row = bind (C_lastVisit c) \<and> c_notes row = bind (C_notes c)"
  by (auto simp: insertCustomer_def Let_def split: sum.splits dest!: sql_insert_Inr)

lemma insertEmployee_Inr:
  "insertEmployee clk e d = Inr d1 \<Longrightarrow>
     \<exists>row. d1 = d\<lparr>employees := employees d @ [row]\<rparr> \<and> e_id row = bind (E_id e)
       \<and> e_email row = Some [] \<and> e_phone row = Some [] \<and> e_rating row = bind (E_rating e)"
  by (auto simp: insertEmployee_def Let_def split: sum.splits js.splits dest!: sql_insert_Inr)

lemma insertService_Inr:
  "insertService clk s d = Inr d1 \<Longrightarrow> \<exists>row. d1 = d\<lparr>services := services d @ [row]\<rparr>"
  by (auto simp: insertService_def Let_def split: sum.splits dest!: sql_insert_Inr)

lemma insertProduct_Inr:
  "insertProduct clk p d = Inr d1 \<Longrightarrow> \<exists>row. d1 = d\<lparr>products := products d @ [row]\<rparr>"
  by (auto simp: insertProduct_def Let_def split: sum.splits dest!: sql_insert_Inr)

lemma seed_frame:
  assumes "\<And>c d d'. insertCustomer clk c d = Inr d' \<Longrightarrow> P d' = P d"
    and "\<And>c d d'. insertEmployee clk c d = Inr d' \<Longrightarrow> P d' = P d"
    and "\<And>c d d'. insertService clk c d = Inr d' \<Longrightarrow> P d' = P d"
    and "\<And>c d d'. insertProduct clk c d = Inr d' \<Longrightarrow> P d' = P d"
  shows "P (fst (seed clk m d)) = P d"
proof -
  have a: "P (fst (forEach (insertCustomer clk) xs d)) = P d" for xs d
    using assms(1) by (rule forEach_frame)
  have b: "P (fst (forEach (insertEmployee clk) xs d)) = P d" for xs d
    using assms(2) by (rule forEach_frame)
  have c: "P (fst (forEach (insertService clk) xs d)) = P d" for xs d
    using assms(3) by (rule forEach_frame)
  have e: "P (fst (forEach (insertProduct clk) xs d)) = P d" for xs d
    using assms(4) by (rule forEach_frame)
  show ?thesis
    unfolding seed_def
    by (auto split: prod.splits option.splits)
       (metis a b c e fst_conv)+
qed

lemma seed_appointments: "appointments (fst (seed clk m d)) = appointments d"
  by (rule seed_frame)
     (auto dest!: insertCustomer_Inr insertEmployee_Inr insertService_Inr insertProduct_Inr)

lemma seed_tally_items: "tally_items (fst (seed clk m d)) = tally_items d"
  by (rule seed_frame)
     (auto dest!: insertCustomer_Inr insertEmployee_Inr insertService_Inr insertProduct_Inr)

lemma forEach_count:
  assumes "\<And>x d d'. f x d = Inr d' \<Longrightarrow> n d' = Suc (n d)"
  shows "snd (forEach f xs d) = None \<Longrightarrow> n (fst (forEach f xs d)) = n d + length xs"
  using assms by (induction xs arbitrary: d) (auto split: sum.splits)

lemma seed_counts:
  assumes ok: "snd (seed clk m d) = None"
  shows "length (customers (fst (seed clk m d))) = length (customers d) + length (mockCustomers m)
       \<and> length (employees (fst (seed clk m d))) = length (employees d) + length (mockEmployees m)
       \<and> length (services (fst (seed clk m d))) = length (services d) + length (mockServices m)
       \<and> length (products (fst (seed clk m d))) = length (products d) + length (mockProducts m)"
proof -
  define p1 where "p1 = forEach (insertCustomer clk) (mockCustomers m) d"
  define p2 where "p2 = forEach (insertEmployee clk) (mockEmployees m) (fst p1)"
  define p3 where "p3 = forEach (insertService clk) (mockServices m) (fst p2)"
  define p4 where "p4 = forEach (insertProduct clk) (mockProducts m) (fst p3)"
  have s: "seed clk m d =
      (case p1 of (d1, Some e) \<Rightarrow> (d1, Some e)
       | (d1, None) \<Rightarrow>
          (case p2 of (d2, Some e) \<Rightarrow> (d2, Some e)
           | (d2, None) \<Rightarrow> (case p3 of (d3, Some e) \<Rightarrow> (d3, Some e) | (d3, None) \<Rightarrow> p4)))"
    by (auto simp: seed_def p1_def p2_def p3_def p4_def split: prod.splits option.splits)
  from ok have n1: "snd p1 = None" and n2: "snd p2 = None" and n3: "snd p3 = None"
    and n4: "snd p4 = None" and f: "fst (seed clk m d) = fst p4"
    unfolding s by (auto split: prod.splits option.splits)
  have c1: "length (customers (fst p1)) = length (customers d) + length (mockCustomers m)"
    unfolding p1_def
    by (rule forEach_count [where n = "\<lambda>d. length (customers d)"])
       (auto dest!: insertCustomer_Inr simp: n1 [unfolded p1_def])
  have c2: "length (employees (fst p2)) = length (employees (fst p1)) + length (mockEmployees m)"
    unfolding p2_def
    by (rule forEach_count [where n = "\<lambda>d. length (employees d)"])
       (auto dest!: insertEmployee_Inr simp: n2 [unfolded p2_def])
  have c3: "length (services (fst p3)) = length (services (fst p2)) + length (mockServices m)"
    unfolding p3_def
    by (rule forEach_count [where n = "\<lambda>d. length (services d)"])
       (auto dest!: insertService_Inr simp: n3 [unfolded p3_def])
  have c4: "length (products (fst p4)) = length (products (fst p3)) + length (mockProducts m)"
    unfolding p4_def
    by (rule forEach_count [where n = "\<lambda>d. length (products d)"])
       (auto dest!: insertProduct_Inr simp: n4 [unfolded p4_def])
  have k1: "employees (fst p1) = employees d" "services (fst p1) = services d"
      "products (fst p1) = products d"
    unfolding p1_def by (rule forEach_frame; auto dest!: insertCustomer_Inr)+
  have k2: "customers (fst p2) = customers (fst p1)" "services (fst p2) = services (fst p1)"
      "products (fst p2) = products (fst p1)"
    unfolding p2_def by (rule forEach_frame; auto dest!: insertEmployee_Inr)+
  have k3: "customers (fst p3) = customers (fst p2)" "employees (fst p3) = employees (fst p2)"
      "products (fst p3) = products (fst p2)"
    unfolding p3_def by (rule forEach_frame; auto dest!: insertService_Inr)+
  have k4: "customers (fst p4) = customers (fst p3)" "employees (fst p4) = employees (fst p3)"
      "services (fst p4) = services (fst p3)"
    unfolding p4_def by (rule forEach_frame; auto dest!: insertProduct_Inr)+
  show ?thesis
    by (simp add: f c1 c2 c3 c4 k1 k2 k3 k4)
qed

lemma bootstrap_nonempty: "customers d \<noteq> [] \<Longrightarrow> bootstrap clk m (Some d) = (d, None)"
  by (simp add: bootstrap_def initDatabase_def createTables_def insertInitialData_def)

lemma bootstrap_empty:
  "customers (createTables file) = [] \<Longrightarrow> bootstrap clk m file = seed clk m (createTables file)"
  by (simp add: bootstrap_def initDatabase_def insertInitialData_def Let_def)

lemma initDatabase_schedules:
  "initDatabase file = (createTables file, customers (createTables file) = [])"
  by (simp add: initDatabase_def insertInitialData_def Let_def)

lemma insertService_is_create: "insertService = serviceDb_create"
  by (intro ext) (simp add: insertService_def serviceDb_create_def)

lemma insertProduct_is_create: "insertProduct = productDb_create"
  by (intro ext) (simp add: insertProduct_def productDb_create_def)

text \<open>
  Claim C4 as stated: the seed records are inserted through the same insert paths as
  normal creation. \<open>insertInitialData\<close> runs INSERT statements of its own; for
  a customer the statement stores the record's own id, visit count, total, last visit
  and notes, where \<open>customerDb.create\<close> stores a generated id, 0, 0, the current
  time and \<open>notes || ''\<close>.
\<close>

theorem seed_is_not_create_counterexample:
  "insertCustomer example_clock seed_customer empty_db
     = Inr (empty_db\<lparr>customers := [seeded_customer_row]\<rparr>) \<and>
   customerDb_create example_clock seed_customer empty_db
     = Inr (seed_customer\<lparr>C_id := Val ''cust-1700000000000'', C_visitCount := Val 0,
              C_totalSpent := Val 0, C_lastVisit := Val ''2023-11-14T22:13:20.000Z''\<rparr>,
            empty_db\<lparr>customers := [created_customer_row]\<rparr>) \<and>
   c_id seeded_customer_row = Some ''1'' \<and> c_id created_customer_row = Some ''cust-1700000000000'' \<and>
   c_visit_count seeded_customer_row = Some 12 \<and> c_visit_count created_customer_row = Some 0 \<and>
   c_notes seeded_customer_row = None \<and> c_notes created_customer_row = Some ''''"
  by (simp add: insertCustomer_def customerDb_create_def example_clock_def seed_customer_def
      empty_db_def seeded_customer_row_def created_customer_row_def string_of_nat.simps
      sql_insert_def guard_def customers_violation_def check_in_def taken_def or_str_def
      stringify_svc1 Let_def)

text \<open>
  Claim C4, amended. Seeding is scheduled when and only when the customers table is empty;
  a bootstrap on a database with a customer inserts nothing. The seed callback inserts
  into customers, employees, services and products only (never appointments or tally
  items), one row per seed record when no statement fails. For services and products
  the statement is that of \<open>serviceDb.create\<close> and \<open>productDb.create\<close>; for
  customers and employees it is the seed loader's own, storing the record's own id and
  values (employee email and phone as \<open>""\<close>).
\<close>

theorem seeding:
  "(customers d \<noteq> [] \<longrightarrow> bootstrap clk m (Some d) = (d, None)) \<and>
   initDatabase file = (createTables file, customers (createTables file) = []) \<and>
   (customers (createTables file) = [] \<longrightarrow> bootstrap clk m file = seed clk m (createTables file)) \<and>
   appointments (fst (seed clk m d)) = appointments d \<and>
   tally_items (fst (seed clk m d)) = tally_items d \<and>
   (snd (seed clk m d) = None \<longrightarrow>
      length (customers (fst (seed clk m d))) = length (customers d) + length (mockCustomers m)
      \<and> length (employees (fst (seed clk m d))) = length (employees d) + length (mockEmployees m)
      \<and> length (services (fst (seed clk m d))) = length (services d) + length (mockServices m)
      \<and> length (products (fst (seed clk m d))) = length (products d) + length (mockProducts m)) \<and>
   insertService = serviceDb_create \<and> insertProduct = productDb_create \<and>
   (insertCustomer clk c d = Inr d1 \<longrightarrow>
      (\<exists>row. d1 = d\<lparr>customers := customers d @ [row]\<rparr> \<and> c_id row = bind (C_id c)
         \<and> c_visit_count row = bind (C_visitCount c) \<and> c_total_spent row = bind (C_totalSpent c)
         \<and> c_last_visit row = bind (C_lastVisit c) \<and> c_notes row = bind (C_notes c))) \<and>
   (insertEmployee clk e d = Inr d2 \<longrightarrow>
      (\<exists>row. d2 = d\<lparr>employees := employees d @ [row]\<rparr> \<and> e_id row = bind (E_id e)
         \<and> e_email row = Some [] \<and> e_phone row = Some [] \<and> e_rating row = bind (E_rating e)))"
  using bootstrap_nonempty [of d clk m] initDatabase_schedules [of "file"]
    bootstrap_empty [of "file" clk m] seed_appointments [of clk m d] seed_tally_items [of clk m d]
    seed_counts [of clk m d] insertService_is_create insertProduct_is_create
    insertCustomer_Inr [of clk c d d1] insertEmployee_Inr [of clk e d d2]
  by (intro conjI impI) (assumption | blast)+

theorem seeding_witness:
  "bootstrap example_clock example_mock (Some example_db) = (example_db, None) \<and>
   initDatabase None = (empty_db, True) \<and>
   bootstrap example_clock example_mock None = seed example_clock example_mock empty_db \<and>
   map c_id (customers (fst (bootstrap example_clock example_mock None))) = [Some ''1''] \<and>
   snd (seed example_clock example_mock example_db) = None \<and>
   length (customers (fst (seed example_clock example_mock example_db))) = 3 \<and>
   length (employees (fst (seed example_clock example_mock example_db))) = 3 \<and>
   length (services (fst (seed example_clock example_mock example_db))) = 3 \<and>
   length (products (fst (seed example_clock example_mock example_db))) = 3 \<and>
   appointments (fst (seed example_clock example_mock example_db)) = appointments example_db \<and>
   tally_items (fst (seed example_clock example_mock example_db)) = tally_items example_db \<and>
   (\<exists>d1. insertCustomer example_clock seed_customer example_db = Inr d1
      \<and> map c_id (customers d1) = [Some ''c1'', Some ''c2'', Some ''1'']
      \<and> map c_visit_count (customers d1) = [Some 0, Some 0, Some 12]) \<and>
   (\<exists>d2. insertEmployee example_clock seed_employee example_db = Inr d2
      \<and> map e_id (employees d2) = [Some ''e1'', Some ''e2'', Some ''emp-1'']
      \<and> map e_rating (employees d2) = [Some 5, Some 5, Some 4.5])"
proof -
  have ne: "customers example_db \<noteq> []"
    by (simp add: example_db_def)
  have em: "customers (createTables None) = []" "createTables None = empty_db"
    by (simp_all add: createTables_def empty_db_def)
  have ok: "snd (seed example_clock example_mock example_db) = None"
    by (simp add: seed_def example_mock_def insertCustomer_def insertEmployee_def
        insertService_def insertProduct_def seed_customer_def seed_employee_def
        seed_service_def seed_product_def example_db_def example_customer_row_def
        example_employee_row_def example_service_row_def example_product_row_def
        example_clock_def sql_insert_def guard_def customers_violation_def
        employees_violation_def services_violation_def products_violation_def check_in_def
        taken_def Let_def)
  have fresh: "map c_id (customers (fst (seed example_clock example_mock empty_db))) = [Some ''1'']"
    by (simp add: seed_def example_mock_def insertCustomer_def insertEmployee_def
        insertService_def insertProduct_def seed_customer_def seed_employee_def
        seed_service_def seed_product_def empty_db_def
        example_clock_def sql_insert_def guard_def customers_violation_def
        employees_violation_def services_violation_def products_violation_def check_in_def
        taken_def Let_def)
  obtain d1 where i1: "insertCustomer example_clock seed_customer example_db = Inr d1"
    by (simp add: insertCustomer_def seed_customer_def example_db_def example_customer_row_def
        example_clock_def sql_insert_def guard_def customers_violation_def check_in_def
        taken_def Let_def)
  obtain d2 where i2: "insertEmployee example_clock seed_employee example_db = Inr d2"
    by (simp add: insertEmployee_def seed_employee_def example_db_def example_employee_row_def
        example_clock_def sql_insert_def guard_def employees_violation_def taken_def Let_def)
  note s = seeding [of example_db example_clock example_mock None seed_customer d1 seed_employee d2]
  have 1: "bootstrap example_clock example_mock (Some example_db) = (example_db, None)"
    using s ne by blast
  have 2: "initDatabase None = (empty_db, True)"
    using s em by simp
  have 3: "bootstrap example_clock example_mock None = seed example_clock example_mock empty_db"
    using s em by simp
  have 4: "map c_id (customers (fst (bootstrap example_clock example_mock None))) = [Some ''1'']"
    using 3 fresh by simp
  have 5: "length (customers (fst (seed example_clock example_mock example_db))) = 3"
      "length (employees (fst (seed example_clock example_mock example_db))) = 3"
      "length (services (fst (seed example_clock example_mock example_db))) = 3"
      "length (products (fst (seed example_clock example_mock example_db))) = 3"
    using s ok by (simp_all add: example_db_def example_mock_def)
  have 6: "appointments (fst (seed example_clock example_mock example_db)) = appointments example_db"
      "tally_items (fst (seed example_clock example_mock example_db)) = tally_items example_db"
    using s by blast+
  from s i1 obtain row where r: "d1 = example_db\<lparr>customers := customers example_db @ [row]\<rparr>"
      "c_id row = bind (C_id seed_customer)" "c_visit_count row = bind (C_visitCount seed_customer)"
    by blast
  have 7: "\<exists>d1. insertCustomer example_clock seed_customer example_db = Inr d1
      \<and> map c_id (customers d1) = [Some ''c1'', Some ''c2'', Some ''1'']
      \<and> map c_visit_count (customers d1) = [Some 0, Some 0, Some 12]"
  proof (intro exI [of _ d1] conjI i1)
    show "map c_id (customers d1) = [Some ''c1'', Some ''c2'', Some ''1'']"
      by (simp add: r seed_customer_def example_db_def example_customer_row_def)
    show "map c_visit_count (customers d1) = [Some 0, Some 0, Some 12]"
      by (simp add: r seed_customer_def example_db_def example_customer_row_def)
  qed
  from s i2 obtain row' where r': "d2 = example_db\<lparr>employees := employees example_db @ [row']\<rparr>"
      "e_id row' = bind (E_id seed_employee)" "e_rating row' = bind (E_rating seed_employee)"
    by blast
  have 8: "\<exists>d2. insertEmployee example_clock seed_employee example_db = Inr d2
      \<and> map e_id (employees d2) = [Some ''e1'', Some ''e2'', Some ''emp-1'']
      \<and> map e_rating (employees d2) = [Some 5, Some 5, Some 4.5]"
  proof (intro exI [of _ d2] conjI i2)
    show "map e_id (employees d2) = [Some ''e1'', Some ''e2'', Some ''emp-1'']"
      by (simp add: r' seed_employee_def example_db_def example_employee_row_def)
    show "map e_rating (employees d2) = [Some 5, Some 5, Some 4.5]"
      by (simp add: r' seed_employee_def example_db_def example_employee_row_def)
  qed
  show ?thesis
    by (intro conjI 1 2 3 4 ok 5 6 7 8)
qed

section \<open>Ids that match no row\<close>

text \<open>
  Claim C5. Not-found is never an error: when no row has the id, \<open>getById\<close> returns
  \<open>null\<close>, and every \<open>update\<close>, \<open>delete\<close> and
  \<open>updatePaymentStatus\<close> returns normally with the database unchanged.
\<close>

theorem not_found_is_silent:
  "(Some i \<notin> set (map c_id (customers d)) \<longrightarrow>
      customerDb_getById i d = Inr None \<and> customerDb_update clk i cu d = Inr d
      \<and> customerDb_delete i d = Inr d) \<and>
   (Some i \<notin> set (map e_id (employees d)) \<longrightarrow>
      employeeDb_update clk i eu d = Inr d \<and> employeeDb_delete i d = Inr d) \<and>
   (Some i \<notin> set (map s_id (services d)) \<longrightarrow>
      serviceDb_update clk i su d = Inr d \<and> serviceDb_delete i d = Inr d) \<and>
   (Some i \<notin> set (map p_id (products d)) \<longrightarrow>
      productDb_update clk i pu d = Inr d \<and> productDb_delete i d = Inr d) \<and>
   (Some i \<notin> set (map a_id (appointments d)) \<longrightarrow> appointmentDb_update clk i au d = Inr d) \<and>
   (Some i \<notin> set (map t_id (tally_items d)) \<longrightarrow>
      tallyDb_updatePaymentStatus clk i status upi d = Inr d)"
  by (simp add: customerDb_getById_def customerDb_update_def customerDb_delete_def
      employeeDb_update_def employeeDb_delete_def serviceDb_update_def serviceDb_delete_def
      productDb_update_def productDb_delete_def appointmentDb_update_def
      tallyDb_updatePaymentStatus_def sql_get_miss sql_update_miss sql_delete_miss)

theorem not_found_is_silent_witness:
  "customerDb_getById ''nobody'' example_db = Inr None \<and>
   customerDb_update example_clock ''nobody'' empty_Customer example_db = Inr example_db \<and>
   customerDb_delete ''nobody'' example_db = Inr example_db \<and>
   employeeDb_update example_clock ''nobody'' empty_Employee example_db = Inr example_db \<and>
   employeeDb_delete ''nobody'' example_db = Inr example_db \<and>
   serviceDb_update example_clock ''nobody'' empty_Service example_db = Inr example_db \<and>
   serviceDb_delete ''nobody'' example_db = Inr example_db \<and>
   productDb_update example_clock ''nobody'' empty_Product example_db = Inr example_db \<and>
   productDb_delete ''nobody'' example_db = Inr example_db \<and>
   appointmentDb_update example_clock ''nobody'' empty_Appointment example_db = Inr example_db \<and>
   tallyDb_updatePaymentStatus example_clock ''nobody'' ''completed'' (Val ''TXN9'') example_db = Inr example_db"
  using not_found_is_silent [of "''nobody''" example_db example_clock empty_Customer empty_Employee
      empty_Service empty_Product empty_Appointment "''completed''" "Val ''TXN9''"]
  by (simp add: example_db_def example_customer_row_def example_employee_row_def
      example_service_row_def example_product_row_def example_appointment_row_def
      example_tally_row_def)

section \<open>The operations each repository offers\<close>

text \<open>
  Claim C6 as stated: each of the six repositories offers getAll, getById, create, update
  and delete. Only \<open>customerDb\<close> does.
\<close>

theorem missing_operations_counterexample:
  "getById \<notin> set employeeDb \<and> getById \<notin> set serviceDb \<and> getById \<notin> set productDb \<and>
   getById \<notin> set appointmentDb \<and> delete \<notin> set appointmentDb \<and>
   getById \<notin> set tallyDb \<and> update \<notin> set tallyDb \<and> delete \<notin> set tallyDb"
  by (simp add: employeeDb_def serviceDb_def productDb_def appointmentDb_def tallyDb_def)

text \<open>
  Claim C6, amended. \<open>customerDb\<close> offers getAll, getById, create, update and delete;
  \<open>employeeDb\<close>, \<open>serviceDb\<close> and \<open>productDb\<close> offer getAll, create,
  update and delete; \<open>appointmentDb\<close> offers getAll, create and update;
  \<open>tallyDb\<close> offers getAll, create and updatePaymentStatus.
  \<open>customerDb.getById\<close> returns \<open>null\<close> when no row matches, and a delete
  that returns has removed every row with the id and nothing else.
\<close>

theorem repository_operations:
  "set customerDb = {getAll, getById, create, update, delete} \<and>
   set employeeDb = {getAll, create, update, delete} \<and>
   set serviceDb = {getAll, create, update, delete} \<and>
   set productDb = {getAll, create, update, delete} \<and>
   set appointmentDb = {getAll, create, update} \<and>
   set tallyDb = {getAll, create, updatePaymentStatus} \<and>
   (Some i \<notin> set (map c_id (customers d)) \<longrightarrow> customerDb_getById i d = Inr None) \<and>
   (customerDb_delete i d = Inr d' \<longrightarrow>
      d' = d\<lparr>customers := filter (\<lambda>r. c_id r \<noteq> Some i) (customers d)\<rparr>
      \<and> Some i \<notin> set (map c_id (customers d'))) \<and>
   (employeeDb_delete i d = Inr d' \<longrightarrow>
      d' = d\<lparr>employees := filter (\<lambda>r. e_id r \<noteq> Some i) (employees d)\<rparr>
      \<and> Some i \<notin> set (map e_id (employees d'))) \<and>
   serviceDb_delete i d = Inr (d\<lparr>services := filter (\<lambda>r. s_id r \<noteq> Some i) (services d)\<rparr>) \<and>
   productDb_delete i d = Inr (d\<lparr>products := filter (\<lambda>r. p_id r \<noteq> Some i) (products d)\<rparr>)"
proof -
  have k: "set customerDb = {getAll, getById, create, update, delete}"
      "set employeeDb = {getAll, create, update, delete}"
      "set serviceDb = {getAll, create, update, delete}"
      "set productDb = {getAll, create, update, delete}"
      "set appointmentDb = {getAll, create, update}"
      "set tallyDb = {getAll, create, updatePaymentStatus}"
    by (simp_all add: customerDb_def employeeDb_def serviceDb_def productDb_def
        appointmentDb_def tallyDb_def)
  have g: "Some i \<notin> set (map c_id (customers d)) \<longrightarrow> customerDb_getById i d = Inr None"
    by (simp add: customerDb_getById_def sql_get_miss)
  have c: "customerDb_delete i d = Inr d' \<longrightarrow>
      d' = d\<lparr>customers := filter (\<lambda>r. c_id r \<noteq> Some i) (customers d)\<rparr>
      \<and> Some i \<notin> set (map c_id (customers d'))"
    by (auto simp: customerDb_delete_def sql_delete_def split: if_splits)
  have e: "employeeDb_delete i d = Inr d' \<longrightarrow>
      d' = d\<lparr>employees := filter (\<lambda>r. e_id r \<noteq> Some i) (employees d)\<rparr>
      \<and> Some i \<notin> set (map e_id (employees d'))"
    by (auto simp: employeeDb_delete_def sql_delete_def split: if_splits)
  have s: "serviceDb_delete i d = Inr (d\<lparr>services := filter (\<lambda>r. s_id r \<noteq> Some i) (services d)\<rparr>)"
    by (simp add: serviceDb_delete_def sql_delete_def)
  have p: "productDb_delete i d = Inr (d\<lparr>products := filter (\<lambda>r. p_id r \<noteq> Some i) (products d)\<rparr>)"
    by (simp add: productDb_delete_def sql_delete_def)
  show ?thesis
    by (intro conjI k g c e s p)
qed

theorem repository_operations_witness:
  "customerDb_getById ''c3'' example_db = Inr None \<and>
   customerDb_delete ''c2'' example_db
     = Inr (example_db\<lparr>customers := [example_customer_row ''c1'' ''Zed'' ''111'']\<rparr>) \<and>
   Some ''c2'' \<notin> set (map c_id (customers
     (example_db\<lparr>customers := [example_customer_row ''c1'' ''Zed'' ''111'']\<rparr>))) \<and>
   employeeDb_delete ''e2'' example_db
     = Inr (example_db\<lparr>employees := [example_employee_row ''e1'' ''Mia'']\<rparr>) \<and>
   customerDb_delete ''c1'' example_db = Inl (SqliteError FOREIGNKEY) \<and>
   serviceDb_delete ''s1'' example_db
     = Inr (example_db\<lparr>services := [example_service_row ''s2'' ''Cut'']\<rparr>) \<and>
   productDb_delete ''p1'' example_db
     = Inr (example_db\<lparr>products := [example_product_row ''p2'' ''Gel'']\<rparr>)"
proof -
  have 1: "customerDb_delete ''c2'' example_db
     = Inr (example_db\<lparr>customers := [example_customer_row ''c1'' ''Zed'' ''111'']\<rparr>)"
    by (simp add: customerDb_delete_def sql_get_def sql_delete_def example_db_def
        example_customer_row_def example_appointment_row_def)
  have 2: "employeeDb_delete ''e2'' example_db
     = Inr (example_db\<lparr>employees := [example_employee_row ''e1'' ''Mia'']\<rparr>)"
    by (simp add: employeeDb_delete_def sql_get_def sql_delete_def example_db_def
        example_employee_row_def example_appointment_row_def)
  have 3: "customerDb_delete ''c1'' example_db = Inl (SqliteError FOREIGNKEY)"
    by (simp add: customerDb_delete_def sql_get_def sql_delete_def example_db_def
        example_customer_row_def example_appointment_row_def)
  have 4: "Some ''c3'' \<notin> set (map c_id (customers example_db))"
    by (simp add: example_db_def example_customer_row_def)
  note r = repository_operations [of "''c3''" example_db]
  have 5: "customerDb_getById ''c3'' example_db = Inr None"
    using r 4 by blast
  note s = repository_operations [of "''s1''" example_db]
  have 6: "serviceDb_delete ''s1'' example_db
     = Inr (example_db\<lparr>services := [example_service_row ''s2'' ''Cut'']\<rparr>)"
    using s by (simp add: example_db_def example_service_row_def)
  note p = repository_operations [of "''p1''" example_db]
  have 7: "productDb_delete ''p1'' example_db
     = Inr (example_db\<lparr>products := [example_product_row ''p2'' ''Gel'']\<rparr>)"
    using p by (simp add: example_db_def example_product_row_def)
  note c = repository_operations [of "''c2''" example_db
      "example_db\<lparr>customers := [example_customer_row ''c1'' ''Zed'' ''111'']\<rparr>"]
  have 8: "Some ''c2'' \<notin> set (map c_id (customers
             (example_db\<lparr>customers := [example_customer_row ''c1'' ''Zed'' ''111'']\<rparr>)))"
    using c 1 by blast
  show ?thesis
    by (intro conjI 5 1 8 2 3 6 7)
qed

section \<open>Decoding the JSON columns\<close>

text \<open>
  Claim C7 as stated: in every JSON list column, NULL or the empty string reads as an empty
  list. It fails for \<open>appointments.service_ids\<close> and \<open>tally_items.services\<close>,
  which are parsed without the \<open>|| '[]'\<close> guard: the empty string raises a
  SyntaxError and \<open>getAll\<close> fails.
\<close>

theorem empty_service_ids_counterexample:
  "a_service_ids (example_appointment_row ''a9'' ''2024-02-02'' ''10:00'' '''') = Some '''' \<and>
   appointmentDb_getAll
     (example_db\<lparr>appointments := [example_appointment_row ''a9'' ''2024-02-02'' ''10:00'' '''']\<rparr>)
     = Inl SyntaxError \<and>
   t_services (example_tally_row ''t9'' ''2024-02-02'' ''10:00'' '''' None) = Some '''' \<and>
   tallyDb_getAll
     (example_db\<lparr>tally_items := [example_tally_row ''t9'' ''2024-02-02'' ''10:00'' '''' None]\<rparr>)
     = Inl SyntaxError"
  by (simp add: appointmentDb_getAll_def tallyDb_getAll_def example_appointment_row_def
      example_tally_row_def Appointment_of_row_def TallyItem_of_row_def JSON_parse_column_def
      JSON_parse_empty)

text \<open>
  Claim C7, amended. In the nullable columns \<open>customers.preferred_services\<close> and
  \<open>employees.specialties\<close>, NULL and the empty string read as the empty list, and
  decoding fails exactly on a non-empty text that \<open>JSON.parse\<close> rejects. In the
  NOT NULL columns \<open>appointments.service_ids\<close> and \<open>tally_items.services\<close>
  decoding fails exactly on a text that \<open>JSON.parse\<close> rejects, the empty string
  included (a NULL, which the schema forbids, would read as \<open>null\<close>). Every
  failure is a SyntaxError and propagates: \<open>getAll\<close> raises it exactly when some
  row of the table cannot be decoded, \<open>getById\<close> exactly when the row it selects
  cannot be decoded.
\<close>

theorem json_column_decoding:
  "(c_preferred_services cr = None \<or> c_preferred_services cr = Some [] \<longrightarrow>
      (\<exists>c. Customer_of_row cr = Inr c \<and> C_preferredServices c = JArr [])) \<and>
   (e_specialties er = None \<or> e_specialties er = Some [] \<longrightarrow>
      (\<exists>c. Employee_of_row er = Inr c \<and> E_specialties c = JArr [])) \<and>
   (a_service_ids ar = Some [] \<longrightarrow> Appointment_of_row ar = Inl SyntaxError) \<and>
   (t_services tr = Some [] \<longrightarrow> TallyItem_of_row tr = Inl SyntaxError) \<and>
   (a_service_ids ar = None \<longrightarrow> (\<exists>a. Appointment_of_row ar = Inr a \<and> A_serviceIds a = JNull)) \<and>
   (t_services tr = None \<longrightarrow> (\<exists>t. TallyItem_of_row tr = Inr t \<and> T_services t = JNull)) \<and>
   (Customer_of_row cr = Inl e \<longleftrightarrow>
      e = SyntaxError \<and> (\<exists>s. c_preferred_services cr = Some s \<and> s \<noteq> [] \<and> JSON_parse s = Inl e)) \<and>
   (Employee_of_row er = Inl e \<longleftrightarrow>
      e = SyntaxError \<and> (\<exists>s. e_specialties er = Some s \<and> s \<noteq> [] \<and> JSON_parse s = Inl e)) \<and>
   (Appointment_of_row ar = Inl e \<longleftrightarrow>
      e = SyntaxError \<and> (\<exists>s. a_service_ids ar = Some s \<and> JSON_parse s = Inl e)) \<and>
   (TallyItem_of_row tr = Inl e \<longleftrightarrow>
      e = SyntaxError \<and> (\<exists>s. t_services tr = Some s \<and> JSON_parse s = Inl e)) \<and>
   (customerDb_getAll d = Inl e \<longleftrightarrow>
      e = SyntaxError \<and> (\<exists>r \<in> set (customers d). Customer_of_row r = Inl SyntaxError)) \<and>
   (customerDb_getById i d = Inl e \<longleftrightarrow>
      (\<exists>r. sql_get c_id i (customers d) = Some r \<and> Customer_of_row r = Inl e)) \<and>
   (customerDb_getById i d = Inl e \<longrightarrow>
      (\<exists>r \<in> set (customers d). c_id r = Some i \<and> Customer_of_row r = Inl e)) \<and>
   (employeeDb_getAll d = Inl e \<longleftrightarrow>
      e = SyntaxError \<and> (\<exists>r \<in> set (employees d). Employee_of_row r = Inl SyntaxError)) \<and>
   (appointmentDb_getAll d = Inl e \<longleftrightarrow>
      e = SyntaxError \<and> (\<exists>r \<in> set (appointments d). Appointment_of_row r = Inl SyntaxError)) \<and>
   (tallyDb_getAll d = Inl e \<longleftrightarrow>
      e = SyntaxError \<and> (\<exists>r \<in> set (tally_items d). TallyItem_of_row r = Inl SyntaxError))"
  by (intro conjI impI Customer_of_row_Inl_iff Employee_of_row_Inl_iff
      Appointment_of_row_Inl_iff TallyItem_of_row_Inl_iff customerDb_getAll_Inl_iff
      customerDb_getById_Inl_iff employeeDb_getAll_Inl_iff appointmentDb_getAll_Inl_iff
      tallyDb_getAll_Inl_iff)
     (erule Customer_of_row_empty Employee_of_row_empty Appointment_of_row_empty
        TallyItem_of_row_empty Appointment_of_row_NULL TallyItem_of_row_NULL
        customerDb_getById_Inl)+

theorem json_column_decoding_witness:
  "(\<exists>c. Customer_of_row ((example_customer_row ''c1'' ''Zed'' ''111'')\<lparr>c_preferred_services := None\<rparr>)
          = Inr c \<and> C_preferredServices c = JArr []) \<and>
   (\<exists>c. Employee_of_row ((example_employee_row ''e1'' ''Mia'')\<lparr>e_specialties := Some ''''\<rparr>)
          = Inr c \<and> E_specialties c = JArr []) \<and>
   Appointment_of_row (example_appointment_row ''a9'' ''2024-02-02'' ''10:00'' '''') = Inl SyntaxError \<and>
   TallyItem_of_row (example_tally_row ''t9'' ''2024-02-02'' ''10:00'' '''' None) = Inl SyntaxError \<and>
   (\<exists>a. Appointment_of_row
           ((example_appointment_row ''a9'' ''2024-02-02'' ''10:00'' '''')\<lparr>a_service_ids := None\<rparr>)
          = Inr a \<and> A_serviceIds a = JNull) \<and>
   (\<exists>t. TallyItem_of_row
           ((example_tally_row ''t9'' ''2024-02-02'' ''10:00'' '''' None)\<lparr>t_services := None\<rparr>)
          = Inr t \<and> T_services t = JNull) \<and>
   JSON_parse ''['' = Inl SyntaxError \<and>
   Customer_of_row ((example_customer_row ''c1'' ''Zed'' ''111'')\<lparr>c_preferred_services := Some ''[''\<rparr>)
     = Inl SyntaxError \<and>
   Employee_of_row ((example_employee_row ''e1'' ''Mia'')\<lparr>e_specialties := Some ''[''\<rparr>)
     = Inl SyntaxError \<and>
   customerDb_getAll unreadable_db = Inl SyntaxError \<and>
   customerDb_getById ''c1'' unreadable_db = Inl SyntaxError \<and>
   employeeDb_getAll unreadable_db = Inl SyntaxError \<and>
   appointmentDb_getAll unreadable_db = Inl SyntaxError \<and>
   tallyDb_getAll unreadable_db = Inl SyntaxError"
proof -
  note A = json_column_decoding
    [of "(example_customer_row ''c1'' ''Zed'' ''111'')\<lparr>c_preferred_services := None\<rparr>"
        "(example_employee_row ''e1'' ''Mia'')\<lparr>e_specialties := Some ''''\<rparr>"
        "example_appointment_row ''a9'' ''2024-02-02'' ''10:00'' ''''"
        "example_tally_row ''t9'' ''2024-02-02'' ''10:00'' '''' None"
        SyntaxError unreadable_db "''c1''"]
  note B = json_column_decoding
    [of "(example_customer_row ''c1'' ''Zed'' ''111'')\<lparr>c_preferred_services := Some ''[''\<rparr>"
        "(example_employee_row ''e1'' ''Mia'')\<lparr>e_specialties := Some ''[''\<rparr>"
        "(example_appointment_row ''a9'' ''2024-02-02'' ''10:00'' '''')\<lparr>a_service_ids := None\<rparr>"
        "(example_tally_row ''t9'' ''2024-02-02'' ''10:00'' '''' None)\<lparr>t_services := None\<rparr>"
        SyntaxError unreadable_db "''c1''"]
  have h: "c_preferred_services
             ((example_customer_row ''c1'' ''Zed'' ''111'')\<lparr>c_preferred_services := None\<rparr>) = None"
      "e_specialties ((example_employee_row ''e1'' ''Mia'')\<lparr>e_specialties := Some ''''\<rparr>) = Some []"
      "a_service_ids (example_appointment_row ''a9'' ''2024-02-02'' ''10:00'' '''') = Some []"
      "t_services (example_tally_row ''t9'' ''2024-02-02'' ''10:00'' '''' None) = Some []"
      "a_service_ids
         ((example_appointment_row ''a9'' ''2024-02-02'' ''10:00'' '''')\<lparr>a_service_ids := None\<rparr>) = None"
      "t_services
         ((example_tally_row ''t9'' ''2024-02-02'' ''10:00'' '''' None)\<lparr>t_services := None\<rparr>) = None"
    by (simp_all add: example_appointment_row_def example_tally_row_def)
  have p: "JSON_parse ''['' = Inl SyntaxError"
    by (rule JSON_parse_open_bracket)
  have k: "c_preferred_services
             ((example_customer_row ''c1'' ''Zed'' ''111'')\<lparr>c_preferred_services := Some ''[''\<rparr>)
             = Some ''[''"
      "e_specialties ((example_employee_row ''e1'' ''Mia'')\<lparr>e_specialties := Some ''[''\<rparr>) = Some ''[''"
    by simp_all
  have c: "Customer_of_row
             ((example_customer_row ''c1'' ''Zed'' ''111'')\<lparr>c_preferred_services := Some ''[''\<rparr>)
             = Inl SyntaxError"
    using B k(1) p by simp
  have e: "Employee_of_row ((example_employee_row ''e1'' ''Mia'')\<lparr>e_specialties := Some ''[''\<rparr>)
             = Inl SyntaxError"
    using B k(2) p by simp
  have a: "Appointment_of_row (example_appointment_row ''a9'' ''2024-02-02'' ''10:00'' '''')
             = Inl SyntaxError"
    and t: "TallyItem_of_row (example_tally_row ''t9'' ''2024-02-02'' ''10:00'' '''' None)
             = Inl SyntaxError"
    using A h by blast+
  have rows: "customers unreadable_db =
        [(example_customer_row ''c1'' ''Zed'' ''111'')\<lparr>c_preferred_services := Some ''[''\<rparr>]"
      "employees unreadable_db = [(example_employee_row ''e1'' ''Mia'')\<lparr>e_specialties := Some ''[''\<rparr>]"
      "appointments unreadable_db = [example_appointment_row ''a9'' ''2024-02-02'' ''10:00'' '''']"
      "tally_items unreadable_db = [example_tally_row ''t9'' ''2024-02-02'' ''10:00'' '''' None]"
    by (simp_all add: unreadable_db_def)
  have sel: "sql_get c_id ''c1'' (customers unreadable_db) =
        Some ((example_customer_row ''c1'' ''Zed'' ''111'')\<lparr>c_preferred_services := Some ''[''\<rparr>)"
    by (simp add: rows sql_get_def example_customer_row_def)
  have g1: "customerDb_getAll unreadable_db = Inl SyntaxError"
    using A c by (simp add: rows)
  have g2: "customerDb_getById ''c1'' unreadable_db = Inl SyntaxError"
    using A c sel by simp
  have g3: "employeeDb_getAll unreadable_db = Inl SyntaxError"
    using A e by (simp add: rows)
  have g4: "appointmentDb_getAll unreadable_db = Inl SyntaxError"
    using A a by (simp add: rows)
  have g5: "tallyDb_getAll unreadable_db = Inl SyntaxError"
    using A t by (simp add: rows)
  from A h have x1: "\<exists>c. Customer_of_row
        ((example_customer_row ''c1'' ''Zed'' ''111'')\<lparr>c_preferred_services := None\<rparr>)
          = Inr c \<and> C_preferredServices c = JArr []"
    by blast
  from A h have x2: "\<exists>c. Employee_of_row ((example_employee_row ''e1'' ''Mia'')\<lparr>e_specialties := Some ''''\<rparr>)
          = Inr c \<and> E_specialties c = JArr []"
    by blast
  from B h have x3: "\<exists>a. Appointment_of_row
           ((example_appointment_row ''a9'' ''2024-02-02'' ''10:00'' '''')\<lparr>a_service_ids := None\<rparr>)
          = Inr a \<and> A_serviceIds a = JNull"
    by blast
  from B h have x4: "\<exists>t. TallyItem_of_row
           ((example_tally_row ''t9'' ''2024-02-02'' ''10:00'' '''' None)\<lparr>t_services := None\<rparr>)
          = Inr t \<and> T_services t = JNull"
    by blast
  show ?thesis
    by (intro conjI x1 x2 a t x3 x4 p c e g1 g2 g3 g4 g5)
qed

section \<open>Ordering of \<open>getAll\<close>\<close>

text \<open>
  Claim C9. In every store state, \<open>getAll\<close> lists customers, employees, services and
  products by name ascending, appointments by (date, time) ascending and tally items by
  (date, time) descending. The order is SQLite's: NULL first, then text compared byte by
  byte. The list holds every row of the table, each row once: for services and products
  the rows themselves, for the other four the record decoded from each row. Where
  \<open>getAll\<close> decodes a JSON column it returns whenever every row can be decoded.
\<close>

theorem getAll_ordering:
  "(customerDb_getAll d = Inr cs \<longrightarrow>
      sorted (map (\<lambda>c. bind (C_name c)) cs)
      \<and> mset (map Inr cs) = mset (map Customer_of_row (customers d))) \<and>
   ((\<forall>r \<in> set (customers d). \<exists>c. Customer_of_row r = Inr c) \<longrightarrow>
      (\<exists>cs. customerDb_getAll d = Inr cs)) \<and>
   (employeeDb_getAll d = Inr es \<longrightarrow>
      sorted (map (\<lambda>e. bind (E_name e)) es)
      \<and> mset (map Inr es) = mset (map Employee_of_row (employees d))) \<and>
   ((\<forall>r \<in> set (employees d). \<exists>e. Employee_of_row r = Inr e) \<longrightarrow>
      (\<exists>es. employeeDb_getAll d = Inr es)) \<and>
   sorted (map s_name (serviceDb_getAll d)) \<and> mset (serviceDb_getAll d) = mset (services d) \<and>
   sorted (map p_name (productDb_getAll d)) \<and> mset (productDb_getAll d) = mset (products d) \<and>
   (appointmentDb_getAll d = Inr as \<longrightarrow>
      sorted (map (\<lambda>a. (bind (A_date a), bind (A_time a))) as)
      \<and> mset (map Inr as) = mset (map Appointment_of_row (appointments d))) \<and>
   ((\<forall>r \<in> set (appointments d). \<exists>a. Appointment_of_row r = Inr a) \<longrightarrow>
      (\<exists>as. appointmentDb_getAll d = Inr as)) \<and>
   (tallyDb_getAll d = Inr ts \<longrightarrow>
      sorted_wrt (\<lambda>x y. y \<le> x) (map (\<lambda>t. (bind (T_date t), bind (T_time t))) ts)
      \<and> mset (map Inr ts) = mset (map TallyItem_of_row (tally_items d))) \<and>
   ((\<forall>r \<in> set (tally_items d). \<exists>t. TallyItem_of_row r = Inr t) \<longrightarrow>
      (\<exists>ts. tallyDb_getAll d = Inr ts))"
  by (intro conjI impI customerDb_getAll_sorted employeeDb_getAll_sorted
      appointmentDb_getAll_sorted tallyDb_getAll_sorted customerDb_getAll_rows
      employeeDb_getAll_rows appointmentDb_getAll_rows tallyDb_getAll_rows
      customerDb_getAll_total employeeDb_getAll_total appointmentDb_getAll_total
      tallyDb_getAll_total)
     (simp_all add: serviceDb_getAll_def productDb_getAll_def)

theorem getAll_ordering_witness:
  "(\<exists>cs. customerDb_getAll example_db = Inr cs \<and> map C_name cs = [Val ''Asha'', Val ''Zed'']
      \<and> sorted (map (\<lambda>c. bind (C_name c)) cs)
      \<and> mset (map Inr cs) = mset (map Customer_of_row (customers example_db))) \<and>
   (\<exists>es. employeeDb_getAll example_db = Inr es \<and> map E_name es = [Val ''Bo'', Val ''Mia'']
      \<and> sorted (map (\<lambda>e. bind (E_name e)) es)
      \<and> mset (map Inr es) = mset (map Employee_of_row (employees example_db))) \<and>
   map s_name (serviceDb_getAll example_db) = [Some ''Cut'', Some ''Trim''] \<and>
   sorted (map s_name (serviceDb_getAll example_db)) \<and>
   mset (serviceDb_getAll example_db) = mset (services example_db) \<and>
   map p_name (productDb_getAll example_db) = [Some ''Gel'', Some ''Wax''] \<and>
   sorted (map p_name (productDb_getAll example_db)) \<and>
   mset (productDb_getAll example_db) = mset (products example_db) \<and>
   (\<exists>as. appointmentDb_getAll example_db = Inr as \<and> map A_id as = [Val ''a2'', Val ''a1'']
      \<and> sorted (map (\<lambda>a. (bind (A_date a), bind (A_time a))) as)
      \<and> mset (map Inr as) = mset (map Appointment_of_row (appointments example_db))) \<and>
   (\<exists>ts. tallyDb_getAll example_db = Inr ts \<and> map T_id ts = [Val ''t2'', Val ''t1'']
      \<and> sorted_wrt (\<lambda>x y. y \<le> x) (map (\<lambda>t. (bind (T_date t), bind (T_time t))) ts)
      \<and> mset (map Inr ts) = mset (map TallyItem_of_row (tally_items example_db)))"
proof -
  obtain cs where cs: "customerDb_getAll example_db = Inr cs"
      "map C_name cs = [Val ''Asha'', Val ''Zed'']"
    by (simp add: customerDb_getAll_def example_db_def example_customer_row_def
        Customer_of_row_def text_or_def JSON_parse_empty_array)
  obtain es where es: "employeeDb_getAll example_db = Inr es"
      "map E_name es = [Val ''Bo'', Val ''Mia'']"
    by (simp add: employeeDb_getAll_def example_db_def example_employee_row_def
        Employee_of_row_def text_or_def JSON_parse_empty_array)
  obtain as where as: "appointmentDb_getAll example_db = Inr as"
      "map A_id as = [Val ''a2'', Val ''a1'']"
    by (simp add: appointmentDb_getAll_def example_db_def example_appointment_row_def
        Appointment_of_row_def JSON_parse_column_def JSON_parse_empty_array)
  obtain ts where ts: "tallyDb_getAll example_db = Inr ts"
      "map T_id ts = [Val ''t2'', Val ''t1'']"
    by (simp add: tallyDb_getAll_def example_db_def example_tally_row_def
        TallyItem_of_row_def JSON_parse_column_def JSON_parse_empty_array)
  have s: "map s_name (serviceDb_getAll example_db) = [Some ''Cut'', Some ''Trim'']"
    by (simp add: serviceDb_getAll_def example_db_def example_service_row_def)
  have p: "map p_name (productDb_getAll example_db) = [Some ''Gel'', Some ''Wax'']"
    by (simp add: productDb_getAll_def example_db_def example_product_row_def)
  note o = getAll_ordering [of example_db cs es as ts]
  have 1: "sorted (map (\<lambda>c. bind (C_name c)) cs)
      \<and> mset (map Inr cs) = mset (map Customer_of_row (customers example_db))"
    using o cs(1) by blast
  have 2: "sorted (map (\<lambda>e. bind (E_name e)) es)
      \<and> mset (map Inr es) = mset (map Employee_of_row (employees example_db))"
    using o es(1) by blast
  have 3: "sorted (map s_name (serviceDb_getAll example_db))"
      "mset (serviceDb_getAll example_db) = mset (services example_db)"
    using o by blast+
  have 4: "sorted (map p_name (productDb_getAll example_db))"
      "mset (productDb_getAll example_db) = mset (products example_db)"
    using o by blast+
  have 5: "sorted (map (\<lambda>a. (bind (A_date a), bind (A_time a))) as)
      \<and> mset (map Inr as) = mset (map Appointment_of_row (appointments example_db))"
    using o as(1) by blast
  have 6: "sorted_wrt (\<lambda>x y. y \<le> x) (map (\<lambda>t. (bind (T_date t), bind (T_time t))) ts)
      \<and> mset (map Inr ts) = mset (map TallyItem_of_row (tally_items example_db))"
    using o ts(1) by blast
  have e1: "\<exists>cs. customerDb_getAll example_db = Inr cs \<and> map C_name cs = [Val ''Asha'', Val ''Zed'']
      \<and> sorted (map (\<lambda>c. bind (C_name c)) cs)
      \<and> mset (map Inr cs) = mset (map Customer_of_row (customers example_db))"
    using cs 1 by (intro exI [of _ cs] conjI) blast+
  have e2: "\<exists>es. employeeDb_getAll example_db = Inr es \<and> map E_name es = [Val ''Bo'', Val ''Mia'']
      \<and> sorted (map (\<lambda>e. bind (E_name e)) es)
      \<and> mset (map Inr es) = mset (map Employee_of_row (employees example_db))"
    using es 2 by (intro exI [of _ es] conjI) blast+
  have e5: "\<exists>as. appointmentDb_getAll example_db = Inr as \<and> map A_id as = [Val ''a2'', Val ''a1'']
      \<and> sorted (map (\<lambda>a. (bind (A_date a), bind (A_time a))) as)
      \<and> mset (map Inr as) = mset (map Appointment_of_row (appointments example_db))"
    using as 5 by (intro exI [of _ as] conjI) blast+
  have e6: "\<exists>ts. tallyDb_getAll example_db = Inr ts \<and> map T_id ts = [Val ''t2'', Val ''t1'']
      \<and> sorted_wrt (\<lambda>x y. y \<le> x) (map (\<lambda>t. (bind (T_date t), bind (T_time t))) ts)
      \<and> mset (map Inr ts) = mset (map TallyItem_of_row (tally_items example_db))"
    using ts 6 by (intro exI [of _ ts] conjI) blast+
  show ?thesis
    by (intro conjI e1 e2 s 3 p 4 e5 e6)
qed

section \<open>A status update without a transaction id\<close>



end
